theory Spec2Isabelle
  imports Complex_Main
begin

section \<open>JavaScript values\<close>

text \<open>
  A JavaScript string is a sequence of UTF-16 code units; \<open>s[0]\<close> and \<open>s.length\<close>
  work on code units. A number is a double: it is modelled by a real, and \<open>NaN\<close>
  (where it can arise) by \<open>None\<close>.
\<close>

type_synonym jsstring = "nat list"

definition ascii :: "string \<Rightarrow> jsstring" where
  "ascii s = map of_char s"

text \<open>\<^verbatim>\<open>!s\<close> for a value that is a string, \<^verbatim>\<open>undefined\<close> or \<^verbatim>\<open>null\<close>.\<close>

definition falsy :: "jsstring option \<Rightarrow> bool" where
  "falsy s = (case s of None \<Rightarrow> True | Some t \<Rightarrow> t = [])"

text \<open>\<^verbatim>\<open>a || b\<close> on such values.\<close>

definition orElse :: "jsstring option \<Rightarrow> jsstring option \<Rightarrow> jsstring option" where
  "orElse a b = (if falsy a then b else a)"

definition startsWith :: "jsstring \<Rightarrow> jsstring \<Rightarrow> bool" where
  "startsWith s p = (take (length p) s = p)"

text \<open>\<^verbatim>\<open>/^[a-zA-Z]$/.test(name[0])\<close>: \<^verbatim>\<open>name[0]\<close> of the empty string is
  \<^verbatim>\<open>undefined\<close>, which the test converts to the nine-letter string "undefined".\<close>

definition isAsciiLetter :: "nat \<Rightarrow> bool" where
  "isAsciiLetter c = ((65 \<le> c \<and> c \<le> 90) \<or> (97 \<le> c \<and> c \<le> 122))"

definition firstIsLetter :: "jsstring \<Rightarrow> bool" where
  "firstIsLetter name = (case name of [] \<Rightarrow> False | c # _ \<Rightarrow> isAsciiLetter c)"

text \<open>\<^verbatim>\<open>s.split("/")\<close>, and \<^verbatim>\<open>xs[i]\<close> of an array (\<^verbatim>\<open>undefined\<close> out of range).\<close>

fun splitSlash :: "jsstring \<Rightarrow> jsstring \<Rightarrow> jsstring list" where
  "splitSlash acc [] = [rev acc]"
| "splitSlash acc (c # cs) =
     (if c = 47 then rev acc # splitSlash [] cs else splitSlash (c # acc) cs)"

fun index :: "'a list \<Rightarrow> nat \<Rightarrow> 'a option" where
  "index [] i = None"
| "index (x # xs) 0 = Some x"
| "index (x # xs) (Suc i) = index xs i"

text \<open>\<^verbatim>\<open>a > b\<close> and \<^verbatim>\<open>a < b\<close> on numbers that may be \<^verbatim>\<open>undefined\<close>: a comparison with
  \<^verbatim>\<open>undefined\<close> is false.\<close>

definition jsLess :: "real option \<Rightarrow> real option \<Rightarrow> bool" where
  "jsLess a b = (case (a, b) of (Some x, Some y) \<Rightarrow> x < y | _ \<Rightarrow> False)"

definition jsGreater :: "real option \<Rightarrow> real option \<Rightarrow> bool" where
  "jsGreater a b = jsLess b a"

section \<open>GeoJSON\<close>

type_synonym position = "real \<times> real"

datatype geometry =
    Point position
  | MultiPoint "position list"
  | LineString "position list"
  | MultiLineString "position list list"
  | Polygon "position list list"
  | MultiPolygon "position list list list"

text \<open>The properties this code reads from a feature.\<close>

record properties =
  name :: "jsstring option"
  name_en :: "jsstring option"
  id_prop :: "jsstring option"
  distanceToPoint :: "real option"

text \<open>
  The values that flow where the code expects GeoJSON: a feature, a feature
  collection, a plain array of features, \<^verbatim>\<open>null\<close> and \<^verbatim>\<open>undefined\<close>.
\<close>

datatype geojson =
    Feature geometry "properties option"
  | FeatureCollection "geojson list"
  | FeatureArray "geojson list"
  | Null
  | Undefined

definition noProperties :: properties where
  "noProperties = \<lparr>name = None, name_en = None, id_prop = None, distanceToPoint = None\<rparr>"

definition truthy :: "geojson \<Rightarrow> bool" where
  "truthy g = (g \<noteq> Null \<and> g \<noteq> Undefined)"

section \<open>Question descriptors\<close>

datatype apiLocation =
    Aquarium | Zoo | ThemePark | Museum | Hospital | Cinema | Library
  | GolfCourse | Consulate | Park

text \<open>The type tag \<^verbatim>\<open>"park"\<close> is \<open>Plain Park\<close>, \<^verbatim>\<open>"park-full"\<close> is \<open>Full Park\<close>;
  \<^verbatim>\<open>type.split("-full")[0]\<close> is the argument of \<open>Full\<close>.\<close>

datatype matchingType =
    Plain apiLocation
  | Full apiLocation
  | SameFirstLetterStation
  | SameLengthStation
  | SameTrainLine
  | CustomZone
  | Zone
  | LetterZone
  | Airport
  | MajorCity
  | CustomPoints

datatype measuringType =
    PlainM apiLocation
  | FullM apiLocation
  | HighspeedMeasureShinkansen
  | Coastline
  | AirportM
  | City
  | CustomMeasure
  | McDonalds
  | Seven11
  | RailMeasure

datatype lengthComparison = Shorter | Same | Longer

record matchingCat =
  adminLevel :: nat

record 't question =
  type :: 't
  lat :: real
  lng :: real
  drag :: bool
  color :: string
  collapsed :: bool
  geo :: geojson

record matchingQuestion = "matchingType question" +
  same :: bool
  lengthComparison :: "lengthComparison option"
  cat :: "matchingCat option"

record measuringQuestion = "measuringType question" +
  hiderCloser :: bool

text \<open>What a resolver returns: the sentinel \<^verbatim>\<open>false\<close>, or a value.\<close>

datatype boundary = NoBoundary | Boundary geojson

section \<open>Application context\<close>

record hiderPosition =
  latitude :: real
  longitude :: real

text \<open>A cached station: the code reads \<^verbatim>\<open>x.properties.geometry\<close> only.\<close>

record station =
  properties_geometry :: geojson

text \<open>The stores of \<^verbatim>\<open>@/lib/context\<close>, read through \<^verbatim>\<open>.get()\<close>. \<open>hiderMode\<close> is
  \<open>None\<close> for \<^verbatim>\<open>false\<close>; \<open>mapGeoJSON\<close> and \<open>polyGeoJSON\<close> are \<open>Null\<close> when unset.\<close>

record stores =
  hiderMode :: "hiderPosition option"
  mapGeoJSON :: geojson
  mapGeoLocation :: geojson
  polyGeoJSON :: geojson
  trainStations :: "station list"

section \<open>Errors, effects and the program state\<close>

text \<open>
  \<open>Error m\<close> is \<^verbatim>\<open>new Error(m)\<close>, \<open>TypeError\<close> a property read on \<^verbatim>\<open>undefined\<close> or
  \<^verbatim>\<open>null\<close>, \<open>Thrown n\<close> an exception or rejection raised inside a collaborator.
\<close>

datatype error = Error string | TypeError | Thrown nat

text \<open>
  The messages given to \<^verbatim>\<open>toast.error\<close>:
  \<^item> \<open>NoBoundaryForZone\<close>: "No boundary found for this zone";
  \<^item> \<open>NoEnglishNameForZone\<close>: "No English name found for this zone";
  \<^item> \<open>ErrorFinding l\<close>: "Error finding <l>. Please enable hiding zone mode and switch
    to the Large Game variation of this question.";
  \<^item> \<open>TooMany l n\<close>: "Too many <l> found (<n>). Please enable ...".
\<close>

datatype toast =
    NoBoundaryForZone
  | NoEnglishNameForZone
  | ErrorFinding apiLocation
  | TooMany apiLocation nat

text \<open>
  The requests made to \<^verbatim>\<open>findPlacesInZone\<close>, one constructor per call site:
  \<^item> \<open>AirportsQuery\<close>: \<^verbatim>\<open>["aeroway"="aerodrome"]["iata"]\<close>;
  \<^item> \<open>CitiesQuery\<close>: \<^verbatim>\<open>[place=city]["population"~"^[1-9]+[0-9]{6}$"]\<close>;
  \<^item> \<open>FullQuery l\<close>: \<^verbatim>\<open>[<tag of l>=l]\<close>, kind nwr, output center, timeout 60;
  \<^item> \<open>LetterZonesQuery n c\<close>: \<^verbatim>\<open>[admin_level=n]["name:en"~"^c.+"]\<close>, kind relation,
    output geom, with the alternative \<^verbatim>\<open>[admin_level=n]["name"~"^c.+"]\<close>;
  \<^item> \<open>StationsQuery\<close>: \<^verbatim>\<open>[railway=station]\<close>, kind node;
  \<^item> \<open>HighspeedQuery\<close>: \<^verbatim>\<open>[highspeed=yes]\<close>, kind way, output geom.
\<close>

datatype placesQuery =
    AirportsQuery
  | CitiesQuery
  | FullQuery apiLocation
  | LetterZonesQuery nat jsstring
  | StationsQuery
  | HighspeedQuery

datatype specificLocation = McDonaldsLocation | Seven11Location

text \<open>The trace records, in order, the notifications shown and the calls made to the
  data provider and to the mask operator and the feature combination.\<close>

datatype event =
    ToastError toast
  | FindPlacesInZone placesQuery
  | FindAdminBoundary real real nat
  | NearestToQuestion
  | TrainLineNodeFinder
  | FetchCoastline
  | FindPlacesSpecificInZone specificLocation
  | ModifyMapData
  | Combine

record state =
  matchingCache :: "jsstring \<rightharpoonup> (error + boundary)"
  bufferCache :: "jsstring \<rightharpoonup> (error + boundary)"
  highSpeedCache :: "jsstring \<rightharpoonup> geojson"
  trace :: "event list"

definition initialState :: state where
  "initialState = \<lparr>matchingCache = Map.empty, bufferCache = Map.empty,
     highSpeedCache = Map.empty, trace = []\<rparr>"

text \<open>An asynchronous computation: it runs from a state to a result, an error when
  it throws or its promise rejects, and the state it leaves.\<close>

type_synonym 'a io = "state \<Rightarrow> (error + 'a) \<times> state"

definition succeed :: "'a \<Rightarrow> 'a io" where
  "succeed x s = (Inr x, s)"

definition throw :: "error \<Rightarrow> 'a io" where
  "throw e s = (Inl e, s)"

definition andThen :: "'a io \<Rightarrow> ('a \<Rightarrow> 'b io) \<Rightarrow> 'b io" where
  "andThen m f s = (case m s of (Inl e, s') \<Rightarrow> (Inl e, s') | (Inr x, s') \<Rightarrow> f x s')"

definition pure :: "error + 'a \<Rightarrow> 'a io" where
  "pure r s = (r, s)"

definition emit :: "event \<Rightarrow> unit io" where
  "emit ev s = (Inr (), s\<lparr>trace := trace s @ [ev]\<rparr>)"

text \<open>A call to a collaborator, recorded in the trace.\<close>

definition call :: "event \<Rightarrow> error + 'a \<Rightarrow> 'a io" where
  "call ev r = andThen (emit ev) (\<lambda>_. pure r)"

text \<open>\<^verbatim>\<open>try { m } catch { h }\<close>.\<close>

definition tryCatch :: "'a io \<Rightarrow> 'a io \<Rightarrow> 'a io" where
  "tryCatch m h s = (case m s of (Inl e, s') \<Rightarrow> h s' | (Inr x, s') \<Rightarrow> (Inr x, s'))"

fun mapE :: "('a \<Rightarrow> error + 'b) \<Rightarrow> 'a list \<Rightarrow> error + 'b list" where
  "mapE f [] = Inr []"
| "mapE f (x # xs) =
     (case f x of Inl e \<Rightarrow> Inl e
      | Inr y \<Rightarrow> (case mapE f xs of Inl e \<Rightarrow> Inl e | Inr ys \<Rightarrow> Inr (y # ys)))"

section \<open>Collaborators\<close>

text \<open>What the data provider answers: \<^verbatim>\<open>{ elements, remark? }\<close>.\<close>

record tags =
  iata :: "jsstring option"

record element =
  center :: "position option"
  lon :: "real option"
  lat_el :: "real option"
  tags :: "tags option"

record overpass =
  elements :: "element list"
  remark :: "jsstring option"

datatype units = Kilometers | Miles

type_synonym bbox = "real \<times> real \<times> real \<times> real"

text \<open>The functions of \<^verbatim>\<open>@/maps/api\<close>; their code is not part of the two files. Those
  that search the current zone are given the stores they read. A collaborator
  answers the same request in the same way.\<close>

record api =
  findPlacesInZone :: "stores \<Rightarrow> placesQuery \<Rightarrow> error + overpass"
  findAdminBoundary :: "real \<Rightarrow> real \<Rightarrow> nat \<Rightarrow> error + geojson"
  nearestToQuestionMatching :: "stores \<Rightarrow> matchingQuestion \<Rightarrow> error + geojson"
  nearestToQuestionMeasuring :: "stores \<Rightarrow> measuringQuestion \<Rightarrow> error + geojson"
  trainLineNodeFinder :: "jsstring option \<Rightarrow> error + real option list"
  fetchCoastline :: "error + geojson"
  findPlacesSpecificInZone :: "stores \<Rightarrow> specificLocation \<Rightarrow> error + geojson"

text \<open>The functions of \<^verbatim>\<open>@turf/turf\<close> whose result depends on geometry.\<close>

record turf =
  booleanPointInPolygon :: "geojson \<Rightarrow> geojson \<Rightarrow> error + bool"
  nearestPoint :: "geojson \<Rightarrow> geojson \<Rightarrow> error + geojson"
  distance :: "geojson \<Rightarrow> geojson \<Rightarrow> units \<Rightarrow> error + real"
  combine :: "geojson \<Rightarrow> error + geojson"
  simplify :: "geojson \<Rightarrow> real \<Rightarrow> bool \<Rightarrow> error + geojson"
  buffer :: "geojson \<Rightarrow> real \<Rightarrow> units \<Rightarrow> nat option \<Rightarrow> error + geojson"
  difference :: "geojson \<Rightarrow> error + geojson"
  bbox_of :: "geojson \<Rightarrow> error + bbox"
  bboxPolygon :: "bbox \<Rightarrow> error + geojson"
  bboxClip :: "geojson \<Rightarrow> bbox \<Rightarrow> error + geojson"
  lineToPolygon :: "geojson \<Rightarrow> error + geojson"
  pointToPolygonDistance :: "geojson \<Rightarrow> geojson \<Rightarrow> error + real"
  polygonToLine :: "geojson \<Rightarrow> error + geojson"

text \<open>The functions of \<^verbatim>\<open>@/maps/geo-utils\<close>; their code is not part of the two files.\<close>

record geoUtils =
  holedMask :: "geojson \<Rightarrow> error + geojson"
  modifyMapData :: "geojson \<Rightarrow> geojson \<Rightarrow> bool \<Rightarrow> error + geojson"
  safeUnion :: "geojson \<Rightarrow> error + geojson"
  geoSpatialVoronoi :: "geojson \<Rightarrow> error + geojson"
  arcBufferToPoint :: "geojson \<Rightarrow> real \<Rightarrow> real \<Rightarrow> error + geojson"
  groupObjects :: "geojson list \<Rightarrow> error + geojson list list"
  connectToSeparateLines :: "position list list \<Rightarrow> error + position list list"

text \<open>The key of a memoised resolver is \<^verbatim>\<open>JSON.stringify\<close> of these objects.\<close>

record matchingSignature =
  sig_type :: matchingType
  sig_lat :: real
  sig_lng :: real
  sig_cat :: "matchingCat option"
  sig_geo :: geojson
  sig_entirety :: geojson

record measuringSignature =
  msig_type :: measuringType
  msig_lat :: real
  msig_lng :: real
  msig_entirety :: geojson
  msig_geo :: geojson

text \<open>Built-ins and \<^verbatim>\<open>osmtogeojson\<close>. \<open>upperNonAscii\<close> is \<^verbatim>\<open>toUpperCase\<close> on a code
  unit outside ASCII.\<close>

record builtins =
  stringifyMatching :: "matchingSignature \<Rightarrow> jsstring"
  stringifyMeasuring :: "measuringSignature \<Rightarrow> jsstring"
  stringifyGeometries :: "geometry option list \<Rightarrow> jsstring"
  parseInt :: "jsstring option \<Rightarrow> real option"
  upperNonAscii :: "nat \<Rightarrow> jsstring"
  osmtogeojson :: "overpass \<Rightarrow> error + geojson"

record env =
  api :: api
  turf :: turf
  utils :: geoUtils
  js :: builtins

section \<open>Helpers shared by the two files\<close>

text \<open>\<^verbatim>\<open>turf.point([a, b])\<close> throws unless both coordinates are numbers.\<close>

definition point :: "real \<Rightarrow> real \<Rightarrow> geojson" where
  "point lo la = Feature (Point (lo, la)) (Some noProperties)"

definition turfPoint :: "real option \<Rightarrow> real option \<Rightarrow> error + geojson" where
  "turfPoint a b =
     (case (a, b) of
        (Some x, Some y) \<Rightarrow> Inr (point x y)
      | _ \<Rightarrow> Inl (Error ''coordinates must contain numbers''))"

text \<open>\<^verbatim>\<open>turf.multiPolygon([])\<close>.\<close>

definition emptyMultiPolygon :: geojson where
  "emptyMultiPolygon = Feature (MultiPolygon []) (Some noProperties)"

text \<open>\<^verbatim>\<open>turf.featureCollection(xs)\<close> checks that it is given an array.\<close>

definition featureCollection :: "geojson \<Rightarrow> error + geojson" where
  "featureCollection xs =
     (case xs of
        FeatureArray fs \<Rightarrow> Inr (FeatureCollection fs)
      | Null \<Rightarrow> Inl (Error ''features is required'')
      | Undefined \<Rightarrow> Inl (Error ''features is required'')
      | _ \<Rightarrow> Inl (Error ''features must be an Array''))"

text \<open>\<^verbatim>\<open>x.features\<close>, \<^verbatim>\<open>x.features[0]\<close>, \<^verbatim>\<open>x.properties\<close> (to read a property of it) and
  \<^verbatim>\<open>x.properties?.k\<close>.\<close>

definition features :: "geojson \<Rightarrow> error + geojson" where
  "features x =
     (case x of
        FeatureCollection fs \<Rightarrow> Inr (FeatureArray fs)
      | Null \<Rightarrow> Inl TypeError
      | Undefined \<Rightarrow> Inl TypeError
      | _ \<Rightarrow> Inr Undefined)"

definition firstFeature :: "geojson \<Rightarrow> error + geojson" where
  "firstFeature x =
     (case x of
        FeatureCollection fs \<Rightarrow> Inr (case index fs 0 of None \<Rightarrow> Undefined | Some f \<Rightarrow> f)
      | _ \<Rightarrow> Inl TypeError)"

definition propertiesOf :: "geojson \<Rightarrow> error + properties" where
  "propertiesOf x = (case x of Feature _ (Some p) \<Rightarrow> Inr p | _ \<Rightarrow> Inl TypeError)"

definition propertiesOpt :: "geojson \<Rightarrow> properties option" where
  "propertiesOpt x = (case x of Feature _ p \<Rightarrow> p | _ \<Rightarrow> None)"

text \<open>The point of a provider element:
  \<^verbatim>\<open>turf.point([x.center ? x.center.lon : x.lon, x.center ? x.center.lat : x.lat])\<close>.\<close>

definition elementPoint :: "element \<Rightarrow> error + geojson" where
  "elementPoint x =
     (case center x of
        Some (clon, clat) \<Rightarrow> Inr (point clon clat)
      | None \<Rightarrow> turfPoint (lon x) (lat_el x))"

text \<open>\<^verbatim>\<open>_.uniqBy(xs, f)\<close> keeps the first element of each key.\<close>

fun uniqBy :: "('a \<Rightarrow> 'k) \<Rightarrow> 'k list \<Rightarrow> 'a list \<Rightarrow> 'a list" where
  "uniqBy f seen [] = []"
| "uniqBy f seen (x # xs) =
     (if f x \<in> set seen then uniqBy f seen xs else x # uniqBy f (f x # seen) xs)"

definition iataOf :: "element \<Rightarrow> error + jsstring option" where
  "iataOf x = (case tags x of None \<Rightarrow> Inl TypeError | Some t \<Rightarrow> Inr (iata t))"

definition uniqByIata :: "element list \<Rightarrow> error + element list" where
  "uniqByIata xs =
     (case mapE iataOf xs of
        Inl e \<Rightarrow> Inl e
      | Inr ks \<Rightarrow> Inr (map snd (uniqBy fst [] (zip ks xs))))"

text \<open>\<^verbatim>\<open>data.remark && data.remark.startsWith("runtime error")\<close>.\<close>

definition runtimeError :: "overpass \<Rightarrow> bool" where
  "runtimeError data =
     (case remark data of
        None \<Rightarrow> False
      | Some r \<Rightarrow> r \<noteq> [] \<and> startsWith r (ascii ''runtime error''))"

definition toUpperCase :: "env \<Rightarrow> jsstring \<Rightarrow> jsstring" where
  "toUpperCase env s =
     concat (map (\<lambda>c. if 97 \<le> c \<and> c \<le> 122 then [c - 32]
                      else if c < 128 then [c]
                      else upperNonAscii (js env) c) s)"

text \<open>\<^verbatim>\<open>s[0].toUpperCase()\<close>.\<close>

definition upperFirst :: "env \<Rightarrow> jsstring \<Rightarrow> error + jsstring" where
  "upperFirst env s = (case s of [] \<Rightarrow> Inl TypeError | c # _ \<Rightarrow> Inr (toUpperCase env [c]))"

definition fetchPlaces :: "env \<Rightarrow> stores \<Rightarrow> placesQuery \<Rightarrow> overpass io" where
  "fetchPlaces env ctx q = call (FindPlacesInZone q) (findPlacesInZone (api env) ctx q)"

definition toastError :: "toast \<Rightarrow> unit io" where
  "toastError t = emit (ToastError t)"

text \<open>\<^verbatim>\<open>polyGeoJSON.get() ? polyGeoJSON.get() : mapGeoLocation.get()\<close>.\<close>

definition entirety :: "stores \<Rightarrow> geojson" where
  "entirety ctx = (if truthy (polyGeoJSON ctx) then polyGeoJSON ctx else mapGeoLocation ctx)"

section \<open>matching.ts\<close>

definition findMatchingPlaces :: "env \<Rightarrow> stores \<Rightarrow> matchingQuestion \<Rightarrow> geojson io" where
  "findMatchingPlaces env ctx question =
     (case type question of
        Airport \<Rightarrow>
          andThen (fetchPlaces env ctx AirportsQuery) (\<lambda>data.
          andThen (pure (uniqByIata (elements data))) (\<lambda>unique.
          andThen (pure (mapE elementPoint unique)) (\<lambda>points.
          succeed (FeatureArray points))))
      | MajorCity \<Rightarrow>
          andThen (fetchPlaces env ctx CitiesQuery) (\<lambda>data.
          andThen (pure (mapE elementPoint (elements data))) (\<lambda>points.
          succeed (FeatureArray points)))
      | CustomPoints \<Rightarrow> succeed (geo question)
      | Full location \<Rightarrow>
          andThen (fetchPlaces env ctx (FullQuery location)) (\<lambda>data.
          if runtimeError data then
            andThen (toastError (ErrorFinding location)) (\<lambda>_. succeed (FeatureArray []))
          else if 1000 \<le> length (elements data) then
            andThen (toastError (TooMany location (length (elements data)))) (\<lambda>_.
            succeed (FeatureArray []))
          else
            andThen (pure (mapE elementPoint (elements data))) (\<lambda>points.
            succeed (FeatureArray points)))
      | _ \<Rightarrow> succeed Undefined)"

text \<open>The loop over the Voronoi cells: the first cell that contains the point, else
  \<^verbatim>\<open>undefined\<close>.\<close>

fun firstContaining :: "env \<Rightarrow> geojson \<Rightarrow> geojson list \<Rightarrow> error + geojson" where
  "firstContaining env p [] = Inr Undefined"
| "firstContaining env p (feature # rest) =
     (case booleanPointInPolygon (turf env) p feature of
        Inl e \<Rightarrow> Inl e
      | Inr inside \<Rightarrow> if inside then Inr feature else firstContaining env p rest)"

definition cellsOf :: "geojson \<Rightarrow> error + geojson list" where
  "cellsOf voronoi =
     (case voronoi of FeatureCollection fs \<Rightarrow> Inr fs | _ \<Rightarrow> Inl TypeError)"

definition isPolygonal :: "geojson \<Rightarrow> bool" where
  "isPolygonal x =
     (case x of
        Feature (Polygon _) _ \<Rightarrow> True
      | Feature (MultiPolygon _) _ \<Rightarrow> True
      | _ \<Rightarrow> False)"

text \<open>\<^verbatim>\<open>question.cat.adminLevel\<close>.\<close>

definition adminLevelOf :: "matchingQuestion \<Rightarrow> error + nat" where
  "adminLevelOf question =
     (case cat question of None \<Rightarrow> Inl TypeError | Some c \<Rightarrow> Inr (adminLevel c))"

definition lookupAdminBoundary :: "env \<Rightarrow> matchingQuestion \<Rightarrow> geojson io" where
  "lookupAdminBoundary env question =
     andThen (pure (adminLevelOf question)) (\<lambda>level.
     call (FindAdminBoundary (lat question) (lng question) level)
       (findAdminBoundary (api env) (lat question) (lng question) level))"

text \<open>\<^verbatim>\<open>zone.properties?.["name:en"]\<close> and \<^verbatim>\<open>zone.properties?.name\<close>.\<close>

definition englishNameOf :: "geojson \<Rightarrow> jsstring option" where
  "englishNameOf zone = (case propertiesOpt zone of None \<Rightarrow> None | Some p \<Rightarrow> name_en p)"

definition nativeNameOf :: "geojson \<Rightarrow> jsstring option" where
  "nativeNameOf zone = (case propertiesOpt zone of None \<Rightarrow> None | Some p \<Rightarrow> name p)"

text \<open>Lines 169 to 182 of the letter-zone case: the name whose first letter groups the
  zones, then the letter.\<close>

definition zoneLetter :: "env \<Rightarrow> geojson \<Rightarrow> jsstring io" where
  "zoneLetter env zone =
     andThen
       (if falsy (englishNameOf zone) then
          (case nativeNameOf zone of
             None \<Rightarrow> throw TypeError
           | Some native \<Rightarrow>
               if firstIsLetter native then succeed native
               else andThen (toastError NoEnglishNameForZone) (\<lambda>_.
                    throw (Error ''No English name'')))
        else (case englishNameOf zone of Some e \<Rightarrow> succeed e | None \<Rightarrow> throw TypeError))
       (\<lambda>englishName. pure (upperFirst env englishName))"

text \<open>The function given to \<^verbatim>\<open>_.memoize\<close> (lines 121 to 243).\<close>

definition determineMatchingBoundaryBody ::
    "env \<Rightarrow> stores \<Rightarrow> matchingQuestion \<Rightarrow> boundary io" where
  "determineMatchingBoundaryBody env ctx question =
     (case type question of
        Plain _ \<Rightarrow> succeed NoBoundary
      | SameFirstLetterStation \<Rightarrow> succeed NoBoundary
      | SameLengthStation \<Rightarrow> succeed NoBoundary
      | SameTrainLine \<Rightarrow> succeed NoBoundary
      | CustomZone \<Rightarrow> succeed (Boundary (geo question))
      | Zone \<Rightarrow>
          andThen (lookupAdminBoundary env question) (\<lambda>boundary.
          if \<not> truthy boundary then
            andThen (toastError NoBoundaryForZone) (\<lambda>_. throw (Error ''No boundary found''))
          else succeed (Boundary boundary))
      | LetterZone \<Rightarrow>
          andThen (lookupAdminBoundary env question) (\<lambda>zone.
          if \<not> truthy zone then
            andThen (toastError NoBoundaryForZone) (\<lambda>_. throw (Error ''No boundary found''))
          else
            andThen (zoneLetter env zone) (\<lambda>letter.
            andThen (pure (adminLevelOf question)) (\<lambda>level.
            andThen (fetchPlaces env ctx (LetterZonesQuery level letter)) (\<lambda>data.
            andThen (pure (osmtogeojson (js env) data)) (\<lambda>converted.
            andThen (pure (cellsOf converted)) (\<lambda>fs.
            andThen (pure (simplify (turf env) (FeatureCollection (filter isPolygonal fs))
                             (1 / 1000) True)) (\<lambda>simplified.
            andThen (pure (safeUnion (utils env) simplified)) (\<lambda>boundary.
            succeed (Boundary boundary)))))))))
      | _ \<Rightarrow>
          andThen (findMatchingPlaces env ctx question) (\<lambda>data.
          andThen (pure (geoSpatialVoronoi (utils env) data)) (\<lambda>voronoi.
          andThen (pure (cellsOf voronoi)) (\<lambda>cells.
          andThen (pure (firstContaining env (point (lng question) (lat question)) cells))
            (\<lambda>boundary.
          succeed (Boundary boundary))))))"

text \<open>The resolver given to \<^verbatim>\<open>_.memoize\<close> (lines 244 to 254).\<close>

definition matchingKey :: "env \<Rightarrow> stores \<Rightarrow> matchingQuestion \<Rightarrow> jsstring" where
  "matchingKey env ctx question =
     stringifyMatching (js env)
       \<lparr>sig_type = type question, sig_lat = lat question, sig_lng = lng question,
        sig_cat = cat question, sig_geo = geo question, sig_entirety = entirety ctx\<rparr>"

text \<open>
  \<^verbatim>\<open>_.memoize(f, resolver)\<close>: when the cache has the key, its value is returned;
  otherwise \<open>f\<close> is called and what it returns is stored under the key. \<open>f\<close> is
  asynchronous, so what is stored is its promise, fulfilled or rejected.
\<close>

definition determineMatchingBoundary :: "env \<Rightarrow> stores \<Rightarrow> matchingQuestion \<Rightarrow> boundary io" where
  "determineMatchingBoundary env ctx question s =
     (let key = matchingKey env ctx question in
      case matchingCache s key of
        Some r \<Rightarrow> (r, s)
      | None \<Rightarrow>
          (case determineMatchingBoundaryBody env ctx question s of
             (r, s') \<Rightarrow> (r, s'\<lparr>matchingCache := (matchingCache s')(key \<mapsto> r)\<rparr>)))"

definition adjustPerMatching ::
    "env \<Rightarrow> stores \<Rightarrow> matchingQuestion \<Rightarrow> geojson \<Rightarrow> geojson io" where
  "adjustPerMatching env ctx question mapData =
     (if mapData = Null then succeed Undefined
      else
        andThen (determineMatchingBoundary env ctx question) (\<lambda>boundary.
        case boundary of
          NoBoundary \<Rightarrow> succeed mapData
        | Boundary b \<Rightarrow>
            call ModifyMapData (modifyMapData (utils env) mapData b (same question))))"

text \<open>\<^verbatim>\<open>hiderifyMatching\<close>, lines 278 to 309: the plain categories.\<close>

definition isPlain :: "matchingType \<Rightarrow> bool" where
  "isPlain t = (case t of Plain _ \<Rightarrow> True | _ \<Rightarrow> False)"

definition hiderQuestionMatching :: "hiderPosition \<Rightarrow> matchingType \<Rightarrow> matchingQuestion" where
  "hiderQuestionMatching hider t =
     \<lparr>type = t, lat = latitude hider, lng = longitude hider, drag = False,
      color = ''black'', collapsed = False, geo = Undefined,
      same = True, lengthComparison = None, cat = None\<rparr>"

definition hiderifyMatchingNearest ::
    "env \<Rightarrow> stores \<Rightarrow> hiderPosition \<Rightarrow> matchingQuestion \<Rightarrow> matchingQuestion io" where
  "hiderifyMatchingNearest env ctx hider question =
     andThen (call NearestToQuestion (nearestToQuestionMatching (api env) ctx question))
       (\<lambda>questionNearest.
     andThen (call NearestToQuestion
                (nearestToQuestionMatching (api env) ctx
                   (hiderQuestionMatching hider (type question)))) (\<lambda>hiderNearest.
     andThen (pure (propertiesOf questionNearest)) (\<lambda>qp.
     andThen (pure (propertiesOf hiderNearest)) (\<lambda>hp.
     succeed (question\<lparr>same := (name qp = name hp)\<rparr>)))))"

text \<open>Lines 336 to 350: the train line of the seeker's station.\<close>

definition sameTrainLine ::
    "env \<Rightarrow> geojson \<Rightarrow> geojson \<Rightarrow> matchingQuestion \<Rightarrow> matchingQuestion io" where
  "sameTrainLine env nearestHiderTrainStation nearestSeekerTrainStation question =
     andThen (pure (propertiesOf nearestSeekerTrainStation)) (\<lambda>sp.
     andThen (call TrainLineNodeFinder (trainLineNodeFinder (api env) (id_prop sp)))
       (\<lambda>nodes.
     andThen (pure (propertiesOf nearestHiderTrainStation)) (\<lambda>hp.
     case id_prop hp of
       None \<Rightarrow> throw TypeError
     | Some hid \<Rightarrow>
         (let hiderId = parseInt (js env) (index (splitSlash [] hid) 1)
          in succeed (question\<lparr>same := (hiderId \<in> set nodes)\<rparr>)))))"

text \<open>Lines 352 to 382: the names of the two nearest stations.\<close>

definition compareStationNames ::
    "env \<Rightarrow> geojson \<Rightarrow> geojson \<Rightarrow> matchingQuestion \<Rightarrow> matchingQuestion io" where
  "compareStationNames env nearestHiderTrainStation nearestSeekerTrainStation question =
     andThen (pure (propertiesOf nearestHiderTrainStation)) (\<lambda>hp.
     andThen (pure (propertiesOf nearestSeekerTrainStation)) (\<lambda>sp.
     (let hiderEnglishName = orElse (name_en hp) (name hp);
          seekerEnglishName = orElse (name_en sp) (name sp)
      in case (hiderEnglishName, seekerEnglishName) of
           (Some h, Some k) \<Rightarrow>
             if h = [] \<or> k = [] then succeed question
             else if type question = SameFirstLetterStation then
               andThen (pure (upperFirst env h)) (\<lambda>hl.
               andThen (pure (upperFirst env k)) (\<lambda>sl.
               succeed (question\<lparr>same := (hl = sl)\<rparr>)))
             else if type question = SameLengthStation then
               (if length h = length k then
                  succeed (question\<lparr>lengthComparison := Some Same\<rparr>)
                else if length h < length k then
                  succeed (question\<lparr>lengthComparison := Some Shorter\<rparr>)
                else succeed (question\<lparr>lengthComparison := Some Longer\<rparr>))
             else succeed question
         | _ \<Rightarrow> succeed question)))"

text \<open>Lines 311 to 383: the station questions.\<close>

definition hiderifyMatchingStations ::
    "env \<Rightarrow> stores \<Rightarrow> hiderPosition \<Rightarrow> matchingQuestion \<Rightarrow> matchingQuestion io" where
  "hiderifyMatchingStations env ctx hider question =
     (let hiderPoint = point (longitude hider) (latitude hider);
          seekerPoint = point (lng question) (lat question)
      in
      andThen (fetchPlaces env ctx StationsQuery) (\<lambda>data.
      andThen (pure (osmtogeojson (js env) data)) (\<lambda>places.
      andThen (pure (nearestPoint (turf env) hiderPoint places)) (\<lambda>nearestHiderTrainStation.
      andThen (pure (nearestPoint (turf env) seekerPoint places)) (\<lambda>nearestSeekerTrainStation.
      andThen
        (if type question = SameTrainLine
         then sameTrainLine env nearestHiderTrainStation nearestSeekerTrainStation question
         else succeed question) (\<lambda>question.
      compareStationNames env nearestHiderTrainStation nearestSeekerTrainStation
        question))))))"

text \<open>
  Lines 385 to 411: the boundary-containment path. The two nested \<^verbatim>\<open>try\<close> blocks give
  the feature to test, or nothing when the inner \<^verbatim>\<open>catch\<close> returns the question.
\<close>

definition firstAttemptMatching :: "env \<Rightarrow> stores \<Rightarrow> matchingQuestion \<Rightarrow> geojson io" where
  "firstAttemptMatching env ctx question =
     andThen (adjustPerMatching env ctx question (mapGeoJSON ctx)) (\<lambda>adjusted.
     pure (holedMask (utils env) adjusted))"

definition retryMatching :: "env \<Rightarrow> stores \<Rightarrow> matchingQuestion \<Rightarrow> geojson io" where
  "retryMatching env ctx question =
     andThen (pure (holedMask (utils env) (mapGeoJSON ctx))) (\<lambda>holed.
     adjustPerMatching env ctx question (FeatureCollection [holed]))"

definition maskFeatureMatching ::
    "env \<Rightarrow> stores \<Rightarrow> matchingQuestion \<Rightarrow> geojson option io" where
  "maskFeatureMatching env ctx question =
     tryCatch
       (andThen (firstAttemptMatching env ctx question) (\<lambda>feature. succeed (Some feature)))
       (tryCatch
          (andThen (retryMatching env ctx question) (\<lambda>feature. succeed (Some feature)))
          (succeed None))"

definition hiderifyMatchingContainment ::
    "env \<Rightarrow> stores \<Rightarrow> hiderPosition \<Rightarrow> matchingQuestion \<Rightarrow> matchingQuestion io" where
  "hiderifyMatchingContainment env ctx hider question =
     (if mapGeoJSON ctx = Null then succeed question
      else
        andThen (maskFeatureMatching env ctx question) (\<lambda>attempt.
        case attempt of
          None \<Rightarrow> succeed question
        | Some feature \<Rightarrow>
            if feature = Null \<or> feature = Undefined then succeed question
            else
              andThen (pure (booleanPointInPolygon (turf env)
                               (point (longitude hider) (latitude hider)) feature))
                (\<lambda>inside.
              if inside then succeed (question\<lparr>same := \<not> same question\<rparr>)
              else succeed question)))"

definition hiderifyMatching ::
    "env \<Rightarrow> stores \<Rightarrow> matchingQuestion \<Rightarrow> matchingQuestion io" where
  "hiderifyMatching env ctx question =
     (case hiderMode ctx of
        None \<Rightarrow> succeed question
      | Some hider \<Rightarrow>
          if isPlain (type question) then hiderifyMatchingNearest env ctx hider question
          else if type question = SameFirstLetterStation
                  \<or> type question = SameLengthStation
                  \<or> type question = SameTrainLine
          then hiderifyMatchingStations env ctx hider question
          else hiderifyMatchingContainment env ctx hider question)"

text \<open>The result is \<open>NoBoundary\<close> for \<^verbatim>\<open>false\<close>, else the line.\<close>

definition matchingPlanningPolygon :: "env \<Rightarrow> stores \<Rightarrow> matchingQuestion \<Rightarrow> boundary io" where
  "matchingPlanningPolygon env ctx question =
     tryCatch
       (andThen (determineMatchingBoundary env ctx question) (\<lambda>boundary.
        case boundary of
          NoBoundary \<Rightarrow> succeed NoBoundary
        | Boundary b \<Rightarrow>
            andThen (pure (polygonToLine (turf env) b)) (\<lambda>line. succeed (Boundary line))))
       (succeed NoBoundary)"

section \<open>measuring.ts\<close>

text \<open>\<^verbatim>\<open>x.geometry\<close> of a feature.\<close>

definition geometryOf :: "geojson \<Rightarrow> geometry option" where
  "geometryOf x = (case x of Feature g _ \<Rightarrow> Some g | _ \<Rightarrow> None)"

definition lineCoordinates :: "geojson list \<Rightarrow> position list list" where
  "lineCoordinates members =
     concat (map (\<lambda>x. case x of Feature (LineString cs) _ \<Rightarrow> [cs] | _ \<Rightarrow> []) members)"

definition multiLineString :: "position list list \<Rightarrow> geojson" where
  "multiLineString ls = Feature (MultiLineString ls) (Some noProperties)"

definition hasCoordinates :: "geojson \<Rightarrow> bool" where
  "hasCoordinates x = (case x of Feature (MultiLineString ls) _ \<Rightarrow> ls \<noteq> [] | _ \<Rightarrow> False)"

text \<open>\<^verbatim>\<open>turf.combine\<close>, recorded in the trace.\<close>

definition combined :: "env \<Rightarrow> geojson \<Rightarrow> geojson io" where
  "combined env fc = call Combine (combine (turf env) fc)"

text \<open>The function given to \<^verbatim>\<open>_.memoize\<close> for \<^verbatim>\<open>highSpeedBase\<close> (lines 37 to 60).\<close>

definition highSpeedBaseBody :: "env \<Rightarrow> geojson list \<Rightarrow> geojson io" where
  "highSpeedBaseBody env fs =
     andThen (pure (groupObjects (utils env) fs)) (\<lambda>grouped.
     andThen (pure (mapE (\<lambda>members.
                 case connectToSeparateLines (utils env) (lineCoordinates members) of
                   Inl e \<Rightarrow> Inl e
                 | Inr ls \<Rightarrow> Inr (multiLineString ls)) grouped)) (\<lambda>lines.
     andThen (pure (simplify (turf env)
                      (FeatureCollection (filter hasCoordinates lines)) (1 / 1000) False))
       (\<lambda>simplified.
     andThen (pure (buffer (turf env) simplified (1 / 1000) Kilometers None)) (\<lambda>buffered.
     andThen (combined env buffered) (\<lambda>c.
     pure (firstFeature c))))))"

text \<open>\<open>highSpeedBase\<close> is synchronous: a call that throws stores nothing.\<close>

definition highSpeedBase :: "env \<Rightarrow> geojson list \<Rightarrow> geojson io" where
  "highSpeedBase env fs s =
     (let key = stringifyGeometries (js env) (map geometryOf fs) in
      case highSpeedCache s key of
        Some r \<Rightarrow> (Inr r, s)
      | None \<Rightarrow>
          (case highSpeedBaseBody env fs s of
             (Inl e, s') \<Rightarrow> (Inl e, s')
           | (Inr r, s') \<Rightarrow> (Inr r, s'\<lparr>highSpeedCache := (highSpeedCache s')(key \<mapsto> r)\<rparr>)))"

definition bboxExtension :: "env \<Rightarrow> bbox \<Rightarrow> real \<Rightarrow> error + bbox" where
  "bboxExtension env bBox distance0 =
     (case bboxPolygon (turf env) bBox of
        Inl e \<Rightarrow> Inl e
      | Inr poly \<Rightarrow>
     (case buffer (turf env) poly \<bar>distance0\<bar> Miles None of
        Inl e \<Rightarrow> Inl e
      | Inr grown \<Rightarrow>
     (case bbox_of (turf env) grown of
        Inl e \<Rightarrow> Inl e
      | Inr (g0, g1, g2, g3) \<Rightarrow>
     (case bBox of (b0, b1, b2, b3) \<Rightarrow>
        (let originalDeltaLat = b3 - b1; originalDeltaLng = b2 - b0
         in Inr (g0 - originalDeltaLng, g1 - originalDeltaLat,
                 g2 + originalDeltaLng, g3 + originalDeltaLat))))))"

text \<open>The result is \<open>NoBoundary\<close> for \<^verbatim>\<open>false\<close>, else the array of features.\<close>

definition determineMeasuringBoundary ::
    "env \<Rightarrow> stores \<Rightarrow> measuringQuestion \<Rightarrow> boundary io" where
  "determineMeasuringBoundary env ctx question =
     andThen (pure (bbox_of (turf env) (mapGeoJSON ctx))) (\<lambda>bBox.
     case type question of
       HighspeedMeasureShinkansen \<Rightarrow>
         andThen (fetchPlaces env ctx HighspeedQuery) (\<lambda>data.
         andThen (pure (osmtogeojson (js env) data)) (\<lambda>converted.
         andThen (pure (cellsOf converted)) (\<lambda>fs.
         andThen (highSpeedBase env fs) (\<lambda>base.
         succeed (Boundary (FeatureArray [base]))))))
     | Coastline \<Rightarrow>
         andThen (call FetchCoastline (fetchCoastline (api env))) (\<lambda>line.
         andThen (pure (lineToPolygon (turf env) line)) (\<lambda>coastline.
         andThen (pure (pointToPolygonDistance (turf env)
                          (point (lng question) (lat question)) coastline))
           (\<lambda>distanceToCoastline.
         andThen (pure (bboxPolygon (turf env) bBox)) (\<lambda>box.
         andThen (pure (bboxExtension env bBox distanceToCoastline)) (\<lambda>extended.
         andThen (pure (bboxClip (turf env) coastline extended)) (\<lambda>clipped.
         andThen (pure (buffer (turf env) clipped distanceToCoastline Miles (Some 64)))
           (\<lambda>buffered.
         andThen (pure (difference (turf env) (FeatureCollection [box, buffered])))
           (\<lambda>band.
         succeed (Boundary (FeatureArray [band]))))))))))
     | AirportM \<Rightarrow>
         andThen (fetchPlaces env ctx AirportsQuery) (\<lambda>data.
         andThen (pure (uniqByIata (elements data))) (\<lambda>unique.
         andThen (pure (mapE elementPoint unique)) (\<lambda>points.
         andThen (combined env (FeatureCollection points)) (\<lambda>c.
         andThen (pure (firstFeature c)) (\<lambda>f.
         succeed (Boundary (FeatureArray [f])))))))
     | City \<Rightarrow>
         andThen (fetchPlaces env ctx CitiesQuery) (\<lambda>data.
         andThen (pure (mapE elementPoint (elements data))) (\<lambda>points.
         andThen (combined env (FeatureCollection points)) (\<lambda>c.
         andThen (pure (firstFeature c)) (\<lambda>f.
         succeed (Boundary (FeatureArray [f]))))))
     | FullM location \<Rightarrow>
         andThen (fetchPlaces env ctx (FullQuery location)) (\<lambda>data.
         if runtimeError data then
           andThen (toastError (ErrorFinding location)) (\<lambda>_.
           succeed (Boundary (FeatureArray [emptyMultiPolygon])))
         else if 1000 \<le> length (elements data) then
           andThen (toastError (TooMany location (length (elements data)))) (\<lambda>_.
           succeed (Boundary (FeatureArray [emptyMultiPolygon])))
         else
           andThen (pure (mapE elementPoint (elements data))) (\<lambda>points.
           andThen (combined env (FeatureCollection points)) (\<lambda>c.
           andThen (pure (firstFeature c)) (\<lambda>f.
           succeed (Boundary (FeatureArray [f]))))))
     | CustomMeasure \<Rightarrow>
         andThen (pure (features (geo question))) (\<lambda>fs.
         andThen (pure (featureCollection fs)) (\<lambda>fc.
         andThen (combined env fc) (\<lambda>c.
         andThen (pure (features c)) (\<lambda>result.
         succeed (Boundary result)))))
     | _ \<Rightarrow> succeed NoBoundary)"

text \<open>The function given to \<^verbatim>\<open>_.memoize\<close> for \<^verbatim>\<open>bufferedDeterminer\<close> (lines 256 to
  266), and its resolver (lines 267 to 276).\<close>

definition bufferedDeterminerBody ::
    "env \<Rightarrow> stores \<Rightarrow> measuringQuestion \<Rightarrow> boundary io" where
  "bufferedDeterminerBody env ctx question =
     andThen (determineMeasuringBoundary env ctx question) (\<lambda>placeData.
     case placeData of
       NoBoundary \<Rightarrow> succeed NoBoundary
     | Boundary Undefined \<Rightarrow> succeed NoBoundary
     | Boundary places \<Rightarrow>
         andThen (pure (featureCollection places)) (\<lambda>fc.
         andThen (pure (arcBufferToPoint (utils env) fc (lat question) (lng question)))
           (\<lambda>buffered.
         succeed (Boundary buffered))))"

definition measuringKey :: "env \<Rightarrow> stores \<Rightarrow> measuringQuestion \<Rightarrow> jsstring" where
  "measuringKey env ctx question =
     stringifyMeasuring (js env)
       \<lparr>msig_type = type question, msig_lat = lat question, msig_lng = lng question,
        msig_entirety = entirety ctx, msig_geo = geo question\<rparr>"

definition bufferedDeterminer :: "env \<Rightarrow> stores \<Rightarrow> measuringQuestion \<Rightarrow> boundary io" where
  "bufferedDeterminer env ctx question s =
     (let key = measuringKey env ctx question in
      case bufferCache s key of
        Some r \<Rightarrow> (r, s)
      | None \<Rightarrow>
          (case bufferedDeterminerBody env ctx question s of
             (r, s') \<Rightarrow> (r, s'\<lparr>bufferCache := (bufferCache s')(key \<mapsto> r)\<rparr>)))"

definition adjustPerMeasuring ::
    "env \<Rightarrow> stores \<Rightarrow> measuringQuestion \<Rightarrow> geojson \<Rightarrow> geojson io" where
  "adjustPerMeasuring env ctx question mapData =
     (if mapData = Null then succeed Undefined
      else
        andThen (bufferedDeterminer env ctx question) (\<lambda>buffer.
        case buffer of
          NoBoundary \<Rightarrow> succeed mapData
        | Boundary b \<Rightarrow>
            call ModifyMapData (modifyMapData (utils env) mapData b (hiderCloser question))))"

text \<open>\<^verbatim>\<open>hiderifyMeasuring\<close>, lines 298 to 330: the plain categories.\<close>

definition isPlainM :: "measuringType \<Rightarrow> bool" where
  "isPlainM t = (case t of PlainM _ \<Rightarrow> True | _ \<Rightarrow> False)"

definition hiderQuestionMeasuring ::
    "hiderPosition \<Rightarrow> measuringType \<Rightarrow> measuringQuestion" where
  "hiderQuestionMeasuring hider t =
     \<lparr>type = t, lat = latitude hider, lng = longitude hider, drag = False,
      color = ''black'', collapsed = False, geo = Undefined, hiderCloser = True\<rparr>"

definition hiderifyMeasuringNearest ::
    "env \<Rightarrow> stores \<Rightarrow> hiderPosition \<Rightarrow> measuringQuestion \<Rightarrow> measuringQuestion io" where
  "hiderifyMeasuringNearest env ctx hider question =
     andThen (call NearestToQuestion (nearestToQuestionMeasuring (api env) ctx question))
       (\<lambda>questionNearest.
     andThen (call NearestToQuestion
                (nearestToQuestionMeasuring (api env) ctx
                   (hiderQuestionMeasuring hider (type question)))) (\<lambda>hiderNearest.
     andThen (pure (propertiesOf questionNearest)) (\<lambda>qp.
     andThen (pure (propertiesOf hiderNearest)) (\<lambda>hp.
     succeed (question\<lparr>hiderCloser :=
                jsGreater (distanceToPoint qp) (distanceToPoint hp)\<rparr>)))))"

text \<open>Lines 339 to 357: the nearest cached station of the seeker and of the hider.
  The distances are in the default unit, kilometres.\<close>

definition railMeasure ::
    "env \<Rightarrow> stores \<Rightarrow> hiderPosition \<Rightarrow> measuringQuestion \<Rightarrow> measuringQuestion io" where
  "railMeasure env ctx hider question =
     (let location = point (lng question) (lat question);
          stationPoints = FeatureCollection (map properties_geometry (trainStations ctx))
      in
      andThen (pure (nearestPoint (turf env) location stationPoints)) (\<lambda>nearestTrainStation.
      andThen (pure (distance (turf env) location nearestTrainStation Kilometers))
        (\<lambda>distance0.
      (let hider' = point (longitude hider) (latitude hider) in
      andThen (pure (nearestPoint (turf env) hider' stationPoints)) (\<lambda>hiderNearest.
      andThen (pure (distance (turf env) hider' hiderNearest Kilometers)) (\<lambda>hiderDistance.
      succeed (question\<lparr>hiderCloser := (hiderDistance < distance0)\<rparr>)))))))"

text \<open>Lines 360 to 383: the two fixed chains, in miles.\<close>

definition hiderifyMeasuringSpecific ::
    "env \<Rightarrow> stores \<Rightarrow> hiderPosition \<Rightarrow> measuringQuestion \<Rightarrow> measuringQuestion io" where
  "hiderifyMeasuringSpecific env ctx hider question =
     (let which = (if type question = McDonalds then McDonaldsLocation else Seven11Location)
      in
      andThen (call (FindPlacesSpecificInZone which)
                 (findPlacesSpecificInZone (api env) ctx which)) (\<lambda>points.
      (let seeker = point (lng question) (lat question) in
      andThen (pure (nearestPoint (turf env) seeker points)) (\<lambda>nearest.
      andThen (pure (distance (turf env) seeker nearest Miles)) (\<lambda>distance0.
      (let hider' = point (longitude hider) (latitude hider) in
      andThen (pure (nearestPoint (turf env) hider' points)) (\<lambda>hiderNearest.
      andThen (pure (distance (turf env) hider' hiderNearest Miles)) (\<lambda>hiderDistance.
      succeed (question\<lparr>hiderCloser := (hiderDistance < distance0)\<rparr>)))))))))"

text \<open>Lines 385 to 411: the boundary-containment path, as in \<^verbatim>\<open>matching.ts\<close>.\<close>

definition firstAttemptMeasuring :: "env \<Rightarrow> stores \<Rightarrow> measuringQuestion \<Rightarrow> geojson io" where
  "firstAttemptMeasuring env ctx question =
     andThen (adjustPerMeasuring env ctx question (mapGeoJSON ctx)) (\<lambda>adjusted.
     pure (holedMask (utils env) adjusted))"

definition retryMeasuring :: "env \<Rightarrow> stores \<Rightarrow> measuringQuestion \<Rightarrow> geojson io" where
  "retryMeasuring env ctx question =
     andThen (pure (holedMask (utils env) (mapGeoJSON ctx))) (\<lambda>holed.
     adjustPerMeasuring env ctx question (FeatureCollection [holed]))"

definition maskFeatureMeasuring ::
    "env \<Rightarrow> stores \<Rightarrow> measuringQuestion \<Rightarrow> geojson option io" where
  "maskFeatureMeasuring env ctx question =
     tryCatch
       (andThen (firstAttemptMeasuring env ctx question) (\<lambda>feature. succeed (Some feature)))
       (tryCatch
          (andThen (retryMeasuring env ctx question) (\<lambda>feature. succeed (Some feature)))
          (succeed None))"

definition hiderifyMeasuringContainment ::
    "env \<Rightarrow> stores \<Rightarrow> hiderPosition \<Rightarrow> measuringQuestion \<Rightarrow> measuringQuestion io" where
  "hiderifyMeasuringContainment env ctx hider question =
     (if mapGeoJSON ctx = Null then succeed question
      else
        andThen (maskFeatureMeasuring env ctx question) (\<lambda>attempt.
        case attempt of
          None \<Rightarrow> succeed question
        | Some feature \<Rightarrow>
            if feature = Null \<or> feature = Undefined then succeed question
            else
              andThen (pure (booleanPointInPolygon (turf env)
                               (point (longitude hider) (latitude hider)) feature))
                (\<lambda>inside.
              if inside then succeed (question\<lparr>hiderCloser := \<not> hiderCloser question\<rparr>)
              else succeed question)))"

text \<open>The \<^verbatim>\<open>rail-measure\<close> block (lines 332 to 358) returns only when no station is
  cached; otherwise control continues with the statements after it.\<close>

definition hiderifyMeasuring ::
    "env \<Rightarrow> stores \<Rightarrow> measuringQuestion \<Rightarrow> measuringQuestion io" where
  "hiderifyMeasuring env ctx question =
     (case hiderMode ctx of
        None \<Rightarrow> succeed question
      | Some hider \<Rightarrow>
          if isPlainM (type question) then hiderifyMeasuringNearest env ctx hider question
          else if type question = RailMeasure \<and> trainStations ctx = [] then succeed question
          else
            andThen
              (if type question = RailMeasure then railMeasure env ctx hider question
               else succeed question) (\<lambda>question.
            if type question = McDonalds \<or> type question = Seven11
            then hiderifyMeasuringSpecific env ctx hider question
            else hiderifyMeasuringContainment env ctx hider question))"

definition measuringPlanningPolygon ::
    "env \<Rightarrow> stores \<Rightarrow> measuringQuestion \<Rightarrow> boundary io" where
  "measuringPlanningPolygon env ctx question =
     tryCatch
       (andThen (bufferedDeterminer env ctx question) (\<lambda>buffered.
        case buffered of
          NoBoundary \<Rightarrow> succeed NoBoundary
        | Boundary b \<Rightarrow>
            andThen (pure (polygonToLine (turf env) b)) (\<lambda>line. succeed (Boundary line))))
       (succeed NoBoundary)"

section \<open>Sequences of calls\<close>

text \<open>A call to one of the functions the two files export.\<close>

datatype request =
    FindMatchingPlaces stores matchingQuestion
  | DetermineMatchingBoundary stores matchingQuestion
  | AdjustPerMatching stores matchingQuestion geojson
  | HiderifyMatching stores matchingQuestion
  | MatchingPlanningPolygon stores matchingQuestion
  | DetermineMeasuringBoundary stores measuringQuestion
  | AdjustPerMeasuring stores measuringQuestion geojson
  | HiderifyMeasuring stores measuringQuestion
  | MeasuringPlanningPolygon stores measuringQuestion

text \<open>The state a call leaves, and the state a sequence of calls leaves.\<close>

fun perform :: "env \<Rightarrow> request \<Rightarrow> state \<Rightarrow> state" where
  "perform env (FindMatchingPlaces ctx q) s = snd (findMatchingPlaces env ctx q s)"
| "perform env (DetermineMatchingBoundary ctx q) s = snd (determineMatchingBoundary env ctx q s)"
| "perform env (AdjustPerMatching ctx q m) s = snd (adjustPerMatching env ctx q m s)"
| "perform env (HiderifyMatching ctx q) s = snd (hiderifyMatching env ctx q s)"
| "perform env (MatchingPlanningPolygon ctx q) s = snd (matchingPlanningPolygon env ctx q s)"
| "perform env (DetermineMeasuringBoundary ctx q) s =
     snd (determineMeasuringBoundary env ctx q s)"
| "perform env (AdjustPerMeasuring ctx q m) s = snd (adjustPerMeasuring env ctx q m s)"
| "perform env (HiderifyMeasuring ctx q) s = snd (hiderifyMeasuring env ctx q s)"
| "perform env (MeasuringPlanningPolygon ctx q) s = snd (measuringPlanningPolygon env ctx q s)"

fun performAll :: "env \<Rightarrow> request list \<Rightarrow> state \<Rightarrow> state" where
  "performAll env [] s = s"
| "performAll env (r # rs) s = performAll env rs (perform env r s)"

text \<open>
  Every entry of the two resolver caches of \<open>s\<close> is still in \<open>s'\<close>, and every entry
  of \<open>s'\<close> that \<open>s\<close> does not have is the result of the memoised function on some
  question with that key; a computation that changes the caches in this way only.
\<close>

definition cachesKept :: "env \<Rightarrow> state \<Rightarrow> state \<Rightarrow> bool" where
  "cachesKept env s s' =
     (matchingCache s \<subseteq>\<^sub>m matchingCache s' \<and> bufferCache s \<subseteq>\<^sub>m bufferCache s'
      \<and> (\<forall>k r. matchingCache s' k = Some r \<longrightarrow>
             matchingCache s k = Some r
             \<or> (\<exists>ctx q t. k = matchingKey env ctx q
                   \<and> r = fst (determineMatchingBoundaryBody env ctx q t)))
      \<and> (\<forall>k r. bufferCache s' k = Some r \<longrightarrow>
             bufferCache s k = Some r
             \<or> (\<exists>ctx q t. k = measuringKey env ctx q
                   \<and> r = fst (bufferedDeterminerBody env ctx q t))))"

definition keepsCaches :: "env \<Rightarrow> 'a io \<Rightarrow> bool" where
  "keepsCaches env m = (\<forall>s. cachesKept env s (snd (m s)))"

text \<open>A serialisation from which the type tag of the signature can be read back, as
  it can from the text \<^verbatim>\<open>JSON.stringify\<close> produces.\<close>

definition typeSeparating :: "env \<Rightarrow> bool" where
  "typeSeparating env =
     (\<forall>a b. stringifyMatching (js env) a = stringifyMatching (js env) b \<longrightarrow>
            sig_type a = sig_type b)"

section \<open>A sample environment\<close>

text \<open>
  A small concrete instance of the collaborators, on which the definitions above can
  be run. Its geometry knows boxes only: a ring is given by two opposite corners, a
  polygon by an outer ring and its holes, and distances are taken along the axes.
\<close>

definition box :: "real \<Rightarrow> real \<Rightarrow> real \<Rightarrow> real \<Rightarrow> geojson" where
  "box x0 y0 x1 y1 = Feature (Polygon [[(x0, y0), (x1, y1)]]) None"

definition inRing :: "position list \<Rightarrow> position \<Rightarrow> bool" where
  "inRing ring p =
     (case ring of
        [(x0, y0), (x1, y1)] \<Rightarrow> x0 \<le> fst p \<and> fst p \<le> x1 \<and> y0 \<le> snd p \<and> snd p \<le> y1
      | _ \<Rightarrow> False)"

definition samplePointInPolygon :: "geojson \<Rightarrow> geojson \<Rightarrow> error + bool" where
  "samplePointInPolygon p g =
     (case (p, g) of
        (Feature (Point xy) _, Feature (Polygon (outer # holes)) _) \<Rightarrow>
          Inr (inRing outer xy \<and> \<not> list_ex (\<lambda>h. inRing h xy) holes)
      | _ \<Rightarrow> Inl (Thrown 1))"

definition sampleDistance :: "geojson \<Rightarrow> geojson \<Rightarrow> error + real" where
  "sampleDistance p q =
     (case (p, q) of
        (Feature (Point (x, y)) _, Feature (Point (u, v)) _) \<Rightarrow> Inr (\<bar>x - u\<bar> + \<bar>y - v\<bar>)
      | _ \<Rightarrow> Inl (Thrown 2))"

fun nearestOf :: "geojson \<Rightarrow> geojson \<Rightarrow> geojson list \<Rightarrow> error + geojson" where
  "nearestOf p best [] = Inr best"
| "nearestOf p best (f # fs) =
     (case (sampleDistance p f, sampleDistance p best) of
        (Inr d, Inr b) \<Rightarrow> nearestOf p (if d < b then f else best) fs
      | _ \<Rightarrow> Inl (Thrown 2))"

definition sampleNearestPoint :: "geojson \<Rightarrow> geojson \<Rightarrow> error + geojson" where
  "sampleNearestPoint p fc =
     (case fc of FeatureCollection (f # fs) \<Rightarrow> nearestOf p f fs | _ \<Rightarrow> Inl (Thrown 2))"

definition worldRing :: "position list" where
  "worldRing = [(-180, -90), (180, 90)]"

text \<open>The inverse of a box within the world: the world with the box as its hole. A
  collection of one box is inverted like the box; anything else, a polygon that
  has holes already among it, makes the operation throw.\<close>

fun sampleHoledMask :: "geojson \<Rightarrow> error + geojson" where
  "sampleHoledMask (Feature (Polygon [outer]) p) =
     Inr (Feature (Polygon [worldRing, outer]) p)"
| "sampleHoledMask (FeatureCollection [Feature (Polygon [outer]) p]) =
     Inr (Feature (Polygon [worldRing, outer]) p)"
| "sampleHoledMask _ = Inl (Thrown 3)"

text \<open>Keeping the inside of a boundary that lies within the mask gives the boundary;
  this library cannot take a difference.\<close>

definition sampleModifyMapData :: "geojson \<Rightarrow> geojson \<Rightarrow> bool \<Rightarrow> error + geojson" where
  "sampleModifyMapData mapData b inside =
     (if inside then Inr b else Inl (Thrown 4))"

definition sampleBbox :: "geojson \<Rightarrow> error + bbox" where
  "sampleBbox g =
     (case g of
        Feature (Polygon ([(x0, y0), (x1, y1)] # _)) _ \<Rightarrow> Inr (x0, y0, x1, y1)
      | _ \<Rightarrow> Inl TypeError)"

text \<open>The point features of a collection become one multi-point feature.\<close>

definition pointsOf :: "geojson list \<Rightarrow> position list" where
  "pointsOf fs = concat (map (\<lambda>f. case f of Feature (Point p) _ \<Rightarrow> [p] | _ \<Rightarrow> []) fs)"

definition sampleCombine :: "geojson \<Rightarrow> error + geojson" where
  "sampleCombine fc =
     (case fc of
        FeatureCollection fs \<Rightarrow>
          Inr (FeatureCollection
                 (if pointsOf fs = [] then [] else [Feature (MultiPoint (pointsOf fs)) None]))
      | _ \<Rightarrow> Inl TypeError)"

definition sampleTurf :: turf where
  "sampleTurf =
     \<lparr>booleanPointInPolygon = samplePointInPolygon,
      nearestPoint = sampleNearestPoint,
      distance = (\<lambda>p q _. sampleDistance p q),
      combine = sampleCombine,
      simplify = (\<lambda>g _ _. Inr g),
      buffer = (\<lambda>g _ _ _. Inr g),
      difference = (\<lambda>_. Inl (Thrown 4)),
      bbox_of = sampleBbox,
      bboxPolygon = (\<lambda>(x0, y0, x1, y1). Inr (Feature (Polygon [[(x0, y0), (x1, y1)]]) None)),
      bboxClip = (\<lambda>g _. Inr g),
      lineToPolygon = (\<lambda>g. Inr g),
      pointToPolygonDistance = (\<lambda>_ _. Inl (Thrown 2)),
      polygonToLine = (\<lambda>g. Inr g)\<rparr>"

definition sampleUtils :: geoUtils where
  "sampleUtils =
     \<lparr>holedMask = sampleHoledMask,
      modifyMapData = sampleModifyMapData,
      safeUnion = (\<lambda>g. Inr g),
      geoSpatialVoronoi = (\<lambda>_. Inl (Thrown 5)),
      arcBufferToPoint = (\<lambda>_ la lo. Inr (box (lo - 1) (la - 1) (lo + 1) (la + 1))),
      groupObjects = (\<lambda>fs. Inr [fs]),
      connectToSeparateLines = (\<lambda>ls. Inr ls)\<rparr>"

text \<open>The buffer of any places around a question is the box of half-width one around
  its point. A provider that finds nothing: no place, no administrative boundary.\<close>

definition sampleApi :: api where
  "sampleApi =
     \<lparr>findPlacesInZone = (\<lambda>_ _. Inr \<lparr>elements = [], remark = None\<rparr>),
      findAdminBoundary = (\<lambda>_ _ _. Inr Null),
      nearestToQuestionMatching = (\<lambda>_ _. Inl (Thrown 6)),
      nearestToQuestionMeasuring = (\<lambda>_ _. Inl (Thrown 6)),
      trainLineNodeFinder = (\<lambda>_. Inr []),
      fetchCoastline = Inl (Thrown 6),
      findPlacesSpecificInZone = (\<lambda>_ _. Inl (Thrown 6))\<rparr>"

text \<open>A serialisation that keeps the coordinates and the geometry out: two numbers for
  the type tag, then the administrative level.\<close>

fun locationCode :: "apiLocation \<Rightarrow> nat" where
  "locationCode Aquarium = 0"
| "locationCode Zoo = 1"
| "locationCode ThemePark = 2"
| "locationCode Museum = 3"
| "locationCode Hospital = 4"
| "locationCode Cinema = 5"
| "locationCode Library = 6"
| "locationCode GolfCourse = 7"
| "locationCode Consulate = 8"
| "locationCode Park = 9"

fun typeTag :: "matchingType \<Rightarrow> nat list" where
  "typeTag (Plain l) = [0, locationCode l]"
| "typeTag (Full l) = [1, locationCode l]"
| "typeTag SameFirstLetterStation = [2, 0]"
| "typeTag SameLengthStation = [3, 0]"
| "typeTag SameTrainLine = [4, 0]"
| "typeTag CustomZone = [5, 0]"
| "typeTag Zone = [6, 0]"
| "typeTag LetterZone = [7, 0]"
| "typeTag Airport = [8, 0]"
| "typeTag MajorCity = [9, 0]"
| "typeTag CustomPoints = [10, 0]"

definition sampleBuiltins :: builtins where
  "sampleBuiltins =
     \<lparr>stringifyMatching =
        (\<lambda>k. typeTag (sig_type k)
              @ (case sig_cat k of None \<Rightarrow> [] | Some c \<Rightarrow> [adminLevel c])),
      stringifyMeasuring = (\<lambda>k. ascii ''{}''),
      stringifyGeometries = (\<lambda>gs. [length gs]),
      parseInt = (\<lambda>_. None),
      upperNonAscii = (\<lambda>c. [c]),
      osmtogeojson = (\<lambda>_. Inr (FeatureCollection []))\<rparr>"

definition sampleEnv :: env where
  "sampleEnv = \<lparr>api = sampleApi, turf = sampleTurf, utils = sampleUtils, js = sampleBuiltins\<rparr>"

definition sampleStores :: stores where
  "sampleStores =
     \<lparr>hiderMode = Some \<lparr>latitude = 0, longitude = 0\<rparr>,
      mapGeoJSON = box (-10) (-10) 10 10,
      mapGeoLocation = box (-10) (-10) 10 10,
      polyGeoJSON = Null,
      trainStations = []\<rparr>"

text \<open>The sample environment with a data provider that answers every request with
  \<open>data\<close>; three answers: a server-side timeout, a thousand elements, two places.\<close>

definition answering :: "overpass \<Rightarrow> env" where
  "answering data = sampleEnv\<lparr>api := sampleApi\<lparr>findPlacesInZone := (\<lambda>_ _. Inr data)\<rparr>\<rparr>"

definition way :: "real \<Rightarrow> real \<Rightarrow> element" where
  "way lo la = \<lparr>center = Some (lo, la), lon = None, lat_el = None, tags = None\<rparr>"

definition node :: "real \<Rightarrow> real \<Rightarrow> element" where
  "node lo la = \<lparr>center = None, lon = Some lo, lat_el = Some la, tags = None\<rparr>"

definition timedOut :: overpass where
  "timedOut = \<lparr>elements = [], remark = Some (ascii ''runtime error: Query timed out'')\<rparr>"

definition thousand :: overpass where
  "thousand = \<lparr>elements = replicate 1000 (node 1 1), remark = None\<rparr>"

definition twoPlaces :: overpass where
  "twoPlaces = \<lparr>elements = [way 2 1, node 3 4], remark = None\<rparr>"

text \<open>An administrative boundary with the given English and native names, and the
  sample environment with a lookup that finds it.\<close>

definition named :: "jsstring option \<Rightarrow> jsstring option \<Rightarrow> geojson" where
  "named en native =
     Feature (Polygon [[(0, 0), (1, 1)]])
       (Some \<lparr>name = native, name_en = en, id_prop = None, distanceToPoint = None\<rparr>)"

definition locating :: "geojson \<Rightarrow> env" where
  "locating zone = sampleEnv\<lparr>api := sampleApi\<lparr>findAdminBoundary := (\<lambda>_ _ _. Inr zone)\<rparr>\<rparr>"

text \<open>A station with an English and a native name, and the sample environment
  with a conversion that yields the given stations.\<close>

definition stationAt ::
    "real \<Rightarrow> real \<Rightarrow> jsstring option \<Rightarrow> jsstring option \<Rightarrow> geojson" where
  "stationAt lo la en native =
     Feature (Point (lo, la))
       (Some \<lparr>name = native, name_en = en, id_prop = None, distanceToPoint = None\<rparr>)"

definition converting :: "geojson list \<Rightarrow> env" where
  "converting stations =
     sampleEnv\<lparr>js := sampleBuiltins\<lparr>osmtogeojson := (\<lambda>_. Inr (FeatureCollection stations))\<rparr>\<rparr>"

definition sampleMatching :: "matchingType \<Rightarrow> matchingQuestion" where
  "sampleMatching t =
     \<lparr>type = t, lat = 0, lng = 0, drag = False, color = ''red'', collapsed = False,
      geo = Undefined, same = True, lengthComparison = None,
      cat = Some \<lparr>adminLevel = 2\<rparr>\<rparr>"

definition sampleMeasuring :: "measuringType \<Rightarrow> measuringQuestion" where
  "sampleMeasuring t =
     \<lparr>type = t, lat = 0, lng = 0, drag = False, color = ''red'', collapsed = False,
      geo = Undefined, hiderCloser = True\<rparr>"

text \<open>Two hider positions, one inside the box from (0, 0) to (1, 1) and one outside
  it; a custom zone that is this box; the sample stores with the first hider.\<close>

definition hiderInside :: hiderPosition where
  "hiderInside = \<lparr>latitude = 1 / 2, longitude = 1 / 2\<rparr>"

definition hiderOutside :: hiderPosition where
  "hiderOutside = \<lparr>latitude = 5, longitude = 5\<rparr>"

definition zoneQuestion :: matchingQuestion where
  "zoneQuestion = (sampleMatching CustomZone)\<lparr>geo := box 0 0 1 1\<rparr>"

text \<open>The world with the box from (0, 0) to (1, 1) as a hole, which the sample library
  cannot invert, and the custom zone that is this polygon.\<close>

definition holedZone :: geojson where
  "holedZone = Feature (Polygon [worldRing, [(0, 0), (1, 1)]]) None"

definition holedZoneQuestion :: matchingQuestion where
  "holedZoneQuestion = (sampleMatching CustomZone)\<lparr>geo := holedZone\<rparr>"

text \<open>A game whose map is the box from (2, -1) to (4, 1), with one cached station at
  (0, 0) and the hider at (1, 0), outside the map; the seeker asks from (3, 0).\<close>

definition railStores :: stores where
  "railStores =
     \<lparr>hiderMode = Some \<lparr>latitude = 0, longitude = 1\<rparr>,
      mapGeoJSON = box 2 (-1) 4 1,
      mapGeoLocation = box 2 (-1) 4 1,
      polyGeoJSON = Null,
      trainStations = [\<lparr>properties_geometry = point 0 0\<rparr>]\<rparr>"

definition railQuestion :: measuringQuestion where
  "railQuestion = (sampleMeasuring RailMeasure)\<lparr>lng := 3\<rparr>"

definition hiding :: "hiderPosition \<Rightarrow> stores" where
  "hiding h = sampleStores\<lparr>hiderMode := Some h\<rparr>"

section \<open>Groups of question types\<close>

text \<open>The type tags of the \<^verbatim>\<open>case\<close> group that returns \<^verbatim>\<open>false\<close>: lines 125 to 139 of
  \<^verbatim>\<open>matching.ts\<close>, lines 238 to 251 of \<^verbatim>\<open>measuring.ts\<close>.\<close>

definition noBoundaryMatching :: "matchingType \<Rightarrow> bool" where
  "noBoundaryMatching t =
     (isPlain t \<or> t = SameFirstLetterStation \<or> t = SameLengthStation \<or> t = SameTrainLine)"

definition noBoundaryMeasuring :: "measuringType \<Rightarrow> bool" where
  "noBoundaryMeasuring t =
     (isPlainM t \<or> t = McDonalds \<or> t = Seven11 \<or> t = RailMeasure)"

section \<open>The contract of the holed mask\<close>

text \<open>
  The holed mask of a region is its complement within the world. At the point of
  \<open>h\<close> this says: the containment test succeeds on the region and on its holed
  mask, with opposite results.
\<close>

definition complementAt :: "env \<Rightarrow> geojson \<Rightarrow> geojson \<Rightarrow> hiderPosition \<Rightarrow> bool" where
  "complementAt env region holed h =
     (case (booleanPointInPolygon (turf env) (point (longitude h) (latitude h)) region,
            booleanPointInPolygon (turf env) (point (longitude h) (latitude h)) holed) of
        (Inr a, Inr b) \<Rightarrow> b = (\<not> a)
      | _ \<Rightarrow> False)"

section \<open>Properties\<close>

lemmas io_defs =
  succeed_def throw_def andThen_def pure_def emit_def call_def tryCatch_def
  toastError_def fetchPlaces_def

text \<open>
  C10. Given a \<^verbatim>\<open>null\<close> working mask, \<open>adjustPerMatching\<close> and \<open>adjustPerMeasuring\<close>
  return \<^verbatim>\<open>undefined\<close>, which is neither the mask they were given, \<^verbatim>\<open>null\<close>, nor a
  feature or a collection. No boundary is resolved, and the state (the caches and the
  trace) is left as it was.
\<close>

theorem adjust_null_mask_undefined:
  "adjustPerMatching env ctx question Null s = (Inr Undefined, s)
   \<and> adjustPerMeasuring env ctx question' Null s = (Inr Undefined, s)
   \<and> Undefined \<noteq> Null
   \<and> Undefined \<noteq> Feature g p \<and> Undefined \<noteq> FeatureCollection fs"
  by (simp add: adjustPerMatching_def adjustPerMeasuring_def succeed_def)

subsection \<open>The resolver caches only grow\<close>

lemma cachesKept_refl: "cachesKept env s s"
  by (simp add: cachesKept_def)

lemma cachesKept_trans: "cachesKept env s t \<Longrightarrow> cachesKept env t u \<Longrightarrow> cachesKept env s u"
  unfolding cachesKept_def by (blast intro: map_le_trans)

lemma keeps_succeed: "keepsCaches env (succeed x)"
  by (simp add: keepsCaches_def succeed_def cachesKept_refl)

lemma keeps_throw: "keepsCaches env (throw e)"
  by (simp add: keepsCaches_def throw_def cachesKept_refl)

lemma keeps_pure: "keepsCaches env (pure r)"
  by (simp add: keepsCaches_def pure_def cachesKept_refl)

lemma keeps_emit: "keepsCaches env (emit ev)"
  by (simp add: keepsCaches_def emit_def cachesKept_def)

lemma keeps_andThen:
  assumes "keepsCaches env m" and "\<And>x. keepsCaches env (f x)"
  shows "keepsCaches env (andThen m f)"
  unfolding keepsCaches_def
proof
  fix s
  obtain r s' where ms: "m s = (r, s')" by (cases "m s")
  from assms(1) ms have k1: "cachesKept env s s'" by (auto simp: keepsCaches_def dest: spec [of _ s])
  show "cachesKept env s (snd (andThen m f s))"
  proof (cases r)
    case (Inl e)
    with ms k1 show ?thesis by (simp add: andThen_def)
  next
    case (Inr x)
    from assms(2) [of x] have "cachesKept env s' (snd (f x s'))" by (simp add: keepsCaches_def)
    with ms Inr k1 show ?thesis by (auto simp: andThen_def intro: cachesKept_trans)
  qed
qed

lemma keeps_tryCatch:
  assumes "keepsCaches env m" and "keepsCaches env h"
  shows "keepsCaches env (tryCatch m h)"
  unfolding keepsCaches_def
proof
  fix s
  obtain r s' where ms: "m s = (r, s')" by (cases "m s")
  from assms(1) ms have k1: "cachesKept env s s'" by (auto simp: keepsCaches_def dest: spec [of _ s])
  show "cachesKept env s (snd (tryCatch m h s))"
  proof (cases r)
    case (Inl e)
    from assms(2) have "cachesKept env s' (snd (h s'))" by (simp add: keepsCaches_def)
    with ms Inl k1 show ?thesis by (auto simp: tryCatch_def intro: cachesKept_trans)
  next
    case (Inr x)
    with ms k1 show ?thesis by (simp add: tryCatch_def)
  qed
qed

lemma keeps_call: "keepsCaches env (call ev r)"
  unfolding call_def by (intro keeps_andThen keeps_emit keeps_pure)

lemmas keeps_intros =
  keeps_succeed keeps_throw keeps_pure keeps_emit keeps_call keeps_andThen keeps_tryCatch

lemma keeps_findMatchingPlaces: "keepsCaches env (findMatchingPlaces env ctx q)"
  unfolding findMatchingPlaces_def fetchPlaces_def toastError_def
  by (auto intro!: keeps_intros split: matchingType.split)

lemma keeps_zoneLetter: "keepsCaches env (zoneLetter env zone)"
  unfolding zoneLetter_def toastError_def
  by (auto intro!: keeps_intros split: option.split)

lemma keeps_matchingBody: "keepsCaches env (determineMatchingBoundaryBody env ctx q)"
  unfolding determineMatchingBoundaryBody_def fetchPlaces_def toastError_def lookupAdminBoundary_def
  by (auto intro!: keeps_intros keeps_findMatchingPlaces keeps_zoneLetter split: matchingType.split)

lemma keeps_determineMatchingBoundary: "keepsCaches env (determineMatchingBoundary env ctx q)"
  unfolding keepsCaches_def
proof
  fix s
  let ?key = "matchingKey env ctx q"
  show "cachesKept env s (snd (determineMatchingBoundary env ctx q s))"
  proof (cases "matchingCache s ?key")
    case (Some r)
    then show ?thesis by (simp add: determineMatchingBoundary_def cachesKept_refl)
  next
    case None
    obtain r s' where b: "determineMatchingBoundaryBody env ctx q s = (r, s')"
      by (cases "determineMatchingBoundaryBody env ctx q s")
    then have r: "r = fst (determineMatchingBoundaryBody env ctx q s)" by simp
    from keeps_matchingBody [of env ctx q] b have k: "cachesKept env s s'"
      by (auto simp: keepsCaches_def dest: spec [of _ s])
    from k None have sub: "matchingCache s \<subseteq>\<^sub>m (matchingCache s')(?key \<mapsto> r)"
      by (auto simp: cachesKept_def map_le_def dom_def)
    from k have old: "\<And>k' r'. matchingCache s' k' = Some r' \<Longrightarrow>
        matchingCache s k' = Some r'
        \<or> (\<exists>ctx q t. k' = matchingKey env ctx q \<and> r' = fst (determineMatchingBoundaryBody env ctx q t))"
      by (simp add: cachesKept_def)
    have new: "matchingCache s k' = Some r'
        \<or> (\<exists>ctx q t. k' = matchingKey env ctx q \<and> r' = fst (determineMatchingBoundaryBody env ctx q t))"
      if a: "((matchingCache s')(?key \<mapsto> r)) k' = Some r'" for k' r'
    proof (cases "k' = ?key")
      case True
      with a r have "k' = matchingKey env ctx q \<and> r' = fst (determineMatchingBoundaryBody env ctx q s)" by simp
      then show ?thesis by blast
    next
      case False
      with a have "matchingCache s' k' = Some r'" by simp
      then show ?thesis by (rule old)
    qed
    from k sub new None b show ?thesis
      by (simp add: determineMatchingBoundary_def cachesKept_def)
  qed
qed

lemma keeps_adjustPerMatching: "keepsCaches env (adjustPerMatching env ctx q m)"
  unfolding adjustPerMatching_def
  by (auto intro!: keeps_intros keeps_determineMatchingBoundary split: boundary.split)

lemma keeps_hiderifyMatchingNearest: "keepsCaches env (hiderifyMatchingNearest env ctx h q)"
  unfolding hiderifyMatchingNearest_def
  by (intro keeps_intros)

lemma keeps_sameTrainLine: "keepsCaches env (sameTrainLine env a b q)"
  unfolding sameTrainLine_def Let_def
  by (auto intro!: keeps_intros split: option.split)

lemma keeps_compareStationNames: "keepsCaches env (compareStationNames env a b q)"
  unfolding compareStationNames_def Let_def
  by (auto intro!: keeps_intros split: option.split prod.split)

lemma keeps_hiderifyMatchingStations: "keepsCaches env (hiderifyMatchingStations env ctx h q)"
  unfolding hiderifyMatchingStations_def Let_def fetchPlaces_def
  by (auto intro!: keeps_intros keeps_sameTrainLine keeps_compareStationNames)

lemma keeps_maskFeatureMatching: "keepsCaches env (maskFeatureMatching env ctx q)"
  unfolding maskFeatureMatching_def firstAttemptMatching_def retryMatching_def
  by (intro keeps_intros keeps_adjustPerMatching)

lemma keeps_hiderifyMatchingContainment:
  "keepsCaches env (hiderifyMatchingContainment env ctx h q)"
  unfolding hiderifyMatchingContainment_def
  by (auto intro!: keeps_intros keeps_maskFeatureMatching split: option.split)

lemma keeps_hiderifyMatching: "keepsCaches env (hiderifyMatching env ctx q)"
  unfolding hiderifyMatching_def
  by (auto intro!: keeps_intros keeps_hiderifyMatchingNearest keeps_hiderifyMatchingStations
        keeps_hiderifyMatchingContainment split: option.split)

lemma keeps_matchingPlanningPolygon: "keepsCaches env (matchingPlanningPolygon env ctx q)"
  unfolding matchingPlanningPolygon_def
  by (auto intro!: keeps_intros keeps_determineMatchingBoundary split: boundary.split)

lemma keeps_highSpeedBaseBody: "keepsCaches env (highSpeedBaseBody env fs)"
  unfolding highSpeedBaseBody_def combined_def
  by (intro keeps_intros)

lemma keeps_highSpeedBase: "keepsCaches env (highSpeedBase env fs)"
  unfolding keepsCaches_def
proof
  fix s
  obtain r s' where b: "highSpeedBaseBody env fs s = (r, s')"
    by (cases "highSpeedBaseBody env fs s")
  from keeps_highSpeedBaseBody [of env fs] b have k: "cachesKept env s s'"
    by (auto simp: keepsCaches_def dest: spec [of _ s])
  then show "cachesKept env s (snd (highSpeedBase env fs s))"
    using b
    by (auto simp: highSpeedBase_def Let_def cachesKept_def split: option.split sum.split)
qed

lemma keeps_determineMeasuringBoundary: "keepsCaches env (determineMeasuringBoundary env ctx q)"
  unfolding determineMeasuringBoundary_def fetchPlaces_def toastError_def combined_def
  by (auto intro!: keeps_intros keeps_highSpeedBase split: measuringType.split)

lemma keeps_bufferedBody: "keepsCaches env (bufferedDeterminerBody env ctx q)"
  unfolding bufferedDeterminerBody_def
  by (auto intro!: keeps_intros keeps_determineMeasuringBoundary
        split: boundary.split geojson.split)

lemma keeps_bufferedDeterminer: "keepsCaches env (bufferedDeterminer env ctx q)"
  unfolding keepsCaches_def
proof
  fix s
  let ?key = "measuringKey env ctx q"
  show "cachesKept env s (snd (bufferedDeterminer env ctx q s))"
  proof (cases "bufferCache s ?key")
    case (Some r)
    then show ?thesis by (simp add: bufferedDeterminer_def cachesKept_refl)
  next
    case None
    obtain r s' where b: "bufferedDeterminerBody env ctx q s = (r, s')"
      by (cases "bufferedDeterminerBody env ctx q s")
    then have r: "r = fst (bufferedDeterminerBody env ctx q s)" by simp
    from keeps_bufferedBody [of env ctx q] b have k: "cachesKept env s s'"
      by (auto simp: keepsCaches_def dest: spec [of _ s])
    from k None have sub: "bufferCache s \<subseteq>\<^sub>m (bufferCache s')(?key \<mapsto> r)"
      by (auto simp: cachesKept_def map_le_def dom_def)
    from k have old: "\<And>k' r'. bufferCache s' k' = Some r' \<Longrightarrow>
        bufferCache s k' = Some r'
        \<or> (\<exists>ctx q t. k' = measuringKey env ctx q \<and> r' = fst (bufferedDeterminerBody env ctx q t))"
      by (simp add: cachesKept_def)
    have new: "bufferCache s k' = Some r'
        \<or> (\<exists>ctx q t. k' = measuringKey env ctx q \<and> r' = fst (bufferedDeterminerBody env ctx q t))"
      if a: "((bufferCache s')(?key \<mapsto> r)) k' = Some r'" for k' r'
    proof (cases "k' = ?key")
      case True
      with a r have "k' = measuringKey env ctx q \<and> r' = fst (bufferedDeterminerBody env ctx q s)" by simp
      then show ?thesis by blast
    next
      case False
      with a have "bufferCache s' k' = Some r'" by simp
      then show ?thesis by (rule old)
    qed
    from k sub new None b show ?thesis
      by (simp add: bufferedDeterminer_def cachesKept_def)
  qed
qed

lemma keeps_adjustPerMeasuring: "keepsCaches env (adjustPerMeasuring env ctx q m)"
  unfolding adjustPerMeasuring_def
  by (auto intro!: keeps_intros keeps_bufferedDeterminer split: boundary.split)

lemma keeps_hiderifyMeasuringNearest: "keepsCaches env (hiderifyMeasuringNearest env ctx h q)"
  unfolding hiderifyMeasuringNearest_def
  by (intro keeps_intros)

lemma keeps_railMeasure: "keepsCaches env (railMeasure env ctx h q)"
  unfolding railMeasure_def Let_def
  by (intro keeps_intros)

lemma keeps_hiderifyMeasuringSpecific: "keepsCaches env (hiderifyMeasuringSpecific env ctx h q)"
  unfolding hiderifyMeasuringSpecific_def Let_def
  by (intro keeps_intros)

lemma keeps_maskFeatureMeasuring: "keepsCaches env (maskFeatureMeasuring env ctx q)"
  unfolding maskFeatureMeasuring_def firstAttemptMeasuring_def retryMeasuring_def
  by (intro keeps_intros keeps_adjustPerMeasuring)

lemma keeps_hiderifyMeasuringContainment:
  "keepsCaches env (hiderifyMeasuringContainment env ctx h q)"
  unfolding hiderifyMeasuringContainment_def
  by (auto intro!: keeps_intros keeps_maskFeatureMeasuring split: option.split)

lemma keeps_hiderifyMeasuring: "keepsCaches env (hiderifyMeasuring env ctx q)"
  unfolding hiderifyMeasuring_def
  by (auto intro!: keeps_intros keeps_hiderifyMeasuringNearest keeps_railMeasure
        keeps_hiderifyMeasuringSpecific keeps_hiderifyMeasuringContainment split: option.split)

lemma keeps_measuringPlanningPolygon: "keepsCaches env (measuringPlanningPolygon env ctx q)"
  unfolding measuringPlanningPolygon_def
  by (auto intro!: keeps_intros keeps_bufferedDeterminer split: boundary.split)

subsection \<open>Memoisation\<close>

lemma matching_hit:
  "matchingCache s (matchingKey env ctx q) = Some r \<Longrightarrow>
   determineMatchingBoundary env ctx q s = (r, s)"
  by (simp add: determineMatchingBoundary_def)

lemma matching_stored:
  "matchingCache (snd (determineMatchingBoundary env ctx q s)) (matchingKey env ctx q)
     = Some (fst (determineMatchingBoundary env ctx q s))"
  by (cases "matchingCache s (matchingKey env ctx q)")
     (auto simp: determineMatchingBoundary_def Let_def split: prod.split)

lemma buffer_hit:
  "bufferCache s (measuringKey env ctx q) = Some r \<Longrightarrow>
   bufferedDeterminer env ctx q s = (r, s)"
  by (simp add: bufferedDeterminer_def)

lemma buffer_stored:
  "bufferCache (snd (bufferedDeterminer env ctx q s)) (measuringKey env ctx q)
     = Some (fst (bufferedDeterminer env ctx q s))"
  by (cases "bufferCache s (measuringKey env ctx q)")
     (auto simp: bufferedDeterminer_def Let_def split: prod.split)

lemma keepsD: "keepsCaches env m \<Longrightarrow> cachesKept env s (snd (m s))"
  by (simp add: keepsCaches_def)

lemma kept_perform: "cachesKept env s (perform env r s)"
  by (cases r)
     (simp_all add: keepsD keeps_findMatchingPlaces keeps_determineMatchingBoundary
        keeps_adjustPerMatching keeps_hiderifyMatching keeps_matchingPlanningPolygon
        keeps_determineMeasuringBoundary keeps_adjustPerMeasuring keeps_hiderifyMeasuring
        keeps_measuringPlanningPolygon)

lemma kept_performAll: "cachesKept env s (performAll env rs s)"
proof (induction rs arbitrary: s)
  case Nil
  show ?case by (simp add: cachesKept_refl)
next
  case (Cons r rs)
  have "cachesKept env s (perform env r s)" by (rule kept_perform)
  moreover have "cachesKept env (perform env r s) (performAll env rs (perform env r s))"
    by (rule Cons.IH)
  ultimately show ?case by (simp add: cachesKept_trans)
qed

lemma matching_entry_kept:
  assumes "matchingCache s k = Some r"
  shows "matchingCache (performAll env rs s) k = Some r"
proof -
  have "matchingCache s \<subseteq>\<^sub>m matchingCache (performAll env rs s)"
    using kept_performAll [of env s rs] by (simp add: cachesKept_def)
  with assms show ?thesis by (auto simp: map_le_def dom_def)
qed

lemma buffer_entry_kept:
  assumes "bufferCache s k = Some r"
  shows "bufferCache (performAll env rs s) k = Some r"
proof -
  have "bufferCache s \<subseteq>\<^sub>m bufferCache (performAll env rs s)"
    using kept_performAll [of env s rs] by (simp add: cachesKept_def)
  with assms show ?thesis by (auto simp: map_le_def dom_def)
qed

lemma matching_again:
  assumes "matchingKey env ctx2 q2 = matchingKey env ctx1 q1"
  shows "determineMatchingBoundary env ctx2 q2
           (performAll env rs (snd (determineMatchingBoundary env ctx1 q1 s)))
         = (fst (determineMatchingBoundary env ctx1 q1 s),
            performAll env rs (snd (determineMatchingBoundary env ctx1 q1 s)))"
proof -
  have "matchingCache (snd (determineMatchingBoundary env ctx1 q1 s)) (matchingKey env ctx2 q2)
          = Some (fst (determineMatchingBoundary env ctx1 q1 s))"
    by (simp only: assms matching_stored)
  then have "matchingCache (performAll env rs (snd (determineMatchingBoundary env ctx1 q1 s)))
               (matchingKey env ctx2 q2)
          = Some (fst (determineMatchingBoundary env ctx1 q1 s))"
    by (rule matching_entry_kept)
  then show ?thesis by (rule matching_hit)
qed

lemma buffer_again:
  assumes "measuringKey env ctx2 q2 = measuringKey env ctx1 q1"
  shows "bufferedDeterminer env ctx2 q2
           (performAll env rs (snd (bufferedDeterminer env ctx1 q1 s)))
         = (fst (bufferedDeterminer env ctx1 q1 s),
            performAll env rs (snd (bufferedDeterminer env ctx1 q1 s)))"
proof -
  have "bufferCache (snd (bufferedDeterminer env ctx1 q1 s)) (measuringKey env ctx2 q2)
          = Some (fst (bufferedDeterminer env ctx1 q1 s))"
    by (simp only: assms buffer_stored)
  then have "bufferCache (performAll env rs (snd (bufferedDeterminer env ctx1 q1 s)))
               (measuringKey env ctx2 q2)
          = Some (fst (bufferedDeterminer env ctx1 q1 s))"
    by (rule buffer_entry_kept)
  then show ?thesis by (rule buffer_hit)
qed

text \<open>
  C4. When two calls of a memoised resolver have the same key (the serialised
  signature: subtype, lat, lng, category, embedded geometry and the drawn polygon or
  else the viewport; for the measuring resolver the same without the category), the
  second call, made after the first and after any further calls \<open>rs\<close> of the exported
  functions, returns the value of the first and leaves the state as it found it: no
  request to a collaborator, no notification, no new cache entry.
\<close>

theorem same_signature_resolved_once:
  "(matchingKey env ctx2 q2 = matchingKey env ctx1 q1 \<longrightarrow>
      determineMatchingBoundary env ctx2 q2
          (performAll env rs (snd (determineMatchingBoundary env ctx1 q1 s)))
        = (fst (determineMatchingBoundary env ctx1 q1 s),
           performAll env rs (snd (determineMatchingBoundary env ctx1 q1 s))))
   \<and> (measuringKey env ctx2 m2 = measuringKey env ctx1 m1 \<longrightarrow>
      bufferedDeterminer env ctx2 m2
          (performAll env rs (snd (bufferedDeterminer env ctx1 m1 s)))
        = (fst (bufferedDeterminer env ctx1 m1 s),
           performAll env rs (snd (bufferedDeterminer env ctx1 m1 s))))"
  by (simp add: matching_again buffer_again)

text \<open>Two custom-zone questions that differ in the \<open>same\<close> flag only, and two
  rail-measure questions that differ in \<open>hiderCloser\<close> only.\<close>

lemmas sample_defs =
  sampleEnv_def sampleApi_def sampleTurf_def sampleUtils_def sampleBuiltins_def
  sampleStores_def sampleMatching_def sampleMeasuring_def initialState_def box_def

theorem same_signature_resolved_once_witness:
  "matchingKey sampleEnv sampleStores ((sampleMatching CustomZone)\<lparr>geo := box 0 0 1 1, same := False\<rparr>)
     = matchingKey sampleEnv sampleStores ((sampleMatching CustomZone)\<lparr>geo := box 0 0 1 1\<rparr>)
   \<and> fst (determineMatchingBoundary sampleEnv sampleStores
             ((sampleMatching CustomZone)\<lparr>geo := box 0 0 1 1\<rparr>) initialState)
       = Inr (Boundary (box 0 0 1 1))
   \<and> determineMatchingBoundary sampleEnv sampleStores
        ((sampleMatching CustomZone)\<lparr>geo := box 0 0 1 1, same := False\<rparr>)
        (snd (determineMatchingBoundary sampleEnv sampleStores
               ((sampleMatching CustomZone)\<lparr>geo := box 0 0 1 1\<rparr>) initialState))
       = (Inr (Boundary (box 0 0 1 1)),
          snd (determineMatchingBoundary sampleEnv sampleStores
               ((sampleMatching CustomZone)\<lparr>geo := box 0 0 1 1\<rparr>) initialState))
   \<and> measuringKey sampleEnv sampleStores ((sampleMeasuring RailMeasure)\<lparr>hiderCloser := False\<rparr>)
     = measuringKey sampleEnv sampleStores (sampleMeasuring RailMeasure)
   \<and> bufferedDeterminer sampleEnv sampleStores ((sampleMeasuring RailMeasure)\<lparr>hiderCloser := False\<rparr>)
        (snd (bufferedDeterminer sampleEnv sampleStores (sampleMeasuring RailMeasure) initialState))
       = (Inr NoBoundary,
          snd (bufferedDeterminer sampleEnv sampleStores (sampleMeasuring RailMeasure) initialState))"
proof -
  let ?q1 = "(sampleMatching CustomZone)\<lparr>geo := box 0 0 1 1\<rparr>"
  let ?q2 = "(sampleMatching CustomZone)\<lparr>geo := box 0 0 1 1, same := False\<rparr>"
  let ?m1 = "sampleMeasuring RailMeasure"
  let ?m2 = "(sampleMeasuring RailMeasure)\<lparr>hiderCloser := False\<rparr>"
  have k: "matchingKey sampleEnv sampleStores ?q2 = matchingKey sampleEnv sampleStores ?q1"
    by (simp add: matchingKey_def sampleMatching_def)
  have km: "measuringKey sampleEnv sampleStores ?m2 = measuringKey sampleEnv sampleStores ?m1"
    by (simp add: measuringKey_def sampleMeasuring_def)
  have r: "fst (determineMatchingBoundary sampleEnv sampleStores ?q1 initialState)
             = Inr (Boundary (box 0 0 1 1))"
    by (simp add: determineMatchingBoundary_def determineMatchingBoundaryBody_def
          sampleMatching_def initialState_def succeed_def)
  have rm: "fst (bufferedDeterminer sampleEnv sampleStores ?m1 initialState) = Inr NoBoundary"
    by (simp add: bufferedDeterminer_def bufferedDeterminerBody_def
          determineMeasuringBoundary_def sample_defs sampleBbox_def io_defs)
  from same_signature_resolved_once
         [of sampleEnv sampleStores ?q2 sampleStores ?q1 "[]" initialState ?m2 ?m1]
       k km r rm
  show ?thesis by simp
qed

lemma zone_not_found:
  assumes "type q = Zone" and "cat q = Some c"
    and "findAdminBoundary (api env) (lat q) (lng q) (adminLevel c) = Inr b"
    and "\<not> truthy b"
  shows "determineMatchingBoundaryBody env ctx q s
         = (Inl (Error ''No boundary found''),
            s\<lparr>trace := trace s @ [FindAdminBoundary (lat q) (lng q) (adminLevel c),
                                   ToastError NoBoundaryForZone]\<rparr>)"
  using assms
  by (simp add: determineMatchingBoundaryBody_def lookupAdminBoundary_def adminLevelOf_def
        io_defs)

text \<open>
  C9. A failed resolution is stored like a successful one. If a call of a memoised
  resolver fails with \<open>e\<close>, every later call with the same key, after any further calls
  \<open>rs\<close> of the exported functions, fails with \<open>e\<close> and leaves the state as it found it:
  the data provider and the administrative-boundary lookup are not asked again. In
  particular a zone question whose lookup finds no boundary fails with
  "No boundary found" after one lookup and one notification, and that failure is what
  the cache then holds under its key.
\<close>

theorem failed_resolution_cached:
  "(fst (determineMatchingBoundary env ctx1 q1 s) = Inl e \<longrightarrow>
    matchingKey env ctx2 q2 = matchingKey env ctx1 q1 \<longrightarrow>
      determineMatchingBoundary env ctx2 q2
          (performAll env rs (snd (determineMatchingBoundary env ctx1 q1 s)))
        = (Inl e, performAll env rs (snd (determineMatchingBoundary env ctx1 q1 s))))
   \<and> (fst (bufferedDeterminer env ctx1 m1 s) = Inl e' \<longrightarrow>
      measuringKey env ctx2 m2 = measuringKey env ctx1 m1 \<longrightarrow>
      bufferedDeterminer env ctx2 m2
          (performAll env rs (snd (bufferedDeterminer env ctx1 m1 s)))
        = (Inl e', performAll env rs (snd (bufferedDeterminer env ctx1 m1 s))))
   \<and> (type q1 = Zone \<longrightarrow> cat q1 = Some c \<longrightarrow>
      findAdminBoundary (api env) (lat q1) (lng q1) (adminLevel c) = Inr b \<longrightarrow>
      \<not> truthy b \<longrightarrow>
      matchingCache s (matchingKey env ctx1 q1) = None \<longrightarrow>
      determineMatchingBoundary env ctx1 q1 s
        = (Inl (Error ''No boundary found''),
           s\<lparr>trace := trace s @ [FindAdminBoundary (lat q1) (lng q1) (adminLevel c),
                                  ToastError NoBoundaryForZone],
             matchingCache := (matchingCache s)(matchingKey env ctx1 q1 \<mapsto>
                                Inl (Error ''No boundary found''))\<rparr>))"
proof (intro conjI impI)
  assume "fst (determineMatchingBoundary env ctx1 q1 s) = Inl e"
    and "matchingKey env ctx2 q2 = matchingKey env ctx1 q1"
  then show "determineMatchingBoundary env ctx2 q2
          (performAll env rs (snd (determineMatchingBoundary env ctx1 q1 s)))
        = (Inl e, performAll env rs (snd (determineMatchingBoundary env ctx1 q1 s)))"
    using matching_again [of env ctx2 q2 ctx1 q1 rs s] by simp
next
  assume "fst (bufferedDeterminer env ctx1 m1 s) = Inl e'"
    and "measuringKey env ctx2 m2 = measuringKey env ctx1 m1"
  then show "bufferedDeterminer env ctx2 m2
          (performAll env rs (snd (bufferedDeterminer env ctx1 m1 s)))
        = (Inl e', performAll env rs (snd (bufferedDeterminer env ctx1 m1 s)))"
    using buffer_again [of env ctx2 m2 ctx1 m1 rs s] by simp
next
  assume "type q1 = Zone" and "cat q1 = Some c"
    and "findAdminBoundary (api env) (lat q1) (lng q1) (adminLevel c) = Inr b"
    and "\<not> truthy b"
    and miss: "matchingCache s (matchingKey env ctx1 q1) = None"
  then have "determineMatchingBoundaryBody env ctx1 q1 s
         = (Inl (Error ''No boundary found''),
            s\<lparr>trace := trace s @ [FindAdminBoundary (lat q1) (lng q1) (adminLevel c),
                                   ToastError NoBoundaryForZone]\<rparr>)"
    by (simp add: zone_not_found)
  with miss show "determineMatchingBoundary env ctx1 q1 s
        = (Inl (Error ''No boundary found''),
           s\<lparr>trace := trace s @ [FindAdminBoundary (lat q1) (lng q1) (adminLevel c),
                                  ToastError NoBoundaryForZone],
             matchingCache := (matchingCache s)(matchingKey env ctx1 q1 \<mapsto>
                                Inl (Error ''No boundary found''))\<rparr>)"
    by (simp add: determineMatchingBoundary_def)
qed

text \<open>The zone question at (0, 0) with administrative level 2, for which the sample
  provider finds no boundary, asked again after a hider-mode pass over the same
  question; and a coastline question, for which the sample provider's coastline
  fetch fails.\<close>

theorem failed_resolution_cached_witness:
  "fst (determineMatchingBoundary sampleEnv sampleStores (sampleMatching Zone) initialState)
     = Inl (Error ''No boundary found'')
   \<and> matchingKey sampleEnv sampleStores ((sampleMatching Zone)\<lparr>same := False\<rparr>)
     = matchingKey sampleEnv sampleStores (sampleMatching Zone)
   \<and> determineMatchingBoundary sampleEnv sampleStores ((sampleMatching Zone)\<lparr>same := False\<rparr>)
        (performAll sampleEnv [HiderifyMatching sampleStores (sampleMatching Zone)]
          (snd (determineMatchingBoundary sampleEnv sampleStores (sampleMatching Zone)
                  initialState)))
       = (Inl (Error ''No boundary found''),
          performAll sampleEnv [HiderifyMatching sampleStores (sampleMatching Zone)]
          (snd (determineMatchingBoundary sampleEnv sampleStores (sampleMatching Zone)
                  initialState)))
   \<and> fst (bufferedDeterminer sampleEnv sampleStores (sampleMeasuring Coastline) initialState)
       = Inl (Thrown 6)
   \<and> bufferedDeterminer sampleEnv sampleStores
        ((sampleMeasuring Coastline)\<lparr>hiderCloser := False\<rparr>)
        (performAll sampleEnv [HiderifyMatching sampleStores (sampleMatching Zone)]
          (snd (bufferedDeterminer sampleEnv sampleStores (sampleMeasuring Coastline)
                  initialState)))
       = (Inl (Thrown 6),
          performAll sampleEnv [HiderifyMatching sampleStores (sampleMatching Zone)]
          (snd (bufferedDeterminer sampleEnv sampleStores (sampleMeasuring Coastline)
                  initialState)))
   \<and> determineMatchingBoundary sampleEnv sampleStores (sampleMatching Zone) initialState
       = (Inl (Error ''No boundary found''),
          initialState\<lparr>trace := [FindAdminBoundary 0 0 2, ToastError NoBoundaryForZone],
            matchingCache := [matchingKey sampleEnv sampleStores (sampleMatching Zone) \<mapsto>
                                Inl (Error ''No boundary found'')]\<rparr>)"
proof -
  let ?q1 = "sampleMatching Zone"
  let ?q2 = "(sampleMatching Zone)\<lparr>same := False\<rparr>"
  let ?m1 = "sampleMeasuring Coastline"
  let ?m2 = "(sampleMeasuring Coastline)\<lparr>hiderCloser := False\<rparr>"
  let ?rs = "[HiderifyMatching sampleStores (sampleMatching Zone)]"
  have k: "matchingKey sampleEnv sampleStores ?q2 = matchingKey sampleEnv sampleStores ?q1"
    by (simp add: matchingKey_def sampleMatching_def)
  have km: "measuringKey sampleEnv sampleStores ?m2 = measuringKey sampleEnv sampleStores ?m1"
    by (simp add: measuringKey_def sampleMeasuring_def)
  have r: "fst (determineMatchingBoundary sampleEnv sampleStores ?q1 initialState)
             = Inl (Error ''No boundary found'')"
    by (simp add: determineMatchingBoundary_def determineMatchingBoundaryBody_def
          lookupAdminBoundary_def adminLevelOf_def truthy_def sample_defs io_defs)
  have rm: "fst (bufferedDeterminer sampleEnv sampleStores ?m1 initialState) = Inl (Thrown 6)"
    by (simp add: bufferedDeterminer_def bufferedDeterminerBody_def
          determineMeasuringBoundary_def sample_defs sampleBbox_def io_defs)
  have h: "type ?q1 = Zone" "cat ?q1 = Some \<lparr>adminLevel = 2\<rparr>"
    "findAdminBoundary (api sampleEnv) (lat ?q1) (lng ?q1) (adminLevel \<lparr>adminLevel = 2\<rparr>) = Inr Null"
    "\<not> truthy Null"
    "matchingCache initialState (matchingKey sampleEnv sampleStores ?q1) = None"
    "lat ?q1 = 0" "lng ?q1 = 0"
    by (simp_all add: sample_defs truthy_def)
  note T = failed_resolution_cached
         [where env = sampleEnv and ?ctx1.0 = sampleStores and ?q1.0 = ?q1
            and s = initialState and e = "Error ''No boundary found''"
            and ?ctx2.0 = sampleStores and ?q2.0 = ?q2 and rs = ?rs and ?m1.0 = ?m1
            and e' = "Thrown 6" and ?m2.0 = ?m2 and c = "\<lparr>adminLevel = 2\<rparr>" and b = Null]
  have c1: "determineMatchingBoundary sampleEnv sampleStores ?q2
        (performAll sampleEnv ?rs
          (snd (determineMatchingBoundary sampleEnv sampleStores ?q1 initialState)))
       = (Inl (Error ''No boundary found''),
          performAll sampleEnv ?rs
          (snd (determineMatchingBoundary sampleEnv sampleStores ?q1 initialState)))"
    using T r k by blast
  have c2: "bufferedDeterminer sampleEnv sampleStores ?m2
        (performAll sampleEnv ?rs
          (snd (bufferedDeterminer sampleEnv sampleStores ?m1 initialState)))
       = (Inl (Thrown 6),
          performAll sampleEnv ?rs
          (snd (bufferedDeterminer sampleEnv sampleStores ?m1 initialState)))"
    using T rm km by blast
  have "determineMatchingBoundary sampleEnv sampleStores ?q1 initialState
       = (Inl (Error ''No boundary found''),
          initialState\<lparr>trace := trace initialState @
              [FindAdminBoundary (lat ?q1) (lng ?q1) (adminLevel \<lparr>adminLevel = 2\<rparr>),
               ToastError NoBoundaryForZone],
            matchingCache := (matchingCache initialState)
              (matchingKey sampleEnv sampleStores ?q1 \<mapsto> Inl (Error ''No boundary found''))\<rparr>)"
    using T h(1-5) by blast
  then have c3: "determineMatchingBoundary sampleEnv sampleStores ?q1 initialState
       = (Inl (Error ''No boundary found''),
          initialState\<lparr>trace := [FindAdminBoundary 0 0 2, ToastError NoBoundaryForZone],
            matchingCache := [matchingKey sampleEnv sampleStores ?q1 \<mapsto>
                                Inl (Error ''No boundary found'')]\<rparr>)"
    by (simp add: initialState_def sampleMatching_def)
  from r k c1 rm c2 c3 show ?thesis by blast
qed

subsection \<open>Questions without a boundary\<close>

lemma matching_body_sentinel:
  "noBoundaryMatching (type q) \<Longrightarrow>
   determineMatchingBoundaryBody env ctx q s = (Inr NoBoundary, s)"
  by (auto simp: noBoundaryMatching_def isPlain_def determineMatchingBoundaryBody_def
        succeed_def split: matchingType.splits)

lemma measuring_body_sentinel:
  "noBoundaryMeasuring (type m) \<Longrightarrow> bbox_of (turf env) (mapGeoJSON ctx) = Inr bb \<Longrightarrow>
   determineMeasuringBoundary env ctx m s = (Inr NoBoundary, s)"
  by (auto simp: noBoundaryMeasuring_def isPlainM_def determineMeasuringBoundary_def
        io_defs split: measuringType.splits)

lemma buffered_body_sentinel:
  "noBoundaryMeasuring (type m) \<Longrightarrow> bbox_of (turf env) (mapGeoJSON ctx) = Inr bb \<Longrightarrow>
   bufferedDeterminerBody env ctx m s = (Inr NoBoundary, s)"
  by (simp add: bufferedDeterminerBody_def andThen_def measuring_body_sentinel succeed_def)

lemma adjust_matching_sentinel:
  assumes "noBoundaryMatching (type q)" and "mapData \<noteq> Null"
    and "matchingCache s (matchingKey env ctx q) = None
         \<or> matchingCache s (matchingKey env ctx q) = Some (Inr NoBoundary)"
  shows "adjustPerMatching env ctx q mapData s
     = (Inr mapData,
        s\<lparr>matchingCache := (matchingCache s)(matchingKey env ctx q \<mapsto> Inr NoBoundary)\<rparr>)"
  using assms(3)
proof
  assume "matchingCache s (matchingKey env ctx q) = None"
  with assms(1,2) show ?thesis
    by (simp add: adjustPerMatching_def determineMatchingBoundary_def andThen_def
          matching_body_sentinel succeed_def)
next
  assume h: "matchingCache s (matchingKey env ctx q) = Some (Inr NoBoundary)"
  then have "(matchingCache s)(matchingKey env ctx q \<mapsto> Inr NoBoundary) = matchingCache s"
    by (simp add: map_upd_triv)
  with h assms(2) show ?thesis
    by (simp add: adjustPerMatching_def determineMatchingBoundary_def andThen_def succeed_def)
qed

lemma adjust_measuring_sentinel:
  assumes "noBoundaryMeasuring (type m)" and "bbox_of (turf env) (mapGeoJSON ctx) = Inr bb"
    and "mapData \<noteq> Null"
    and "bufferCache s (measuringKey env ctx m) = None
         \<or> bufferCache s (measuringKey env ctx m) = Some (Inr NoBoundary)"
  shows "adjustPerMeasuring env ctx m mapData s
     = (Inr mapData,
        s\<lparr>bufferCache := (bufferCache s)(measuringKey env ctx m \<mapsto> Inr NoBoundary)\<rparr>)"
  using assms(4)
proof
  assume "bufferCache s (measuringKey env ctx m) = None"
  with assms(1-3) show ?thesis
    by (simp add: adjustPerMeasuring_def bufferedDeterminer_def andThen_def
          buffered_body_sentinel succeed_def)
next
  assume h: "bufferCache s (measuringKey env ctx m) = Some (Inr NoBoundary)"
  then have "(bufferCache s)(measuringKey env ctx m \<mapsto> Inr NoBoundary) = bufferCache s"
    by (simp add: map_upd_triv)
  with h assms(3) show ?thesis
    by (simp add: adjustPerMeasuring_def bufferedDeterminer_def andThen_def succeed_def)
qed

text \<open>With a serialisation that keeps the type tag, what the matching cache holds under
  the key of a question without a boundary, after any calls from the initial state,
  is nothing or the sentinel.\<close>

lemma matching_sentinel_reachable:
  assumes "typeSeparating env" and "noBoundaryMatching (type q)"
  shows "matchingCache (performAll env rs initialState) (matchingKey env ctx q) = None
         \<or> matchingCache (performAll env rs initialState) (matchingKey env ctx q)
             = Some (Inr NoBoundary)"
proof (cases "matchingCache (performAll env rs initialState) (matchingKey env ctx q)")
  case None
  then show ?thesis by simp
next
  case (Some r)
  have "cachesKept env initialState (performAll env rs initialState)"
    by (rule kept_performAll)
  with Some have "matchingCache initialState (matchingKey env ctx q) = Some r
      \<or> (\<exists>ctx' q' t. matchingKey env ctx q = matchingKey env ctx' q'
            \<and> r = fst (determineMatchingBoundaryBody env ctx' q' t))"
    by (simp add: cachesKept_def)
  then obtain ctx' q' t where k: "matchingKey env ctx q = matchingKey env ctx' q'"
    and r: "r = fst (determineMatchingBoundaryBody env ctx' q' t)"
    by (auto simp: initialState_def)
  let ?a = "\<lparr>sig_type = type q, sig_lat = lat q, sig_lng = lng q, sig_cat = cat q,
              sig_geo = geo q, sig_entirety = entirety ctx\<rparr>"
  let ?b = "\<lparr>sig_type = type q', sig_lat = lat q', sig_lng = lng q', sig_cat = cat q',
              sig_geo = geo q', sig_entirety = entirety ctx'\<rparr>"
  from k have "stringifyMatching (js env) ?a = stringifyMatching (js env) ?b"
    by (simp add: matchingKey_def)
  with assms(1) have "sig_type ?a = sig_type ?b"
    unfolding typeSeparating_def by blast
  then have "type q' = type q" by simp
  with assms(2) r have "r = Inr NoBoundary"
    by (simp add: matching_body_sentinel)
  with Some show ?thesis by simp
qed

lemma locationCode_inj: "locationCode a = locationCode b \<Longrightarrow> a = b"
  by (cases a; cases b; simp)

lemma typeTag_inj: "typeTag a = typeTag b \<Longrightarrow> a = b"
  by (cases a; cases b; simp add: locationCode_inj)

lemma typeTag_length: "length (typeTag a) = 2"
  by (cases a) simp_all

lemma sample_typeSeparating: "typeSeparating sampleEnv"
  unfolding typeSeparating_def
proof (intro allI impI)
  fix a b :: matchingSignature
  assume "stringifyMatching (js sampleEnv) a = stringifyMatching (js sampleEnv) b"
  then have "typeTag (sig_type a) @ (case sig_cat a of None \<Rightarrow> [] | Some c \<Rightarrow> [adminLevel c])
      = typeTag (sig_type b) @ (case sig_cat b of None \<Rightarrow> [] | Some c \<Rightarrow> [adminLevel c])"
    by (simp add: sampleEnv_def sampleBuiltins_def)
  then have "typeTag (sig_type a) = typeTag (sig_type b)"
    by (simp add: typeTag_length)
  then show "sig_type a = sig_type b" by (rule typeTag_inj)
qed

text \<open>
  C5. A matching question of a plain category or of a station type, and a measuring
  question of a plain category, \<^verbatim>\<open>mcdonalds\<close>, \<^verbatim>\<open>seven11\<close> or \<^verbatim>\<open>rail-measure\<close>, resolves to
  the sentinel \<^verbatim>\<open>false\<close> (for a measuring question once the bounding box of the current
  map is computed, which comes first). The mask adjustment then returns the mask it
  was given, and the state changes by the cache entry alone: the trace has no call of
  the mask operator. This holds in a state whose cache has, under the key of the
  question, nothing or the sentinel of an earlier resolution; for a matching question
  and a serialisation that keeps the type tag, every state reached from the initial
  one by calls of the exported functions is such a state.
\<close>

theorem no_boundary_mask_unchanged:
  "(noBoundaryMatching (type q) \<longrightarrow>
      determineMatchingBoundaryBody env ctx q s = (Inr NoBoundary, s)
      \<and> (mapData \<noteq> Null \<longrightarrow>
           (matchingCache s (matchingKey env ctx q) = None
            \<or> matchingCache s (matchingKey env ctx q) = Some (Inr NoBoundary)) \<longrightarrow>
           adjustPerMatching env ctx q mapData s
             = (Inr mapData,
                s\<lparr>matchingCache :=
                    (matchingCache s)(matchingKey env ctx q \<mapsto> Inr NoBoundary)\<rparr>))
      \<and> (mapData \<noteq> Null \<longrightarrow> typeSeparating env \<longrightarrow>
           adjustPerMatching env ctx q mapData (performAll env rs initialState)
             = (Inr mapData,
                (performAll env rs initialState)\<lparr>matchingCache :=
                    (matchingCache (performAll env rs initialState))
                      (matchingKey env ctx q \<mapsto> Inr NoBoundary)\<rparr>)))
   \<and> (noBoundaryMeasuring (type m) \<longrightarrow> bbox_of (turf env) (mapGeoJSON ctx) = Inr bb \<longrightarrow>
      determineMeasuringBoundary env ctx m s = (Inr NoBoundary, s)
      \<and> (mapData \<noteq> Null \<longrightarrow>
           (bufferCache s (measuringKey env ctx m) = None
            \<or> bufferCache s (measuringKey env ctx m) = Some (Inr NoBoundary)) \<longrightarrow>
           adjustPerMeasuring env ctx m mapData s
             = (Inr mapData,
                s\<lparr>bufferCache :=
                    (bufferCache s)(measuringKey env ctx m \<mapsto> Inr NoBoundary)\<rparr>)))"
proof (intro conjI impI)
  assume "noBoundaryMatching (type q)"
  then show "determineMatchingBoundaryBody env ctx q s = (Inr NoBoundary, s)"
    by (rule matching_body_sentinel)
next
  assume "noBoundaryMatching (type q)" "mapData \<noteq> Null"
    "matchingCache s (matchingKey env ctx q) = None
     \<or> matchingCache s (matchingKey env ctx q) = Some (Inr NoBoundary)"
  then show "adjustPerMatching env ctx q mapData s
             = (Inr mapData,
                s\<lparr>matchingCache :=
                    (matchingCache s)(matchingKey env ctx q \<mapsto> Inr NoBoundary)\<rparr>)"
    by (rule adjust_matching_sentinel)
next
  assume t: "noBoundaryMatching (type q)" and m: "mapData \<noteq> Null" and e: "typeSeparating env"
  show "adjustPerMatching env ctx q mapData (performAll env rs initialState)
             = (Inr mapData,
                (performAll env rs initialState)\<lparr>matchingCache :=
                    (matchingCache (performAll env rs initialState))
                      (matchingKey env ctx q \<mapsto> Inr NoBoundary)\<rparr>)"
    by (rule adjust_matching_sentinel [OF t m matching_sentinel_reachable [OF e t]])
next
  assume "noBoundaryMeasuring (type m)" and "bbox_of (turf env) (mapGeoJSON ctx) = Inr bb"
  then show "determineMeasuringBoundary env ctx m s = (Inr NoBoundary, s)"
    by (rule measuring_body_sentinel)
next
  assume "noBoundaryMeasuring (type m)" "bbox_of (turf env) (mapGeoJSON ctx) = Inr bb"
    "mapData \<noteq> Null"
    "bufferCache s (measuringKey env ctx m) = None
     \<or> bufferCache s (measuringKey env ctx m) = Some (Inr NoBoundary)"
  then show "adjustPerMeasuring env ctx m mapData s
             = (Inr mapData,
                s\<lparr>bufferCache :=
                    (bufferCache s)(measuringKey env ctx m \<mapsto> Inr NoBoundary)\<rparr>)"
    by (rule adjust_measuring_sentinel)
qed

text \<open>A park question of each family, adjusted against the sample map from the initial
  state; and the matching one again after a failed zone question and a hider-mode
  pass.\<close>

theorem no_boundary_mask_unchanged_witness:
  "noBoundaryMatching (type (sampleMatching (Plain Park)))
   \<and> determineMatchingBoundaryBody sampleEnv sampleStores (sampleMatching (Plain Park))
        initialState = (Inr NoBoundary, initialState)
   \<and> adjustPerMatching sampleEnv sampleStores (sampleMatching (Plain Park))
        (box (-10) (-10) 10 10) initialState
      = (Inr (box (-10) (-10) 10 10),
         initialState\<lparr>matchingCache :=
           [matchingKey sampleEnv sampleStores (sampleMatching (Plain Park)) \<mapsto>
              Inr NoBoundary]\<rparr>)
   \<and> typeSeparating sampleEnv
   \<and> fst (adjustPerMatching sampleEnv sampleStores (sampleMatching (Plain Park))
        (box (-10) (-10) 10 10)
        (performAll sampleEnv
           [DetermineMatchingBoundary sampleStores (sampleMatching Zone),
            HiderifyMatching sampleStores (sampleMatching CustomZone)] initialState))
      = Inr (box (-10) (-10) 10 10)
   \<and> noBoundaryMeasuring (type (sampleMeasuring (PlainM Park)))
   \<and> bbox_of (turf sampleEnv) (mapGeoJSON sampleStores) = Inr (-10, -10, 10, 10)
   \<and> determineMeasuringBoundary sampleEnv sampleStores (sampleMeasuring (PlainM Park))
        initialState = (Inr NoBoundary, initialState)
   \<and> adjustPerMeasuring sampleEnv sampleStores (sampleMeasuring (PlainM Park))
        (box (-10) (-10) 10 10) initialState
      = (Inr (box (-10) (-10) 10 10),
         initialState\<lparr>bufferCache :=
           [measuringKey sampleEnv sampleStores (sampleMeasuring (PlainM Park)) \<mapsto>
              Inr NoBoundary]\<rparr>)"
proof -
  let ?q = "sampleMatching (Plain Park)"
  let ?m = "sampleMeasuring (PlainM Park)"
  let ?rs = "[DetermineMatchingBoundary sampleStores (sampleMatching Zone),
              HiderifyMatching sampleStores (sampleMatching CustomZone)]"
  have t: "noBoundaryMatching (type ?q)" "noBoundaryMeasuring (type ?m)"
    by (simp_all add: noBoundaryMatching_def noBoundaryMeasuring_def isPlain_def isPlainM_def
          sampleMatching_def sampleMeasuring_def)
  have b: "bbox_of (turf sampleEnv) (mapGeoJSON sampleStores) = Inr (-10, -10, 10, 10)"
    by (simp add: sample_defs sampleBbox_def)
  have n: "box (-10) (-10) 10 10 \<noteq> Null" by (simp add: box_def)
  have c: "matchingCache initialState (matchingKey sampleEnv sampleStores ?q) = None"
    "bufferCache initialState (measuringKey sampleEnv sampleStores ?m) = None"
    by (simp_all add: initialState_def)
  note T = no_boundary_mask_unchanged
    [where q = ?q and env = sampleEnv and ctx = sampleStores and s = initialState
       and mapData = "box (-10) (-10) 10 10" and m = ?m and bb = "(-10, -10, 10, 10)"
       and rs = ?rs]
  have e: "(matchingCache initialState)(matchingKey sampleEnv sampleStores ?q \<mapsto> Inr NoBoundary)
             = [matchingKey sampleEnv sampleStores ?q \<mapsto> Inr NoBoundary]"
    "(bufferCache initialState)(measuringKey sampleEnv sampleStores ?m \<mapsto> Inr NoBoundary)
             = [measuringKey sampleEnv sampleStores ?m \<mapsto> Inr NoBoundary]"
    by (simp_all add: initialState_def)
  have g: "fst (adjustPerMatching sampleEnv sampleStores ?q (box (-10) (-10) 10 10)
                  (performAll sampleEnv ?rs initialState)) = Inr (box (-10) (-10) 10 10)"
    using T t(1) n sample_typeSeparating by simp
  from T t b n c g sample_typeSeparating show ?thesis unfolding e by blast
qed

subsection \<open>The safety gates of the full categories\<close>

lemma mapE_length: "mapE f xs = Inr ys \<Longrightarrow> length ys = length xs"
  by (induction xs arbitrary: ys) (auto split: sum.splits)

lemma mapE_all2: "mapE f xs = Inr ys \<Longrightarrow> list_all2 (\<lambda>x y. f x = Inr y) xs ys"
  by (induction xs arbitrary: ys) (auto split: sum.splits)

lemma runtimeError_iff:
  "runtimeError data \<longleftrightarrow> (\<exists>r. remark data = Some r \<and> startsWith r (ascii ''runtime error''))"
  by (auto simp: runtimeError_def startsWith_def ascii_def split: option.splits)

text \<open>
  C2. For a category-"full" question whose provider request is answered with \<open>data\<close>:
  if the remark of \<open>data\<close> starts with "runtime error", or \<open>data\<close> has 1000 elements or
  more, \<open>findMatchingPlaces\<close> returns the empty array and \<open>determineMeasuringBoundary\<close>
  the array of one empty multipolygon, after one request and one \<^verbatim>\<open>toast.error\<close>, and
  without any call of \<^verbatim>\<open>turf.combine\<close>. Otherwise \<open>findMatchingPlaces\<close> returns the points
  of the elements, one each and in order, with no notification, and
  \<open>determineMeasuringBoundary\<close> hands these same points to \<^verbatim>\<open>turf.combine\<close> and returns the
  array of its first feature.
\<close>

theorem full_category_safety_gate:
  "(type q = Full location \<longrightarrow>
    findPlacesInZone (api env) ctx (FullQuery location) = Inr data \<longrightarrow>
      (runtimeError data \<or> 1000 \<le> length (elements data) \<longrightarrow>
         findMatchingPlaces env ctx q s
           = (Inr (FeatureArray []),
              s\<lparr>trace := trace s @
                   [FindPlacesInZone (FullQuery location),
                    ToastError (if runtimeError data then ErrorFinding location
                                else TooMany location (length (elements data)))]\<rparr>))
      \<and> (\<not> runtimeError data \<longrightarrow> length (elements data) < 1000 \<longrightarrow>
         mapE elementPoint (elements data) = Inr points \<longrightarrow>
           findMatchingPlaces env ctx q s
             = (Inr (FeatureArray points),
                s\<lparr>trace := trace s @ [FindPlacesInZone (FullQuery location)]\<rparr>)
           \<and> length points = length (elements data)
           \<and> list_all2 (\<lambda>x p. elementPoint x = Inr p) (elements data) points))
   \<and> (type m = FullM location \<longrightarrow>
      findPlacesInZone (api env) ctx (FullQuery location) = Inr data \<longrightarrow>
      bbox_of (turf env) (mapGeoJSON ctx) = Inr bb \<longrightarrow>
      (runtimeError data \<or> 1000 \<le> length (elements data) \<longrightarrow>
         determineMeasuringBoundary env ctx m s
           = (Inr (Boundary (FeatureArray [emptyMultiPolygon])),
              s\<lparr>trace := trace s @
                   [FindPlacesInZone (FullQuery location),
                    ToastError (if runtimeError data then ErrorFinding location
                                else TooMany location (length (elements data)))]\<rparr>))
      \<and> (\<not> runtimeError data \<longrightarrow> length (elements data) < 1000 \<longrightarrow>
         mapE elementPoint (elements data) = Inr points \<longrightarrow>
         combine (turf env) (FeatureCollection points) = Inr c \<longrightarrow>
         firstFeature c = Inr f \<longrightarrow>
           determineMeasuringBoundary env ctx m s
             = (Inr (Boundary (FeatureArray [f])),
                s\<lparr>trace := trace s @ [FindPlacesInZone (FullQuery location), Combine]\<rparr>)
           \<and> length points = length (elements data)))"
  by (auto simp: findMatchingPlaces_def determineMeasuringBoundary_def combined_def io_defs
        mapE_length mapE_all2)


text \<open>A museum-full question of each family against the three sample answers.\<close>

theorem full_category_safety_gate_witness:
  "findMatchingPlaces (answering timedOut) sampleStores (sampleMatching (Full Museum))
       initialState
     = (Inr (FeatureArray []),
        initialState\<lparr>trace := [FindPlacesInZone (FullQuery Museum),
                                ToastError (ErrorFinding Museum)]\<rparr>)
   \<and> findMatchingPlaces (answering thousand) sampleStores (sampleMatching (Full Museum))
       initialState
     = (Inr (FeatureArray []),
        initialState\<lparr>trace := [FindPlacesInZone (FullQuery Museum),
                                ToastError (TooMany Museum 1000)]\<rparr>)
   \<and> findMatchingPlaces (answering twoPlaces) sampleStores (sampleMatching (Full Museum))
       initialState
     = (Inr (FeatureArray [point 2 1, point 3 4]),
        initialState\<lparr>trace := [FindPlacesInZone (FullQuery Museum)]\<rparr>)
   \<and> determineMeasuringBoundary (answering timedOut) sampleStores
       (sampleMeasuring (FullM Museum)) initialState
     = (Inr (Boundary (FeatureArray [emptyMultiPolygon])),
        initialState\<lparr>trace := [FindPlacesInZone (FullQuery Museum),
                                ToastError (ErrorFinding Museum)]\<rparr>)
   \<and> determineMeasuringBoundary (answering thousand) sampleStores
       (sampleMeasuring (FullM Museum)) initialState
     = (Inr (Boundary (FeatureArray [emptyMultiPolygon])),
        initialState\<lparr>trace := [FindPlacesInZone (FullQuery Museum),
                                ToastError (TooMany Museum 1000)]\<rparr>)
   \<and> determineMeasuringBoundary (answering twoPlaces) sampleStores
       (sampleMeasuring (FullM Museum)) initialState
     = (Inr (Boundary (FeatureArray [Feature (MultiPoint [(2, 1), (3, 4)]) None])),
        initialState\<lparr>trace := [FindPlacesInZone (FullQuery Museum), Combine]\<rparr>)"
proof -
  let ?q = "sampleMatching (Full Museum)"
  let ?m = "sampleMeasuring (FullM Museum)"
  have t: "type ?q = Full Museum" "type ?m = FullM Museum"
    by (simp_all add: sampleMatching_def sampleMeasuring_def)
  have a: "\<And>d. findPlacesInZone (api (answering d)) sampleStores (FullQuery Museum) = Inr d"
    by (simp add: answering_def)
  have b: "\<And>d. bbox_of (turf (answering d)) (mapGeoJSON sampleStores) = Inr (-10, -10, 10, 10)"
    by (simp add: answering_def sample_defs sampleBbox_def)
  have r1: "runtimeError timedOut"
    by (simp add: runtimeError_def timedOut_def startsWith_def ascii_def)
  have r2: "\<not> runtimeError thousand" "length (elements thousand) = 1000"
    by (simp_all add: runtimeError_def thousand_def)
  have r3: "\<not> runtimeError twoPlaces" "length (elements twoPlaces) < 1000"
    "mapE elementPoint (elements twoPlaces) = Inr [point 2 1, point 3 4]"
    by (simp_all add: runtimeError_def twoPlaces_def elementPoint_def way_def node_def
          turfPoint_def)
  have c: "combine (turf (answering twoPlaces)) (FeatureCollection [point 2 1, point 3 4])
             = Inr (FeatureCollection [Feature (MultiPoint [(2, 1), (3, 4)]) None])"
    "firstFeature (FeatureCollection [Feature (MultiPoint [(2, 1), (3, 4)]) None])
       = Inr (Feature (MultiPoint [(2, 1), (3, 4)]) None)"
    by (simp_all add: answering_def sample_defs sampleCombine_def pointsOf_def point_def
          firstFeature_def)
  note T = full_category_safety_gate [where q = ?q and m = ?m and location = Museum
             and ctx = sampleStores and s = initialState and bb = "(-10, -10, 10, 10)"]
  have i: "trace initialState = []" by (simp add: initialState_def)
  have g1: "findMatchingPlaces (answering timedOut) sampleStores ?q initialState
     = (Inr (FeatureArray []),
        initialState\<lparr>trace := [FindPlacesInZone (FullQuery Museum),
                                ToastError (ErrorFinding Museum)]\<rparr>)"
    using T [where env = "answering timedOut" and data = timedOut] t a r1 by (simp add: i)
  have g4: "determineMeasuringBoundary (answering timedOut) sampleStores ?m initialState
     = (Inr (Boundary (FeatureArray [emptyMultiPolygon])),
        initialState\<lparr>trace := [FindPlacesInZone (FullQuery Museum),
                                ToastError (ErrorFinding Museum)]\<rparr>)"
    using T [where env = "answering timedOut" and data = timedOut] t a b r1 by (simp add: i)
  have g2: "findMatchingPlaces (answering thousand) sampleStores ?q initialState
     = (Inr (FeatureArray []),
        initialState\<lparr>trace := [FindPlacesInZone (FullQuery Museum),
                                ToastError (TooMany Museum 1000)]\<rparr>)"
    using T [where env = "answering thousand" and data = thousand] t a r2 by (simp add: i)
  have g5: "determineMeasuringBoundary (answering thousand) sampleStores ?m initialState
     = (Inr (Boundary (FeatureArray [emptyMultiPolygon])),
        initialState\<lparr>trace := [FindPlacesInZone (FullQuery Museum),
                                ToastError (TooMany Museum 1000)]\<rparr>)"
    using T [where env = "answering thousand" and data = thousand] t a b r2 by (simp add: i)
  have g3: "findMatchingPlaces (answering twoPlaces) sampleStores ?q initialState
     = (Inr (FeatureArray [point 2 1, point 3 4]),
        initialState\<lparr>trace := [FindPlacesInZone (FullQuery Museum)]\<rparr>)"
    using T [where env = "answering twoPlaces" and data = twoPlaces
               and points = "[point 2 1, point 3 4]"] t a r3 by (simp add: i)
  have g6: "determineMeasuringBoundary (answering twoPlaces) sampleStores ?m initialState
     = (Inr (Boundary (FeatureArray [Feature (MultiPoint [(2, 1), (3, 4)]) None])),
        initialState\<lparr>trace := [FindPlacesInZone (FullQuery Museum), Combine]\<rparr>)"
    using T [where env = "answering twoPlaces" and data = twoPlaces
               and points = "[point 2 1, point 3 4]"
               and c = "FeatureCollection [Feature (MultiPoint [(2, 1), (3, 4)]) None]"
               and f = "Feature (MultiPoint [(2, 1), (3, 4)]) None"] t a b r3 c
    by (simp add: i)
  from g1 g2 g3 g4 g5 g6 show ?thesis by blast
qed

subsection \<open>The letter of a letter zone\<close>

lemma zoneLetter_english:
  "englishNameOf zone = Some (c # cs) \<Longrightarrow>
   zoneLetter env zone s = (Inr (toUpperCase env [c]), s)"
  by (simp add: zoneLetter_def falsy_def upperFirst_def io_defs)

lemma zoneLetter_native:
  "falsy (englishNameOf zone) \<Longrightarrow> nativeNameOf zone = Some (c # cs) \<Longrightarrow> isAsciiLetter c \<Longrightarrow>
   zoneLetter env zone s = (Inr (toUpperCase env [c]), s)"
  by (simp add: zoneLetter_def firstIsLetter_def upperFirst_def io_defs)

lemma zoneLetter_no_english_name:
  "falsy (englishNameOf zone) \<Longrightarrow> nativeNameOf zone = Some n \<Longrightarrow> \<not> firstIsLetter n \<Longrightarrow>
   zoneLetter env zone s
     = (Inl (Error ''No English name''),
        s\<lparr>trace := trace s @ [ToastError NoEnglishNameForZone]\<rparr>)"
  by (simp add: zoneLetter_def io_defs)

lemma zoneLetter_fails_iff:
  "fst (zoneLetter env zone s) = Inl (Error ''No English name'')
   \<longleftrightarrow> falsy (englishNameOf zone) \<and> (\<exists>n. nativeNameOf zone = Some n \<and> \<not> firstIsLetter n)"
  by (auto simp: zoneLetter_def falsy_def firstIsLetter_def upperFirst_def io_defs
        split: option.splits list.splits)

lemma letter_zone_body:
  assumes "type q = LetterZone" and "cat q = Some k"
    and "findAdminBoundary (api env) (lat q) (lng q) (adminLevel k) = Inr zone"
    and "truthy zone"
  shows "determineMatchingBoundaryBody env ctx q s
     = andThen (zoneLetter env zone) (\<lambda>letter.
         andThen (fetchPlaces env ctx (LetterZonesQuery (adminLevel k) letter)) (\<lambda>data.
         andThen (pure (osmtogeojson (js env) data)) (\<lambda>converted.
         andThen (pure (cellsOf converted)) (\<lambda>fs.
         andThen (pure (simplify (turf env) (FeatureCollection (filter isPolygonal fs))
                          (1 / 1000) True)) (\<lambda>simplified.
         andThen (pure (safeUnion (utils env) simplified)) (\<lambda>boundary.
         succeed (Boundary boundary)))))))
       (s\<lparr>trace := trace s @ [FindAdminBoundary (lat q) (lng q) (adminLevel k)]\<rparr>)"
  using assms
  by (simp add: determineMatchingBoundaryBody_def lookupAdminBoundary_def adminLevelOf_def
        andThen_def pure_def emit_def call_def split: prod.splits sum.splits)


lemma upper_ascii_letter:
  "isAsciiLetter c \<Longrightarrow> toUpperCase env [c] = [if 97 \<le> c then c - 32 else c]"
  by (auto simp: toUpperCase_def isAsciiLetter_def)

text \<open>
  C6. For a letter-zone question whose enclosing boundary \<open>zone\<close> is found: when the
  boundary has a non-empty English name, the grouping letter is its first character in
  upper case, and nothing is raised; the failure "No English name" is raised, after
  its notification, if and only if the boundary has no (or an empty) English name and
  its native name does not begin with an ASCII letter; when the English name is
  missing and the native name begins with an ASCII letter, the letter is that letter
  in upper case. The resolver raises the failure to its caller, and otherwise asks
  the provider for the zones of the same level whose name begins with the letter.
\<close>

theorem letter_zone_grouping_letter:
  "(englishNameOf zone = Some (c # cs) \<longrightarrow>
      zoneLetter env zone s = (Inr (toUpperCase env [c]), s))
   \<and> (fst (zoneLetter env zone s) = Inl (Error ''No English name'')
        \<longleftrightarrow> falsy (englishNameOf zone)
            \<and> (\<exists>n. nativeNameOf zone = Some n \<and> \<not> firstIsLetter n))
   \<and> (falsy (englishNameOf zone) \<longrightarrow> nativeNameOf zone = Some (c # cs) \<longrightarrow>
       isAsciiLetter c \<longrightarrow>
         zoneLetter env zone s = (Inr (toUpperCase env [c]), s))
   \<and> (isAsciiLetter c \<longrightarrow> toUpperCase env [c] = [if 97 \<le> c then c - 32 else c])
   \<and> (type q = LetterZone \<longrightarrow> cat q = Some k \<longrightarrow>
       findAdminBoundary (api env) (lat q) (lng q) (adminLevel k) = Inr zone \<longrightarrow>
       truthy zone \<longrightarrow>
         (falsy (englishNameOf zone) \<longrightarrow> nativeNameOf zone = Some n \<longrightarrow>
          \<not> firstIsLetter n \<longrightarrow>
            determineMatchingBoundaryBody env ctx q s
              = (Inl (Error ''No English name''),
                 s\<lparr>trace := trace s @
                      [FindAdminBoundary (lat q) (lng q) (adminLevel k),
                       ToastError NoEnglishNameForZone]\<rparr>))
         \<and> (englishNameOf zone = Some (c # cs) \<longrightarrow>
            findPlacesInZone (api env) ctx
              (LetterZonesQuery (adminLevel k) (toUpperCase env [c])) = Inr data \<longrightarrow>
            osmtogeojson (js env) data = Inr (FeatureCollection fs) \<longrightarrow>
            simplify (turf env) (FeatureCollection (filter isPolygonal fs)) (1 / 1000) True
              = Inr simplified \<longrightarrow>
            safeUnion (utils env) simplified = Inr b \<longrightarrow>
              determineMatchingBoundaryBody env ctx q s
                = (Inr (Boundary b),
                   s\<lparr>trace := trace s @
                        [FindAdminBoundary (lat q) (lng q) (adminLevel k),
                         FindPlacesInZone
                           (LetterZonesQuery (adminLevel k) (toUpperCase env [c]))]\<rparr>)))"
proof (intro conjI impI)
  assume "englishNameOf zone = Some (c # cs)"
  then show "zoneLetter env zone s = (Inr (toUpperCase env [c]), s)"
    by (rule zoneLetter_english)
next
  show "fst (zoneLetter env zone s) = Inl (Error ''No English name'')
        \<longleftrightarrow> falsy (englishNameOf zone)
            \<and> (\<exists>n. nativeNameOf zone = Some n \<and> \<not> firstIsLetter n)"
    by (rule zoneLetter_fails_iff)
next
  assume "falsy (englishNameOf zone)" "nativeNameOf zone = Some (c # cs)" "isAsciiLetter c"
  then show "zoneLetter env zone s = (Inr (toUpperCase env [c]), s)"
    by (rule zoneLetter_native)
next
  assume "isAsciiLetter c"
  then show "toUpperCase env [c] = [if 97 \<le> c then c - 32 else c]"
    by (rule upper_ascii_letter)
next
  assume q: "type q = LetterZone" "cat q = Some k"
    "findAdminBoundary (api env) (lat q) (lng q) (adminLevel k) = Inr zone" "truthy zone"
    and z: "falsy (englishNameOf zone)" "nativeNameOf zone = Some n" "\<not> firstIsLetter n"
  show "determineMatchingBoundaryBody env ctx q s
              = (Inl (Error ''No English name''),
                 s\<lparr>trace := trace s @
                      [FindAdminBoundary (lat q) (lng q) (adminLevel k),
                       ToastError NoEnglishNameForZone]\<rparr>)"
    by (simp add: letter_zone_body [OF q] andThen_def zoneLetter_no_english_name [OF z])
next
  assume q: "type q = LetterZone" "cat q = Some k"
    "findAdminBoundary (api env) (lat q) (lng q) (adminLevel k) = Inr zone" "truthy zone"
    and z: "englishNameOf zone = Some (c # cs)"
    and rest: "findPlacesInZone (api env) ctx
              (LetterZonesQuery (adminLevel k) (toUpperCase env [c])) = Inr data"
      "osmtogeojson (js env) data = Inr (FeatureCollection fs)"
      "simplify (turf env) (FeatureCollection (filter isPolygonal fs)) (1 / 1000) True
              = Inr simplified"
      "safeUnion (utils env) simplified = Inr b"
  show "determineMatchingBoundaryBody env ctx q s
                = (Inr (Boundary b),
                   s\<lparr>trace := trace s @
                        [FindAdminBoundary (lat q) (lng q) (adminLevel k),
                         FindPlacesInZone
                           (LetterZonesQuery (adminLevel k) (toUpperCase env [c]))]\<rparr>)"
    using rest
    by (simp add: letter_zone_body [OF q] andThen_def zoneLetter_english [OF z] cellsOf_def
          pure_def emit_def call_def succeed_def fetchPlaces_def)
qed

text \<open>The boundary named "France" gives the letter "F", and so does one whose only
  name is the native "france"; the boundary whose only name is the native name made of
  the code unit 233 (e with an acute accent) and "ire" raises the failure.\<close>

theorem letter_zone_grouping_letter_witness:
  "zoneLetter sampleEnv (named (Some (ascii ''France'')) None) initialState
     = (Inr (ascii ''F''), initialState)
   \<and> determineMatchingBoundaryBody (locating (named (Some (ascii ''France'')) None))
        sampleStores (sampleMatching LetterZone) initialState
     = (Inr (Boundary (FeatureCollection [])),
        initialState\<lparr>trace := [FindAdminBoundary 0 0 2,
                                FindPlacesInZone (LetterZonesQuery 2 (ascii ''F''))]\<rparr>)
   \<and> zoneLetter sampleEnv (named None (Some (ascii ''france''))) initialState
     = (Inr (ascii ''F''), initialState)
   \<and> fst (zoneLetter sampleEnv (named None (Some (233 # ascii ''ire''))) initialState)
     = Inl (Error ''No English name'')
   \<and> determineMatchingBoundaryBody (locating (named None (Some (233 # ascii ''ire''))))
        sampleStores (sampleMatching LetterZone) initialState
     = (Inl (Error ''No English name''),
        initialState\<lparr>trace := [FindAdminBoundary 0 0 2,
                                ToastError NoEnglishNameForZone]\<rparr>)"
proof -
  let ?france = "named (Some (ascii ''France'')) None"
  let ?native = "named None (Some (ascii ''france''))"
  let ?eire = "named None (Some (233 # ascii ''ire''))"
  let ?q = "sampleMatching LetterZone"
  have names:
    "englishNameOf ?france = Some (70 # ascii ''rance'')"
    "falsy (englishNameOf ?native)" "nativeNameOf ?native = Some (102 # ascii ''rance'')"
    "falsy (englishNameOf ?eire)" "nativeNameOf ?eire = Some (233 # ascii ''ire'')"
    "\<not> firstIsLetter (233 # ascii ''ire'')" "isAsciiLetter 102" "isAsciiLetter 70"
    by (simp_all add: englishNameOf_def nativeNameOf_def named_def propertiesOpt_def
          falsy_def ascii_def firstIsLetter_def isAsciiLetter_def)
  have q: "type ?q = LetterZone" "cat ?q = Some \<lparr>adminLevel = 2\<rparr>" "lat ?q = 0" "lng ?q = 0"
    by (simp_all add: sampleMatching_def)
  have l: "\<And>z. findAdminBoundary (api (locating z)) 0 0 2 = Inr z"
    "truthy ?france" "truthy ?eire"
    by (simp_all add: locating_def truthy_def named_def)
  have up: "toUpperCase sampleEnv [70] = ascii ''F''" "toUpperCase sampleEnv [102] = ascii ''F''"
    "\<And>z. toUpperCase (locating z) [70] = ascii ''F''"
    by (simp_all add: toUpperCase_def ascii_def)
  have rest:
    "\<And>z. findPlacesInZone (api (locating z)) sampleStores (LetterZonesQuery 2 (ascii ''F''))
       = Inr \<lparr>elements = [], remark = None\<rparr>"
    "\<And>z. osmtogeojson (js (locating z)) \<lparr>elements = [], remark = None\<rparr>
       = Inr (FeatureCollection [])"
    "\<And>z. simplify (turf (locating z)) (FeatureCollection (filter isPolygonal [])) (1 / 1000) True
       = Inr (FeatureCollection [])"
    "\<And>z. safeUnion (utils (locating z)) (FeatureCollection []) = Inr (FeatureCollection [])"
    by (simp_all add: locating_def sample_defs)
  have i: "trace initialState = []" by (simp add: initialState_def)
  note T = letter_zone_grouping_letter [where s = initialState and ctx = sampleStores and q = ?q
             and k = "\<lparr>adminLevel = 2\<rparr>"]
  have g1: "zoneLetter sampleEnv ?france initialState = (Inr (ascii ''F''), initialState)"
    using T [where env = sampleEnv and zone = ?france and c = 70 and cs = "ascii ''rance''"]
      names up by simp
  have g2: "determineMatchingBoundaryBody (locating ?france) sampleStores ?q initialState
     = (Inr (Boundary (FeatureCollection [])),
        initialState\<lparr>trace := [FindAdminBoundary 0 0 2,
                                FindPlacesInZone (LetterZonesQuery 2 (ascii ''F''))]\<rparr>)"
    using T [where env = "locating ?france" and zone = ?france and c = 70
               and cs = "ascii ''rance''" and data = "\<lparr>elements = [], remark = None\<rparr>"
               and fs = "[]" and simplified = "FeatureCollection []"
               and b = "FeatureCollection []"]
      names q l up rest by (simp add: i)
  have g3: "zoneLetter sampleEnv ?native initialState = (Inr (ascii ''F''), initialState)"
    using T [where env = sampleEnv and zone = ?native and c = 102 and cs = "ascii ''rance''"]
      names up by simp
  have g4: "fst (zoneLetter sampleEnv ?eire initialState) = Inl (Error ''No English name'')"
    using T [where env = sampleEnv and zone = ?eire] names by simp
  have g5: "determineMatchingBoundaryBody (locating ?eire) sampleStores ?q initialState
     = (Inl (Error ''No English name''),
        initialState\<lparr>trace := [FindAdminBoundary 0 0 2,
                                ToastError NoEnglishNameForZone]\<rparr>)"
    using T [where env = "locating ?eire" and zone = ?eire and n = "233 # ascii ''ire''"]
      names q l by (simp add: i)
  from g1 g2 g3 g4 g5 show ?thesis by blast
qed

subsection \<open>The length of station names\<close>

lemma compare_lengths:
  assumes "type q = SameLengthStation"
    and "propertiesOf hs = Inr hp" and "propertiesOf ss = Inr sp"
    and "orElse (name_en hp) (name hp) = Some h" and "h \<noteq> []"
    and "orElse (name_en sp) (name sp) = Some k" and "k \<noteq> []"
  shows "compareStationNames env hs ss q s
     = (Inr (q\<lparr>lengthComparison :=
               Some (if length h = length k then Same
                     else if length h < length k then Shorter else Longer)\<rparr>), s)"
  using assms by (simp add: compareStationNames_def io_defs)

text \<open>
  C8. In hider mode, for a same-length-station question whose two nearest stations
  have a usable name (the English name when it is non-empty, else the native name),
  \<open>lengthComparison\<close> becomes "same" when the names are equally long, "shorter" when the
  name of the hider's station is strictly shorter than that of the seeker's, and
  "longer" otherwise; nothing else of the question changes, and the stations are
  requested once.
\<close>

theorem station_name_length:
  "hiderMode ctx = Some hider \<longrightarrow> type q = SameLengthStation \<longrightarrow>
   findPlacesInZone (api env) ctx StationsQuery = Inr data \<longrightarrow>
   osmtogeojson (js env) data = Inr places \<longrightarrow>
   nearestPoint (turf env) (point (longitude hider) (latitude hider)) places = Inr hs \<longrightarrow>
   nearestPoint (turf env) (point (lng q) (lat q)) places = Inr ss \<longrightarrow>
   propertiesOf hs = Inr hp \<longrightarrow> propertiesOf ss = Inr sp \<longrightarrow>
   orElse (name_en hp) (name hp) = Some h \<longrightarrow> h \<noteq> [] \<longrightarrow>
   orElse (name_en sp) (name sp) = Some k \<longrightarrow> k \<noteq> [] \<longrightarrow>
     hiderifyMatching env ctx q s
       = (Inr (q\<lparr>lengthComparison :=
                 Some (if length h = length k then Same
                       else if length h < length k then Shorter else Longer)\<rparr>),
          s\<lparr>trace := trace s @ [FindPlacesInZone StationsQuery]\<rparr>)
     \<and> (\<not> falsy (name_en hp) \<longrightarrow> Some h = name_en hp)
     \<and> (falsy (name_en hp) \<longrightarrow> Some h = name hp)
     \<and> (\<not> falsy (name_en sp) \<longrightarrow> Some k = name_en sp)
     \<and> (falsy (name_en sp) \<longrightarrow> Some k = name sp)"
proof (intro impI)
  assume a: "hiderMode ctx = Some hider" "type q = SameLengthStation"
    "findPlacesInZone (api env) ctx StationsQuery = Inr data"
    "osmtogeojson (js env) data = Inr places"
    "nearestPoint (turf env) (point (longitude hider) (latitude hider)) places = Inr hs"
    "nearestPoint (turf env) (point (lng q) (lat q)) places = Inr ss"
    and b: "propertiesOf hs = Inr hp" "propertiesOf ss = Inr sp"
    "orElse (name_en hp) (name hp) = Some h" "h \<noteq> []"
    "orElse (name_en sp) (name sp) = Some k" "k \<noteq> []"
  have "hiderifyMatching env ctx q s
       = compareStationNames env hs ss q (s\<lparr>trace := trace s @ [FindPlacesInZone StationsQuery]\<rparr>)"
    using a
    by (simp add: hiderifyMatching_def isPlain_def hiderifyMatchingStations_def Let_def
          io_defs)
  then have "hiderifyMatching env ctx q s
       = (Inr (q\<lparr>lengthComparison :=
                 Some (if length h = length k then Same
                       else if length h < length k then Shorter else Longer)\<rparr>),
          s\<lparr>trace := trace s @ [FindPlacesInZone StationsQuery]\<rparr>)"
    by (simp only: compare_lengths [OF a(2) b])
  moreover from b(3,5) have "(\<not> falsy (name_en hp) \<longrightarrow> Some h = name_en hp)
     \<and> (falsy (name_en hp) \<longrightarrow> Some h = name hp)
     \<and> (\<not> falsy (name_en sp) \<longrightarrow> Some k = name_en sp)
     \<and> (falsy (name_en sp) \<longrightarrow> Some k = name sp)"
    by (auto simp: orElse_def)
  ultimately show "hiderifyMatching env ctx q s
       = (Inr (q\<lparr>lengthComparison :=
                 Some (if length h = length k then Same
                       else if length h < length k then Shorter else Longer)\<rparr>),
          s\<lparr>trace := trace s @ [FindPlacesInZone StationsQuery]\<rparr>)
     \<and> (\<not> falsy (name_en hp) \<longrightarrow> Some h = name_en hp)
     \<and> (falsy (name_en hp) \<longrightarrow> Some h = name hp)
     \<and> (\<not> falsy (name_en sp) \<longrightarrow> Some k = name_en sp)
     \<and> (falsy (name_en sp) \<longrightarrow> Some k = name sp)"
    by blast
qed

text \<open>The hider at (0, 0) next to "Springfield", known by its native name only, and the
  seeker at (5, 5) next to "Shelbyville", known by its English name: both names have
  11 code units.\<close>

theorem station_name_length_witness:
  "hiderifyMatching
     (converting [stationAt 0 0 None (Some (ascii ''Springfield'')),
                  stationAt 5 5 (Some (ascii ''Shelbyville'')) (Some (ascii ''Shelby''))])
     sampleStores ((sampleMatching SameLengthStation)\<lparr>lat := 5, lng := 5\<rparr>) initialState
   = (Inr ((sampleMatching SameLengthStation)
             \<lparr>lat := 5, lng := 5, lengthComparison := Some Same\<rparr>),
      initialState\<lparr>trace := [FindPlacesInZone StationsQuery]\<rparr>)"
proof -
  let ?a = "stationAt 0 0 None (Some (ascii ''Springfield''))"
  let ?b = "stationAt 5 5 (Some (ascii ''Shelbyville'')) (Some (ascii ''Shelby''))"
  let ?env = "converting [?a, ?b]"
  let ?q = "(sampleMatching SameLengthStation)\<lparr>lat := 5, lng := 5\<rparr>"
  let ?hp = "\<lparr>name = Some (ascii ''Springfield''), name_en = None, id_prop = None,
              distanceToPoint = None\<rparr>"
  let ?sp = "\<lparr>name = Some (ascii ''Shelby''), name_en = Some (ascii ''Shelbyville''),
              id_prop = None, distanceToPoint = None\<rparr>"
  have h: "hiderMode sampleStores = Some \<lparr>latitude = 0, longitude = 0\<rparr>"
    "type ?q = SameLengthStation" "lat ?q = 5" "lng ?q = 5"
    by (simp_all add: sampleStores_def sampleMatching_def)
  have f: "findPlacesInZone (api ?env) sampleStores StationsQuery
             = Inr \<lparr>elements = [], remark = None\<rparr>"
    "osmtogeojson (js ?env) \<lparr>elements = [], remark = None\<rparr> = Inr (FeatureCollection [?a, ?b])"
    by (simp_all add: converting_def sample_defs)
  have n: "nearestPoint (turf ?env) (point 0 0) (FeatureCollection [?a, ?b]) = Inr ?a"
    "nearestPoint (turf ?env) (point 5 5) (FeatureCollection [?a, ?b]) = Inr ?b"
    by (simp_all add: converting_def sample_defs sampleNearestPoint_def sampleDistance_def
          stationAt_def point_def)
  have p: "propertiesOf ?a = Inr ?hp" "propertiesOf ?b = Inr ?sp"
    by (simp_all add: propertiesOf_def stationAt_def)
  have o: "orElse (name_en ?hp) (name ?hp) = Some (ascii ''Springfield'')"
    "ascii ''Springfield'' \<noteq> []"
    "orElse (name_en ?sp) (name ?sp) = Some (ascii ''Shelbyville'')"
    "ascii ''Shelbyville'' \<noteq> []"
    "length (ascii ''Springfield'') = 11" "length (ascii ''Shelbyville'') = 11"
    by (simp_all add: orElse_def falsy_def ascii_def)
  have i: "trace initialState = []" by (simp add: initialState_def)
  from station_name_length
         [where env = ?env and ctx = sampleStores and q = ?q and s = initialState
            and hider = "\<lparr>latitude = 0, longitude = 0\<rparr>"
            and data = "\<lparr>elements = [], remark = None\<rparr>"
            and places = "FeatureCollection [?a, ?b]" and hs = ?a and ss = ?b
            and hp = ?hp and sp = ?sp and h = "ascii ''Springfield''"
            and k = "ascii ''Shelbyville''"]
       h f n p o
  show ?thesis by (simp add: i)
qed

subsection \<open>The boundary-containment path\<close>

text \<open>Which questions the two \<open>hiderify\<close> functions hand to the containment path.\<close>

lemma containment_path_matching:
  "hiderMode ctx = Some hider \<Longrightarrow> \<not> noBoundaryMatching (type q) \<Longrightarrow>
   hiderifyMatching env ctx q = hiderifyMatchingContainment env ctx hider q"
  by (simp add: hiderifyMatching_def noBoundaryMatching_def)

lemma containment_path_measuring:
  "hiderMode ctx = Some hider \<Longrightarrow> \<not> noBoundaryMeasuring (type q) \<Longrightarrow>
   hiderifyMeasuring env ctx q s = hiderifyMeasuringContainment env ctx hider q s"
  by (simp add: hiderifyMeasuring_def noBoundaryMeasuring_def andThen_def succeed_def)

lemma rail_measure_continues:
  "hiderMode ctx = Some hider \<Longrightarrow> type q = RailMeasure \<Longrightarrow> trainStations ctx \<noteq> [] \<Longrightarrow>
   hiderifyMeasuring env ctx q
     = andThen (railMeasure env ctx hider q) (hiderifyMeasuringContainment env ctx hider)"
proof -
  assume a: "hiderMode ctx = Some hider" "type q = RailMeasure" "trainStations ctx \<noteq> []"
  have t: "\<And>q' s s'. railMeasure env ctx hider q s = (Inr q', s') \<Longrightarrow> type q' = RailMeasure"
    using a(2)
    by (auto simp: railMeasure_def Let_def io_defs split: sum.splits)
  show ?thesis
  proof
    fix s
    show "hiderifyMeasuring env ctx q s
       = andThen (railMeasure env ctx hider q) (hiderifyMeasuringContainment env ctx hider) s"
    proof (cases "railMeasure env ctx hider q s")
      case (Pair r s')
      then show ?thesis
        using a t [of s _ s']
        by (cases r) (simp_all add: hiderifyMeasuring_def isPlainM_def andThen_def)
    qed
  qed
qed

lemma tested_feature_matching:
  assumes "mapGeoJSON ctx \<noteq> Null"
    and "maskFeatureMatching env ctx q s = (Inr (Some feature), s')"
    and "feature \<noteq> Null" and "feature \<noteq> Undefined"
    and "booleanPointInPolygon (turf env) (point (longitude h) (latitude h)) feature = Inr inside"
  shows "hiderifyMatchingContainment env ctx h q s
     = (Inr (q\<lparr>same := (if inside then \<not> same q else same q)\<rparr>), s')"
  using assms by (simp add: hiderifyMatchingContainment_def io_defs)

lemma tested_feature_measuring:
  assumes "mapGeoJSON ctx \<noteq> Null"
    and "maskFeatureMeasuring env ctx q s = (Inr (Some feature), s')"
    and "feature \<noteq> Null" and "feature \<noteq> Undefined"
    and "booleanPointInPolygon (turf env) (point (longitude h) (latitude h)) feature = Inr inside"
  shows "hiderifyMeasuringContainment env ctx h q s
     = (Inr (q\<lparr>hiderCloser := (if inside then \<not> hiderCloser q else hiderCloser q)\<rparr>), s')"
  using assms by (simp add: hiderifyMeasuringContainment_def io_defs)

lemma first_attempt_matching:
  assumes "adjustPerMatching env ctx q (mapGeoJSON ctx) s = (Inr adjusted, s')"
    and "holedMask (utils env) adjusted = Inr feature"
  shows "maskFeatureMatching env ctx q s = (Inr (Some feature), s')"
  using assms by (simp add: maskFeatureMatching_def firstAttemptMatching_def io_defs)

lemma first_attempt_measuring:
  assumes "adjustPerMeasuring env ctx q (mapGeoJSON ctx) s = (Inr adjusted, s')"
    and "holedMask (utils env) adjusted = Inr feature"
  shows "maskFeatureMeasuring env ctx q s = (Inr (Some feature), s')"
  using assms by (simp add: maskFeatureMeasuring_def firstAttemptMeasuring_def io_defs)

text \<open>
  C1. In the boundary-containment path (lines 385 to 411 of both files), with a map
  set and a hider position given: when the mask adjustment of the question yields
  \<open>adjusted\<close> and its holed mask is the feature \<open>feature\<close>, the question comes back with
  its polarity (\<open>same\<close>, \<open>hiderCloser\<close>) negated if the hider's point lies inside
  \<open>feature\<close>, and as it was if not. So, from one question in one state, two hider
  positions give opposite polarities exactly when one lies inside the holed mask and
  the other does not. The exported function does the same for every question type
  that has a boundary. When the holed mask is the complement of the adjusted mask at
  the two points, a hider inside the adjusted mask leaves the polarity as it was and
  a hider outside it has the polarity negated.
\<close>

theorem self_correction_flips_inside:
  "(mapGeoJSON ctx \<noteq> Null \<longrightarrow>
    adjustPerMatching env ctx q (mapGeoJSON ctx) s = (Inr adjusted, s') \<longrightarrow>
    holedMask (utils env) adjusted = Inr feature \<longrightarrow>
    feature \<noteq> Null \<longrightarrow> feature \<noteq> Undefined \<longrightarrow>
      (booleanPointInPolygon (turf env) (point (longitude h1) (latitude h1)) feature
         = Inr in1 \<longrightarrow>
       booleanPointInPolygon (turf env) (point (longitude h2) (latitude h2)) feature
         = Inr in2 \<longrightarrow>
         hiderifyMatchingContainment env ctx h1 q s
           = (Inr (q\<lparr>same := (if in1 then \<not> same q else same q)\<rparr>), s')
         \<and> hiderifyMatchingContainment env ctx h2 q s
           = (Inr (q\<lparr>same := (if in2 then \<not> same q else same q)\<rparr>), s')
         \<and> (\<exists>r1 r2. fst (hiderifyMatchingContainment env ctx h1 q s) = Inr r1
               \<and> fst (hiderifyMatchingContainment env ctx h2 q s) = Inr r2
               \<and> (same r1 \<noteq> same r2 \<longleftrightarrow> in1 \<noteq> in2))
         \<and> (hiderMode ctx = Some h1 \<longrightarrow> \<not> noBoundaryMatching (type q) \<longrightarrow>
              hiderifyMatching env ctx q s
                = (Inr (q\<lparr>same := (if in1 then \<not> same q else same q)\<rparr>),
                   s')))
      \<and> (complementAt env adjusted feature h1 \<longrightarrow> complementAt env adjusted feature h2 \<longrightarrow>
         booleanPointInPolygon (turf env) (point (longitude h1) (latitude h1)) adjusted
           = Inr True \<longrightarrow>
         booleanPointInPolygon (turf env) (point (longitude h2) (latitude h2)) adjusted
           = Inr False \<longrightarrow>
           hiderifyMatchingContainment env ctx h1 q s = (Inr q, s')
           \<and> hiderifyMatchingContainment env ctx h2 q s
             = (Inr (q\<lparr>same := \<not> same q\<rparr>), s')))
   \<and> (mapGeoJSON ctx \<noteq> Null \<longrightarrow>
    adjustPerMeasuring env ctx m (mapGeoJSON ctx) s = (Inr adjusted', s'') \<longrightarrow>
    holedMask (utils env) adjusted' = Inr feature' \<longrightarrow>
    feature' \<noteq> Null \<longrightarrow> feature' \<noteq> Undefined \<longrightarrow>
      (booleanPointInPolygon (turf env) (point (longitude h1) (latitude h1)) feature'
         = Inr in1' \<longrightarrow>
       booleanPointInPolygon (turf env) (point (longitude h2) (latitude h2)) feature'
         = Inr in2' \<longrightarrow>
         hiderifyMeasuringContainment env ctx h1 m s
           = (Inr (m\<lparr>hiderCloser := (if in1' then \<not> hiderCloser m else hiderCloser m)\<rparr>), s'')
         \<and> hiderifyMeasuringContainment env ctx h2 m s
           = (Inr (m\<lparr>hiderCloser := (if in2' then \<not> hiderCloser m else hiderCloser m)\<rparr>), s'')
         \<and> (\<exists>r1 r2. fst (hiderifyMeasuringContainment env ctx h1 m s) = Inr r1
               \<and> fst (hiderifyMeasuringContainment env ctx h2 m s) = Inr r2
               \<and> (hiderCloser r1 \<noteq> hiderCloser r2 \<longleftrightarrow> in1' \<noteq> in2'))
         \<and> (hiderMode ctx = Some h1 \<longrightarrow> \<not> noBoundaryMeasuring (type m) \<longrightarrow>
              hiderifyMeasuring env ctx m s
                = (Inr (m\<lparr>hiderCloser := (if in1' then \<not> hiderCloser m else hiderCloser m)\<rparr>),
                   s'')))
      \<and> (complementAt env adjusted' feature' h1 \<longrightarrow> complementAt env adjusted' feature' h2 \<longrightarrow>
         booleanPointInPolygon (turf env) (point (longitude h1) (latitude h1)) adjusted'
           = Inr True \<longrightarrow>
         booleanPointInPolygon (turf env) (point (longitude h2) (latitude h2)) adjusted'
           = Inr False \<longrightarrow>
           hiderifyMeasuringContainment env ctx h1 m s = (Inr m, s'')
           \<and> hiderifyMeasuringContainment env ctx h2 m s
             = (Inr (m\<lparr>hiderCloser := \<not> hiderCloser m\<rparr>), s'')))"
proof (rule conjI; intro impI)
  assume a: "mapGeoJSON ctx \<noteq> Null"
    and b: "adjustPerMatching env ctx q (mapGeoJSON ctx) s = (Inr adjusted, s')"
      "holedMask (utils env) adjusted = Inr feature"
    and c: "feature \<noteq> Null" "feature \<noteq> Undefined"
  note f = first_attempt_matching [OF b]
  note t = tested_feature_matching [OF a f c]
  show "(booleanPointInPolygon (turf env) (point (longitude h1) (latitude h1)) feature
         = Inr in1 \<longrightarrow>
       booleanPointInPolygon (turf env) (point (longitude h2) (latitude h2)) feature
         = Inr in2 \<longrightarrow>
         hiderifyMatchingContainment env ctx h1 q s
           = (Inr (q\<lparr>same := (if in1 then \<not> same q else same q)\<rparr>), s')
         \<and> hiderifyMatchingContainment env ctx h2 q s
           = (Inr (q\<lparr>same := (if in2 then \<not> same q else same q)\<rparr>), s')
         \<and> (\<exists>r1 r2. fst (hiderifyMatchingContainment env ctx h1 q s) = Inr r1
               \<and> fst (hiderifyMatchingContainment env ctx h2 q s) = Inr r2
               \<and> (same r1 \<noteq> same r2 \<longleftrightarrow> in1 \<noteq> in2))
         \<and> (hiderMode ctx = Some h1 \<longrightarrow> \<not> noBoundaryMatching (type q) \<longrightarrow>
              hiderifyMatching env ctx q s
                = (Inr (q\<lparr>same := (if in1 then \<not> same q else same q)\<rparr>),
                   s')))
      \<and> (complementAt env adjusted feature h1 \<longrightarrow> complementAt env adjusted feature h2 \<longrightarrow>
         booleanPointInPolygon (turf env) (point (longitude h1) (latitude h1)) adjusted
           = Inr True \<longrightarrow>
         booleanPointInPolygon (turf env) (point (longitude h2) (latitude h2)) adjusted
           = Inr False \<longrightarrow>
           hiderifyMatchingContainment env ctx h1 q s = (Inr q, s')
           \<and> hiderifyMatchingContainment env ctx h2 q s
             = (Inr (q\<lparr>same := \<not> same q\<rparr>), s'))"
  proof (intro conjI impI)
    assume p1: "booleanPointInPolygon (turf env) (point (longitude h1) (latitude h1)) feature
                  = Inr in1"
      and p2: "booleanPointInPolygon (turf env) (point (longitude h2) (latitude h2)) feature
                  = Inr in2"
    show r1: "hiderifyMatchingContainment env ctx h1 q s
           = (Inr (q\<lparr>same := (if in1 then \<not> same q else same q)\<rparr>), s')"
      by (rule t [OF p1])
    show r2: "hiderifyMatchingContainment env ctx h2 q s
           = (Inr (q\<lparr>same := (if in2 then \<not> same q else same q)\<rparr>), s')"
      by (rule t [OF p2])
    show "\<exists>r1 r2. fst (hiderifyMatchingContainment env ctx h1 q s) = Inr r1
               \<and> fst (hiderifyMatchingContainment env ctx h2 q s) = Inr r2
               \<and> (same r1 \<noteq> same r2 \<longleftrightarrow> in1 \<noteq> in2)"
      by (simp add: r1 r2)
    show "hiderifyMatching env ctx q s
                = (Inr (q\<lparr>same := (if in1 then \<not> same q else same q)\<rparr>),
                   s')"
      if "hiderMode ctx = Some h1" "\<not> noBoundaryMatching (type q)"
      using that r1 by (simp add: containment_path_matching)
  next
    assume k1: "complementAt env adjusted feature h1" and k2: "complementAt env adjusted feature h2"
      and i1: "booleanPointInPolygon (turf env) (point (longitude h1) (latitude h1)) adjusted
                 = Inr True"
      and i2: "booleanPointInPolygon (turf env) (point (longitude h2) (latitude h2)) adjusted
                 = Inr False"
    from k1 i1 have p1: "booleanPointInPolygon (turf env) (point (longitude h1) (latitude h1))
                           feature = Inr False"
      by (auto simp: complementAt_def split: sum.splits)
    from k2 i2 have p2: "booleanPointInPolygon (turf env) (point (longitude h2) (latitude h2))
                           feature = Inr True"
      by (auto simp: complementAt_def split: sum.splits)
    show "hiderifyMatchingContainment env ctx h1 q s = (Inr q, s')"
      using t [OF p1] by simp
    show "hiderifyMatchingContainment env ctx h2 q s
             = (Inr (q\<lparr>same := \<not> same q\<rparr>), s')"
      using t [OF p2] by simp
  qed
next
  assume a: "mapGeoJSON ctx \<noteq> Null"
    and b: "adjustPerMeasuring env ctx m (mapGeoJSON ctx) s = (Inr adjusted', s'')"
      "holedMask (utils env) adjusted' = Inr feature'"
    and c: "feature' \<noteq> Null" "feature' \<noteq> Undefined"
  note f = first_attempt_measuring [OF b]
  note t = tested_feature_measuring [OF a f c]
  show "(booleanPointInPolygon (turf env) (point (longitude h1) (latitude h1)) feature'
         = Inr in1' \<longrightarrow>
       booleanPointInPolygon (turf env) (point (longitude h2) (latitude h2)) feature'
         = Inr in2' \<longrightarrow>
         hiderifyMeasuringContainment env ctx h1 m s
           = (Inr (m\<lparr>hiderCloser := (if in1' then \<not> hiderCloser m else hiderCloser m)\<rparr>), s'')
         \<and> hiderifyMeasuringContainment env ctx h2 m s
           = (Inr (m\<lparr>hiderCloser := (if in2' then \<not> hiderCloser m else hiderCloser m)\<rparr>), s'')
         \<and> (\<exists>r1 r2. fst (hiderifyMeasuringContainment env ctx h1 m s) = Inr r1
               \<and> fst (hiderifyMeasuringContainment env ctx h2 m s) = Inr r2
               \<and> (hiderCloser r1 \<noteq> hiderCloser r2 \<longleftrightarrow> in1' \<noteq> in2'))
         \<and> (hiderMode ctx = Some h1 \<longrightarrow> \<not> noBoundaryMeasuring (type m) \<longrightarrow>
              hiderifyMeasuring env ctx m s
                = (Inr (m\<lparr>hiderCloser := (if in1' then \<not> hiderCloser m else hiderCloser m)\<rparr>),
                   s'')))
      \<and> (complementAt env adjusted' feature' h1 \<longrightarrow> complementAt env adjusted' feature' h2 \<longrightarrow>
         booleanPointInPolygon (turf env) (point (longitude h1) (latitude h1)) adjusted'
           = Inr True \<longrightarrow>
         booleanPointInPolygon (turf env) (point (longitude h2) (latitude h2)) adjusted'
           = Inr False \<longrightarrow>
           hiderifyMeasuringContainment env ctx h1 m s = (Inr m, s'')
           \<and> hiderifyMeasuringContainment env ctx h2 m s
             = (Inr (m\<lparr>hiderCloser := \<not> hiderCloser m\<rparr>), s''))"
  proof (intro conjI impI)
    assume p1: "booleanPointInPolygon (turf env) (point (longitude h1) (latitude h1)) feature'
                  = Inr in1'"
      and p2: "booleanPointInPolygon (turf env) (point (longitude h2) (latitude h2)) feature'
                  = Inr in2'"
    show r1: "hiderifyMeasuringContainment env ctx h1 m s
           = (Inr (m\<lparr>hiderCloser := (if in1' then \<not> hiderCloser m else hiderCloser m)\<rparr>), s'')"
      by (rule t [OF p1])
    show r2: "hiderifyMeasuringContainment env ctx h2 m s
           = (Inr (m\<lparr>hiderCloser := (if in2' then \<not> hiderCloser m else hiderCloser m)\<rparr>), s'')"
      by (rule t [OF p2])
    show "\<exists>r1 r2. fst (hiderifyMeasuringContainment env ctx h1 m s) = Inr r1
               \<and> fst (hiderifyMeasuringContainment env ctx h2 m s) = Inr r2
               \<and> (hiderCloser r1 \<noteq> hiderCloser r2 \<longleftrightarrow> in1' \<noteq> in2')"
      by (simp add: r1 r2)
    show "hiderifyMeasuring env ctx m s
                = (Inr (m\<lparr>hiderCloser := (if in1' then \<not> hiderCloser m else hiderCloser m)\<rparr>),
                   s'')"
      if "hiderMode ctx = Some h1" "\<not> noBoundaryMeasuring (type m)"
      using that r1 by (simp add: containment_path_measuring)
  next
    assume k1: "complementAt env adjusted' feature' h1" and k2: "complementAt env adjusted' feature' h2"
      and i1: "booleanPointInPolygon (turf env) (point (longitude h1) (latitude h1)) adjusted'
                 = Inr True"
      and i2: "booleanPointInPolygon (turf env) (point (longitude h2) (latitude h2)) adjusted'
                 = Inr False"
    from k1 i1 have p1: "booleanPointInPolygon (turf env) (point (longitude h1) (latitude h1))
                           feature' = Inr False"
      by (auto simp: complementAt_def split: sum.splits)
    from k2 i2 have p2: "booleanPointInPolygon (turf env) (point (longitude h2) (latitude h2))
                           feature' = Inr True"
      by (auto simp: complementAt_def split: sum.splits)
    show "hiderifyMeasuringContainment env ctx h1 m s = (Inr m, s'')"
      using t [OF p1] by simp
    show "hiderifyMeasuringContainment env ctx h2 m s
             = (Inr (m\<lparr>hiderCloser := \<not> hiderCloser m\<rparr>), s'')"
      using t [OF p2] by simp
  qed
qed


text \<open>The custom zone from (0, 0) to (1, 1), and the city question at (0, 0) whose buffer
  is the box from (-1, -1) to (1, 1): the hider at (1/2, 1/2) is inside the applied
  mask, hence outside its holed mask, and the polarity stays; the hider at (5, 5) is
  outside the applied mask, and the polarity is negated.\<close>

theorem self_correction_flips_inside_witness:
  "booleanPointInPolygon (turf sampleEnv) (point (1 / 2) (1 / 2)) (box 0 0 1 1) = Inr True
   \<and> complementAt sampleEnv (box 0 0 1 1)
         (Feature (Polygon [worldRing, [(0, 0), (1, 1)]]) None) hiderInside
   \<and> complementAt sampleEnv (box 0 0 1 1)
         (Feature (Polygon [worldRing, [(0, 0), (1, 1)]]) None) hiderOutside
   \<and> complementAt (answering twoPlaces) (box (-1) (-1) 1 1)
         (Feature (Polygon [worldRing, [(-1, -1), (1, 1)]]) None) hiderInside
   \<and> complementAt (answering twoPlaces) (box (-1) (-1) 1 1)
         (Feature (Polygon [worldRing, [(-1, -1), (1, 1)]]) None) hiderOutside
   \<and> booleanPointInPolygon (turf sampleEnv) (point 5 5) (box 0 0 1 1) = Inr False
   \<and> fst (adjustPerMatching sampleEnv (hiding hiderInside) zoneQuestion
             (mapGeoJSON (hiding hiderInside)) initialState) = Inr (box 0 0 1 1)
   \<and> fst (hiderifyMatching sampleEnv (hiding hiderInside) zoneQuestion initialState)
       = Inr (zoneQuestion\<lparr>same := True\<rparr>)
   \<and> fst (hiderifyMatchingContainment sampleEnv (hiding hiderInside) hiderOutside
             zoneQuestion initialState)
       = Inr (zoneQuestion\<lparr>same := False\<rparr>)
   \<and> fst (adjustPerMeasuring (answering twoPlaces) (hiding hiderInside) (sampleMeasuring City)
             (mapGeoJSON (hiding hiderInside)) initialState) = Inr (box (-1) (-1) 1 1)
   \<and> fst (hiderifyMeasuring (answering twoPlaces) (hiding hiderInside) (sampleMeasuring City)
             initialState)
       = Inr ((sampleMeasuring City)\<lparr>hiderCloser := True\<rparr>)
   \<and> fst (hiderifyMeasuringContainment (answering twoPlaces) (hiding hiderInside)
             hiderOutside (sampleMeasuring City) initialState)
       = Inr ((sampleMeasuring City)\<lparr>hiderCloser := False\<rparr>)"
proof -
  let ?ctx = "hiding hiderInside"
  let ?env = "answering twoPlaces"
  let ?m = "sampleMeasuring City"
  let ?f = "Feature (Polygon [worldRing, [(0, 0), (1, 1)]]) None"
  let ?g = "Feature (Polygon [worldRing, [(-1, -1), (1, 1)]]) None"
  have map: "mapGeoJSON ?ctx \<noteq> Null" "mapGeoJSON ?ctx = box (-10) (-10) 10 10"
    "hiderMode ?ctx = Some hiderInside"
    by (simp_all add: hiding_def sampleStores_def box_def)
  have a1: "fst (adjustPerMatching sampleEnv ?ctx zoneQuestion (mapGeoJSON ?ctx) initialState)
              = Inr (box 0 0 1 1)"
    by (simp add: adjustPerMatching_def determineMatchingBoundary_def
          determineMatchingBoundaryBody_def zoneQuestion_def hiding_def sample_defs
          sampleModifyMapData_def io_defs)
  then have a1': "adjustPerMatching sampleEnv ?ctx zoneQuestion (mapGeoJSON ?ctx) initialState
      = (Inr (box 0 0 1 1),
         snd (adjustPerMatching sampleEnv ?ctx zoneQuestion (mapGeoJSON ?ctx) initialState))"
    by (simp add: prod_eq_iff)
  have a2: "fst (adjustPerMeasuring ?env ?ctx ?m (mapGeoJSON ?ctx) initialState)
              = Inr (box (-1) (-1) 1 1)"
    by (simp add: adjustPerMeasuring_def bufferedDeterminer_def bufferedDeterminerBody_def
          determineMeasuringBoundary_def combined_def answering_def twoPlaces_def way_def
          node_def elementPoint_def turfPoint_def sampleCombine_def pointsOf_def point_def
          firstFeature_def featureCollection_def sampleBbox_def hiding_def sample_defs
          sampleModifyMapData_def io_defs)
  then have a2': "adjustPerMeasuring ?env ?ctx ?m (mapGeoJSON ?ctx) initialState
      = (Inr (box (-1) (-1) 1 1),
         snd (adjustPerMeasuring ?env ?ctx ?m (mapGeoJSON ?ctx) initialState))"
    by (simp add: prod_eq_iff)
  have h: "holedMask (utils sampleEnv) (box 0 0 1 1) = Inr ?f"
    "holedMask (utils ?env) (box (-1) (-1) 1 1) = Inr ?g"
    "?f \<noteq> Null" "?f \<noteq> Undefined" "?g \<noteq> Null" "?g \<noteq> Undefined"
    by (simp_all add: answering_def sample_defs)
  have p: "booleanPointInPolygon (turf sampleEnv) (point (1 / 2) (1 / 2)) (box 0 0 1 1) = Inr True"
    "booleanPointInPolygon (turf sampleEnv) (point 5 5) (box 0 0 1 1) = Inr False"
    "booleanPointInPolygon (turf sampleEnv)
       (point (longitude hiderInside) (latitude hiderInside)) ?f = Inr False"
    "booleanPointInPolygon (turf sampleEnv)
       (point (longitude hiderOutside) (latitude hiderOutside)) ?f = Inr True"
    "booleanPointInPolygon (turf ?env)
       (point (longitude hiderInside) (latitude hiderInside)) ?g = Inr False"
    "booleanPointInPolygon (turf ?env)
       (point (longitude hiderOutside) (latitude hiderOutside)) ?g = Inr True"
    by (simp_all add: answering_def sample_defs samplePointInPolygon_def inRing_def point_def
          worldRing_def hiderInside_def hiderOutside_def)
  have k: "complementAt sampleEnv (box 0 0 1 1) ?f hiderInside"
    "complementAt sampleEnv (box 0 0 1 1) ?f hiderOutside"
    "complementAt ?env (box (-1) (-1) 1 1) ?g hiderInside"
    "complementAt ?env (box (-1) (-1) 1 1) ?g hiderOutside"
    by (simp_all add: complementAt_def answering_def sample_defs samplePointInPolygon_def
          inRing_def point_def worldRing_def hiderInside_def hiderOutside_def box_def)
  have i: "booleanPointInPolygon (turf sampleEnv)
       (point (longitude hiderInside) (latitude hiderInside)) (box 0 0 1 1) = Inr True"
    "booleanPointInPolygon (turf sampleEnv)
       (point (longitude hiderOutside) (latitude hiderOutside)) (box 0 0 1 1) = Inr False"
    "booleanPointInPolygon (turf ?env)
       (point (longitude hiderInside) (latitude hiderInside)) (box (-1) (-1) 1 1) = Inr True"
    "booleanPointInPolygon (turf ?env)
       (point (longitude hiderOutside) (latitude hiderOutside)) (box (-1) (-1) 1 1) = Inr False"
    by (simp_all add: answering_def sample_defs samplePointInPolygon_def inRing_def point_def
          worldRing_def hiderInside_def hiderOutside_def box_def)
  have t: "\<not> noBoundaryMatching (type zoneQuestion)" "\<not> noBoundaryMeasuring (type ?m)"
    "same zoneQuestion" "hiderCloser ?m"
    by (simp_all add: noBoundaryMatching_def noBoundaryMeasuring_def isPlain_def isPlainM_def
          zoneQuestion_def sampleMatching_def sampleMeasuring_def)
  note T = self_correction_flips_inside
    [where ?h1.0 = hiderInside and ?h2.0 = hiderOutside and ctx = ?ctx and s = initialState]
  have g1: "fst (hiderifyMatching sampleEnv ?ctx zoneQuestion initialState)
       = Inr (zoneQuestion\<lparr>same := True\<rparr>)"
    "fst (hiderifyMatchingContainment sampleEnv ?ctx hiderOutside zoneQuestion initialState)
       = Inr (zoneQuestion\<lparr>same := False\<rparr>)"
    using T [where env = sampleEnv and q = zoneQuestion and adjusted = "box 0 0 1 1"
               and feature = ?f and ?in1.0 = False and ?in2.0 = True
               and s' = "snd (adjustPerMatching sampleEnv ?ctx zoneQuestion (mapGeoJSON ?ctx)
                                initialState)"]
      map(1,3) a1' h(1,3,4) p(3,4) t(1,3) k(1,2) i(1,2)
    by simp_all
  have g2: "fst (hiderifyMeasuring ?env ?ctx ?m initialState) = Inr (?m\<lparr>hiderCloser := True\<rparr>)"
    "fst (hiderifyMeasuringContainment ?env ?ctx hiderOutside ?m initialState)
       = Inr (?m\<lparr>hiderCloser := False\<rparr>)"
    using T [where env = ?env and m = ?m and adjusted' = "box (-1) (-1) 1 1"
               and feature' = ?g and ?in1'.0 = False and ?in2'.0 = True
               and s'' = "snd (adjustPerMeasuring ?env ?ctx ?m (mapGeoJSON ?ctx) initialState)"]
      map(1,3) a2' h(2,5,6) p(5,6) t(2,4) k(3,4) i(3,4)
    by simp_all
  from p(1,2) k a1 a2 g1 g2 show ?thesis by blast
qed

lemma retry_fails_matching:
  assumes "mapGeoJSON ctx \<noteq> Null"
    and "firstAttemptMatching env ctx q s = (Inl e, s1)"
    and "retryMatching env ctx q s1 = (Inl e', s2)"
  shows "hiderifyMatchingContainment env ctx hider q s = (Inr q, s2)"
  using assms
  by (simp add: hiderifyMatchingContainment_def maskFeatureMatching_def io_defs)

lemma retry_gives_matching:
  assumes "firstAttemptMatching env ctx q s = (Inl e, s1)"
    and "retryMatching env ctx q s1 = (Inr feature, s2)"
  shows "maskFeatureMatching env ctx q s = (Inr (Some feature), s2)"
  using assms by (simp add: maskFeatureMatching_def io_defs)

lemma retry_fails_measuring:
  assumes "mapGeoJSON ctx \<noteq> Null"
    and "firstAttemptMeasuring env ctx q s = (Inl e, s1)"
    and "retryMeasuring env ctx q s1 = (Inl e', s2)"
  shows "hiderifyMeasuringContainment env ctx hider q s = (Inr q, s2)"
  using assms
  by (simp add: hiderifyMeasuringContainment_def maskFeatureMeasuring_def io_defs)

lemma retry_gives_measuring:
  assumes "firstAttemptMeasuring env ctx q s = (Inl e, s1)"
    and "retryMeasuring env ctx q s1 = (Inr feature, s2)"
  shows "maskFeatureMeasuring env ctx q s = (Inr (Some feature), s2)"
  using assms by (simp add: maskFeatureMeasuring_def io_defs)

text \<open>
  C3. In the boundary-containment path, the first attempt is the mask adjustment of
  the map followed by the holed mask of its result. When it throws, leaving the state
  \<open>s1\<close>, one retry is made from \<open>s1\<close>: the holed mask of the map, wrapped as the only
  feature of a collection, is adjusted. When the retry throws too, the path returns
  the question as it received it, in the state the retry left, and no error reaches
  the caller; the exported function does so for every question type that has a
  boundary. When the retry yields a feature, that feature is the one tested.
\<close>

theorem mask_adjustment_retry:
  "(firstAttemptMatching env ctx q s
      = (case adjustPerMatching env ctx q (mapGeoJSON ctx) s of
           (Inl x, t) \<Rightarrow> (Inl x, t)
         | (Inr adjusted, t) \<Rightarrow> (holedMask (utils env) adjusted, t)))
   \<and> (retryMatching env ctx q s1
      = (case holedMask (utils env) (mapGeoJSON ctx) of
           Inl x \<Rightarrow> (Inl x, s1)
         | Inr holed \<Rightarrow> adjustPerMatching env ctx q (FeatureCollection [holed]) s1))
   \<and> (mapGeoJSON ctx \<noteq> Null \<longrightarrow> firstAttemptMatching env ctx q s = (Inl e, s1) \<longrightarrow>
        (retryMatching env ctx q s1 = (Inl e', s2) \<longrightarrow>
           hiderifyMatchingContainment env ctx hider q s = (Inr q, s2)
           \<and> (hiderMode ctx = Some hider \<longrightarrow> \<not> noBoundaryMatching (type q) \<longrightarrow>
                hiderifyMatching env ctx q s = (Inr q, s2)))
        \<and> (retryMatching env ctx q s1 = (Inr feature, s2) \<longrightarrow>
           feature \<noteq> Null \<longrightarrow> feature \<noteq> Undefined \<longrightarrow>
           booleanPointInPolygon (turf env) (point (longitude hider) (latitude hider)) feature
             = Inr inside \<longrightarrow>
           hiderifyMatchingContainment env ctx hider q s
             = (Inr (q\<lparr>same := (if inside then \<not> same q else same q)\<rparr>), s2)))
   \<and> (firstAttemptMeasuring env ctx m s
      = (case adjustPerMeasuring env ctx m (mapGeoJSON ctx) s of
           (Inl x, t) \<Rightarrow> (Inl x, t)
         | (Inr adjusted, t) \<Rightarrow> (holedMask (utils env) adjusted, t)))
   \<and> (retryMeasuring env ctx m s1
      = (case holedMask (utils env) (mapGeoJSON ctx) of
           Inl x \<Rightarrow> (Inl x, s1)
         | Inr holed \<Rightarrow> adjustPerMeasuring env ctx m (FeatureCollection [holed]) s1))
   \<and> (mapGeoJSON ctx \<noteq> Null \<longrightarrow> firstAttemptMeasuring env ctx m s = (Inl e, s1) \<longrightarrow>
        (retryMeasuring env ctx m s1 = (Inl e', s2) \<longrightarrow>
           hiderifyMeasuringContainment env ctx hider m s = (Inr m, s2)
           \<and> (hiderMode ctx = Some hider \<longrightarrow> \<not> noBoundaryMeasuring (type m) \<longrightarrow>
                hiderifyMeasuring env ctx m s = (Inr m, s2)))
        \<and> (retryMeasuring env ctx m s1 = (Inr feature, s2) \<longrightarrow>
           feature \<noteq> Null \<longrightarrow> feature \<noteq> Undefined \<longrightarrow>
           booleanPointInPolygon (turf env) (point (longitude hider) (latitude hider)) feature
             = Inr inside \<longrightarrow>
           hiderifyMeasuringContainment env ctx hider m s
             = (Inr (m\<lparr>hiderCloser := (if inside then \<not> hiderCloser m else hiderCloser m)\<rparr>),
                s2)))"
proof (intro conjI impI)
  show "firstAttemptMatching env ctx q s
      = (case adjustPerMatching env ctx q (mapGeoJSON ctx) s of
           (Inl x, t) \<Rightarrow> (Inl x, t)
         | (Inr adjusted, t) \<Rightarrow> (holedMask (utils env) adjusted, t))"
    by (simp add: firstAttemptMatching_def andThen_def pure_def split: prod.split sum.split)
  show "retryMatching env ctx q s1
      = (case holedMask (utils env) (mapGeoJSON ctx) of
           Inl x \<Rightarrow> (Inl x, s1)
         | Inr holed \<Rightarrow> adjustPerMatching env ctx q (FeatureCollection [holed]) s1)"
    by (simp add: retryMatching_def andThen_def pure_def split: sum.split)
  show "firstAttemptMeasuring env ctx m s
      = (case adjustPerMeasuring env ctx m (mapGeoJSON ctx) s of
           (Inl x, t) \<Rightarrow> (Inl x, t)
         | (Inr adjusted, t) \<Rightarrow> (holedMask (utils env) adjusted, t))"
    by (simp add: firstAttemptMeasuring_def andThen_def pure_def split: prod.split sum.split)
  show "retryMeasuring env ctx m s1
      = (case holedMask (utils env) (mapGeoJSON ctx) of
           Inl x \<Rightarrow> (Inl x, s1)
         | Inr holed \<Rightarrow> adjustPerMeasuring env ctx m (FeatureCollection [holed]) s1)"
    by (simp add: retryMeasuring_def andThen_def pure_def split: sum.split)
next
  assume a: "mapGeoJSON ctx \<noteq> Null" "firstAttemptMatching env ctx q s = (Inl e, s1)"
    "retryMatching env ctx q s1 = (Inl e', s2)"
  show r: "hiderifyMatchingContainment env ctx hider q s = (Inr q, s2)"
    by (rule retry_fails_matching [OF a])
  show "hiderifyMatching env ctx q s = (Inr q, s2)"
    if "hiderMode ctx = Some hider" "\<not> noBoundaryMatching (type q)"
    using that r by (simp add: containment_path_matching)
next
  assume a: "mapGeoJSON ctx \<noteq> Null" and b: "firstAttemptMatching env ctx q s = (Inl e, s1)"
    "retryMatching env ctx q s1 = (Inr feature, s2)"
    and c: "feature \<noteq> Null" "feature \<noteq> Undefined"
    "booleanPointInPolygon (turf env) (point (longitude hider) (latitude hider)) feature
       = Inr inside"
  show "hiderifyMatchingContainment env ctx hider q s
             = (Inr (q\<lparr>same := (if inside then \<not> same q else same q)\<rparr>), s2)"
    by (rule tested_feature_matching [OF a retry_gives_matching [OF b] c])
next
  assume a: "mapGeoJSON ctx \<noteq> Null" "firstAttemptMeasuring env ctx m s = (Inl e, s1)"
    "retryMeasuring env ctx m s1 = (Inl e', s2)"
  show r: "hiderifyMeasuringContainment env ctx hider m s = (Inr m, s2)"
    by (rule retry_fails_measuring [OF a])
  show "hiderifyMeasuring env ctx m s = (Inr m, s2)"
    if "hiderMode ctx = Some hider" "\<not> noBoundaryMeasuring (type m)"
    using that r by (simp add: containment_path_measuring)
next
  assume a: "mapGeoJSON ctx \<noteq> Null" and b: "firstAttemptMeasuring env ctx m s = (Inl e, s1)"
    "retryMeasuring env ctx m s1 = (Inr feature, s2)"
    and c: "feature \<noteq> Null" "feature \<noteq> Undefined"
    "booleanPointInPolygon (turf env) (point (longitude hider) (latitude hider)) feature
       = Inr inside"
  show "hiderifyMeasuringContainment env ctx hider m s
             = (Inr (m\<lparr>hiderCloser := (if inside then \<not> hiderCloser m else hiderCloser m)\<rparr>),
                s2)"
    by (rule tested_feature_measuring [OF a retry_gives_measuring [OF b] c])
qed


text \<open>The sample mask operator cannot take a difference: a custom zone and a city
  question answered "not the same" and "not closer" fail in both attempts and come
  back as they were, after two calls of the mask operator. The custom zone that has
  a hole fails in the first attempt only, at its holed mask; the retry yields the
  zone itself, which contains the hider at (5, 5) and not the one at (1/2, 1/2).\<close>

theorem mask_adjustment_retry_witness:
  "fst (firstAttemptMatching sampleEnv (hiding hiderInside) (zoneQuestion\<lparr>same := False\<rparr>)
          initialState) = Inl (Thrown 4)
   \<and> hiderifyMatching sampleEnv (hiding hiderInside) (zoneQuestion\<lparr>same := False\<rparr>)
        initialState
     = (Inr (zoneQuestion\<lparr>same := False\<rparr>),
        initialState\<lparr>matchingCache :=
            [matchingKey sampleEnv (hiding hiderInside) (zoneQuestion\<lparr>same := False\<rparr>)
               \<mapsto> Inr (Boundary (box 0 0 1 1))],
          trace := [ModifyMapData, ModifyMapData]\<rparr>)
   \<and> fst (firstAttemptMatching sampleEnv (hiding hiderInside) holedZoneQuestion initialState)
     = Inl (Thrown 3)
   \<and> fst (retryMatching sampleEnv (hiding hiderInside) holedZoneQuestion
            (snd (firstAttemptMatching sampleEnv (hiding hiderInside) holedZoneQuestion
                    initialState)))
     = Inr holedZone
   \<and> fst (hiderifyMatchingContainment sampleEnv (hiding hiderInside) hiderOutside
            holedZoneQuestion initialState)
     = Inr (holedZoneQuestion\<lparr>same := False\<rparr>)
   \<and> fst (hiderifyMatchingContainment sampleEnv (hiding hiderInside) hiderInside
            holedZoneQuestion initialState)
     = Inr (holedZoneQuestion\<lparr>same := True\<rparr>)
   \<and> fst (firstAttemptMeasuring (answering twoPlaces) (hiding hiderInside)
            ((sampleMeasuring City)\<lparr>hiderCloser := False\<rparr>) initialState)
     = Inl (Thrown 4)
   \<and> fst (hiderifyMeasuring (answering twoPlaces) (hiding hiderInside)
            ((sampleMeasuring City)\<lparr>hiderCloser := False\<rparr>) initialState)
     = Inr ((sampleMeasuring City)\<lparr>hiderCloser := False\<rparr>)
   \<and> trace (snd (hiderifyMeasuring (answering twoPlaces) (hiding hiderInside)
            ((sampleMeasuring City)\<lparr>hiderCloser := False\<rparr>) initialState))
     = [FindPlacesInZone CitiesQuery, Combine, ModifyMapData, ModifyMapData]"
proof -
  let ?ctx = "hiding hiderInside"
  let ?env = "answering twoPlaces"
  let ?qa = "zoneQuestion\<lparr>same := False\<rparr>"
  let ?qb = "holedZoneQuestion"
  let ?m = "(sampleMeasuring City)\<lparr>hiderCloser := False\<rparr>"
  let ?k = "matchingKey sampleEnv ?ctx ?qa"
  let ?s1 = "initialState\<lparr>matchingCache := [?k \<mapsto> Inr (Boundary (box 0 0 1 1))],
               trace := [ModifyMapData]\<rparr>"
  let ?s2 = "initialState\<lparr>matchingCache := [?k \<mapsto> Inr (Boundary (box 0 0 1 1))],
               trace := [ModifyMapData, ModifyMapData]\<rparr>"
  let ?t1 = "snd (firstAttemptMatching sampleEnv ?ctx ?qb initialState)"
  let ?t2 = "snd (retryMatching sampleEnv ?ctx ?qb ?t1)"
  let ?u1 = "snd (firstAttemptMeasuring ?env ?ctx ?m initialState)"
  let ?u2 = "snd (retryMeasuring ?env ?ctx ?m ?u1)"
  have map: "mapGeoJSON ?ctx \<noteq> Null" "hiderMode ?ctx = Some hiderInside"
    by (simp_all add: hiding_def sampleStores_def box_def)
  have t: "\<not> noBoundaryMatching (type ?qa)" "\<not> noBoundaryMeasuring (type ?m)"
    "same ?qb"
    by (simp_all add: noBoundaryMatching_def noBoundaryMeasuring_def isPlain_def isPlainM_def
          zoneQuestion_def holedZoneQuestion_def sampleMatching_def sampleMeasuring_def)
  have a1: "firstAttemptMatching sampleEnv ?ctx ?qa initialState = (Inl (Thrown 4), ?s1)"
    by (simp add: firstAttemptMatching_def adjustPerMatching_def determineMatchingBoundary_def
          determineMatchingBoundaryBody_def zoneQuestion_def hiding_def sample_defs
          sampleModifyMapData_def io_defs)
  have a2: "retryMatching sampleEnv ?ctx ?qa ?s1 = (Inl (Thrown 4), ?s2)"
    by (simp add: retryMatching_def adjustPerMatching_def determineMatchingBoundary_def
          zoneQuestion_def hiding_def sample_defs sampleModifyMapData_def io_defs)
  have b1: "fst (firstAttemptMatching sampleEnv ?ctx ?qb initialState) = Inl (Thrown 3)"
    by (simp add: firstAttemptMatching_def adjustPerMatching_def determineMatchingBoundary_def
          determineMatchingBoundaryBody_def holedZoneQuestion_def holedZone_def hiding_def
          sample_defs sampleModifyMapData_def io_defs)
  have b2: "fst (retryMatching sampleEnv ?ctx ?qb ?t1) = Inr holedZone"
    by (simp add: retryMatching_def firstAttemptMatching_def adjustPerMatching_def
          determineMatchingBoundary_def determineMatchingBoundaryBody_def
          holedZoneQuestion_def holedZone_def hiding_def sample_defs sampleModifyMapData_def
          io_defs)
  have b3: "holedZone \<noteq> Null" "holedZone \<noteq> Undefined"
    "booleanPointInPolygon (turf sampleEnv)
       (point (longitude hiderOutside) (latitude hiderOutside)) holedZone = Inr True"
    "booleanPointInPolygon (turf sampleEnv)
       (point (longitude hiderInside) (latitude hiderInside)) holedZone = Inr False"
    by (simp_all add: holedZone_def sample_defs samplePointInPolygon_def inRing_def point_def
          worldRing_def hiderInside_def hiderOutside_def)
  have c1: "fst (firstAttemptMeasuring ?env ?ctx ?m initialState) = Inl (Thrown 4)"
    by (simp add: firstAttemptMeasuring_def adjustPerMeasuring_def bufferedDeterminer_def
          bufferedDeterminerBody_def determineMeasuringBoundary_def combined_def
          answering_def twoPlaces_def way_def node_def elementPoint_def turfPoint_def
          sampleCombine_def pointsOf_def point_def firstFeature_def featureCollection_def
          sampleBbox_def hiding_def sample_defs sampleModifyMapData_def io_defs)
  have c2: "fst (retryMeasuring ?env ?ctx ?m ?u1) = Inl (Thrown 4)"
    by (simp add: retryMeasuring_def firstAttemptMeasuring_def adjustPerMeasuring_def
          bufferedDeterminer_def
          bufferedDeterminerBody_def determineMeasuringBoundary_def combined_def
          answering_def twoPlaces_def way_def node_def elementPoint_def turfPoint_def
          sampleCombine_def pointsOf_def point_def firstFeature_def featureCollection_def
          sampleBbox_def hiding_def sample_defs sampleModifyMapData_def io_defs)
  have c3: "trace ?u2 = [FindPlacesInZone CitiesQuery, Combine, ModifyMapData, ModifyMapData]"
    by (simp add: retryMeasuring_def firstAttemptMeasuring_def adjustPerMeasuring_def
          bufferedDeterminer_def
          bufferedDeterminerBody_def determineMeasuringBoundary_def combined_def
          answering_def twoPlaces_def way_def node_def elementPoint_def turfPoint_def
          sampleCombine_def pointsOf_def point_def firstFeature_def featureCollection_def
          sampleBbox_def hiding_def sample_defs sampleModifyMapData_def io_defs)
  note T = mask_adjustment_retry [where ctx = ?ctx and s = initialState]
  have g1: "hiderifyMatching sampleEnv ?ctx ?qa initialState = (Inr ?qa, ?s2)"
    using T [where env = sampleEnv and q = ?qa and ?s1.0 = ?s1 and ?s2.0 = ?s2
               and e = "Thrown 4" and e' = "Thrown 4" and hider = hiderInside]
      map t(1) a1 a2 by blast
  have g2: "fst (hiderifyMatchingContainment sampleEnv ?ctx hiderOutside ?qb initialState)
     = Inr (?qb\<lparr>same := False\<rparr>)"
    using T [where env = sampleEnv and q = ?qb and ?s1.0 = ?t1 and ?s2.0 = ?t2
               and e = "Thrown 3" and feature = holedZone and hider = hiderOutside
               and inside = True]
      map(1) b1 b2 b3(1,2,3) t(3) by (simp add: prod_eq_iff)
  have g3: "fst (hiderifyMatchingContainment sampleEnv ?ctx hiderInside ?qb initialState)
     = Inr (?qb\<lparr>same := True\<rparr>)"
    using T [where env = sampleEnv and q = ?qb and ?s1.0 = ?t1 and ?s2.0 = ?t2
               and e = "Thrown 3" and feature = holedZone and hider = hiderInside
               and inside = False]
      map(1) b1 b2 b3(1,2,4) t(3) by (simp add: prod_eq_iff)
  have g4: "hiderifyMeasuring ?env ?ctx ?m initialState = (Inr ?m, ?u2)"
    using T [where env = ?env and m = ?m and ?s1.0 = ?u1 and ?s2.0 = ?u2
               and e = "Thrown 4" and e' = "Thrown 4" and hider = hiderInside]
      map t(2) c1 c2 by (simp add: prod_eq_iff)
  from a1 have g0: "fst (firstAttemptMatching sampleEnv ?ctx ?qa initialState) = Inl (Thrown 4)"
    by simp
  from g0 g1 b1 b2 g2 g3 c1 g4 c3 show ?thesis by simp
qed

subsection \<open>The nearest-feature strategy of measuring questions\<close>

lemma nearest_feature_plain:
  assumes "hiderMode ctx = Some hider" and "isPlainM (type q)"
    and "nearestToQuestionMeasuring (api env) ctx q = Inr questionNearest"
    and "nearestToQuestionMeasuring (api env) ctx (hiderQuestionMeasuring hider (type q))
           = Inr hiderNearest"
    and "propertiesOf questionNearest = Inr qp" and "propertiesOf hiderNearest = Inr hp"
  shows "hiderifyMeasuring env ctx q s
     = (Inr (q\<lparr>hiderCloser := jsLess (distanceToPoint hp) (distanceToPoint qp)\<rparr>),
        s\<lparr>trace := trace s @ [NearestToQuestion, NearestToQuestion]\<rparr>)"
  using assms
  by (simp add: hiderifyMeasuring_def hiderifyMeasuringNearest_def jsGreater_def io_defs)

lemma nearest_feature_specific:
  assumes "hiderMode ctx = Some hider" and "type q = McDonalds \<or> type q = Seven11"
    and "findPlacesSpecificInZone (api env) ctx
           (if type q = McDonalds then McDonaldsLocation else Seven11Location) = Inr points"
    and "nearestPoint (turf env) (point (lng q) (lat q)) points = Inr nearest"
    and "distance (turf env) (point (lng q) (lat q)) nearest Miles = Inr seekerDistance"
    and "nearestPoint (turf env) (point (longitude hider) (latitude hider)) points
           = Inr hiderNearest"
    and "distance (turf env) (point (longitude hider) (latitude hider)) hiderNearest Miles
           = Inr hiderDistance"
  shows "hiderifyMeasuring env ctx q s
     = (Inr (q\<lparr>hiderCloser := (hiderDistance < seekerDistance)\<rparr>),
        s\<lparr>trace := trace s @
             [FindPlacesSpecificInZone
                (if type q = McDonalds then McDonaldsLocation else Seven11Location)]\<rparr>)"
  using assms
  by (auto simp: hiderifyMeasuring_def isPlainM_def hiderifyMeasuringSpecific_def Let_def
        io_defs)

lemma rail_measure_distances:
  assumes "nearestPoint (turf env) (point (lng q) (lat q))
             (FeatureCollection (map properties_geometry (trainStations ctx))) = Inr nearest"
    and "distance (turf env) (point (lng q) (lat q)) nearest Kilometers = Inr seekerDistance"
    and "nearestPoint (turf env) (point (longitude hider) (latitude hider))
             (FeatureCollection (map properties_geometry (trainStations ctx))) = Inr hiderNearest"
    and "distance (turf env) (point (longitude hider) (latitude hider)) hiderNearest Kilometers
           = Inr hiderDistance"
  shows "railMeasure env ctx hider q s
     = (Inr (q\<lparr>hiderCloser := (hiderDistance < seekerDistance)\<rparr>), s)"
  using assms by (simp add: railMeasure_def Let_def io_defs)

text \<open>With stations cached, the rail-measure verdict goes through the containment path:
  the map itself is the adjusted mask, and a hider inside its holed mask, that is
  outside the map, has the verdict negated.\<close>

lemma rail_measure_then_containment:
  assumes "hiderMode ctx = Some hider" and "type q = RailMeasure" and "trainStations ctx \<noteq> []"
    and "railMeasure env ctx hider q s
           = (Inr (q\<lparr>hiderCloser := (hiderDistance < seekerDistance)\<rparr>), s)"
    and "mapGeoJSON ctx \<noteq> Null"
    and "adjustPerMeasuring env ctx (q\<lparr>hiderCloser := (hiderDistance < seekerDistance)\<rparr>)
           (mapGeoJSON ctx) s = (Inr (mapGeoJSON ctx), s')"
    and "holedMask (utils env) (mapGeoJSON ctx) = Inr feature"
    and "feature \<noteq> Null" and "feature \<noteq> Undefined"
    and "booleanPointInPolygon (turf env) (point (longitude hider) (latitude hider)) feature
           = Inr outsideMap"
  shows "hiderifyMeasuring env ctx q s
     = (Inr (q\<lparr>hiderCloser := (if outsideMap then \<not> hiderDistance < seekerDistance
                                 else hiderDistance < seekerDistance)\<rparr>), s')"
proof -
  let ?q = "q\<lparr>hiderCloser := (hiderDistance < seekerDistance)\<rparr>"
  have "hiderifyMeasuring env ctx q s = hiderifyMeasuringContainment env ctx hider ?q s"
    using assms(4) by (simp add: rail_measure_continues [OF assms(1-3)] andThen_def)
  also have "\<dots> = (Inr (?q\<lparr>hiderCloser := (if outsideMap then \<not> hiderCloser ?q
                                              else hiderCloser ?q)\<rparr>), s')"
    by (rule tested_feature_measuring
          [OF assms(5) first_attempt_measuring [OF assms(6,7)] assms(8-10)])
  finally show ?thesis by simp
qed

text \<open>
  C7. The seeker at (3, 0) is 3 from the only cached station, at (0, 0), and the hider
  at (1, 0) is 1 from it, so the hider is strictly closer and the rail-measure code
  sets \<open>hiderCloser\<close> to true. The function does not return there: the containment path
  follows, where the hider, outside the map from (2, -1) to (4, 1), lies inside the
  holed mask of the map, and \<open>hiderCloser\<close> is negated. The question comes back with
  \<open>hiderCloser\<close> false.
\<close>

theorem rail_measure_closer_hider_reported_farther:
  "distance (turf sampleEnv) (point 1 0) (point 0 0) Kilometers = Inr 1
   \<and> distance (turf sampleEnv) (point 3 0) (point 0 0) Kilometers = Inr 3
   \<and> railMeasure sampleEnv railStores \<lparr>latitude = 0, longitude = 1\<rparr> railQuestion initialState
     = (Inr (railQuestion\<lparr>hiderCloser := True\<rparr>), initialState)
   \<and> booleanPointInPolygon (turf sampleEnv) (point 1 0) (mapGeoJSON railStores) = Inr False
   \<and> hiderifyMeasuring sampleEnv railStores railQuestion initialState
     = (Inr (railQuestion\<lparr>hiderCloser := False\<rparr>),
        initialState\<lparr>bufferCache :=
          [measuringKey sampleEnv railStores railQuestion \<mapsto> Inr NoBoundary]\<rparr>)"
proof -
  let ?h = "\<lparr>latitude = 0, longitude = 1\<rparr>"
  let ?s' = "initialState\<lparr>bufferCache :=
          [measuringKey sampleEnv railStores railQuestion \<mapsto> Inr NoBoundary]\<rparr>"
  let ?f = "Feature (Polygon [worldRing, [(2, -1), (4, 1)]]) None"
  have d: "distance (turf sampleEnv) (point 1 0) (point 0 0) Kilometers = Inr 1"
    "distance (turf sampleEnv) (point 3 0) (point 0 0) Kilometers = Inr 3"
    by (simp_all add: sample_defs sampleDistance_def point_def)
  have q: "lng railQuestion = 3" "lat railQuestion = 0" "type railQuestion = RailMeasure"
    "longitude ?h = 1" "latitude ?h = 0"
    by (simp_all add: railQuestion_def sampleMeasuring_def)
  have c: "hiderMode railStores = Some ?h" "trainStations railStores \<noteq> []"
    "mapGeoJSON railStores \<noteq> Null" "mapGeoJSON railStores = box 2 (-1) 4 1"
    "map properties_geometry (trainStations railStores) = [point 0 0]"
    by (simp_all add: railStores_def box_def)
  have n: "\<And>p. nearestPoint (turf sampleEnv) p (FeatureCollection [point 0 0]) = Inr (point 0 0)"
    by (simp add: sample_defs sampleNearestPoint_def)
  have "railMeasure sampleEnv railStores ?h railQuestion initialState
     = (Inr (railQuestion\<lparr>hiderCloser := ((1::real) < 3)\<rparr>), initialState)"
  proof (rule rail_measure_distances)
    show "nearestPoint (turf sampleEnv) (point (lng railQuestion) (lat railQuestion))
            (FeatureCollection (map properties_geometry (trainStations railStores)))
          = Inr (point 0 0)"
      by (simp only: c(5) n)
    show "nearestPoint (turf sampleEnv) (point (longitude ?h) (latitude ?h))
            (FeatureCollection (map properties_geometry (trainStations railStores)))
          = Inr (point 0 0)"
      by (simp only: c(5) n)
    show "distance (turf sampleEnv) (point (lng railQuestion) (lat railQuestion)) (point 0 0)
            Kilometers = Inr 3"
      by (simp only: q d)
    show "distance (turf sampleEnv) (point (longitude ?h) (latitude ?h)) (point 0 0)
            Kilometers = Inr 1"
      by (simp only: q d)
  qed
  then have r: "railMeasure sampleEnv railStores ?h railQuestion initialState
     = (Inr (railQuestion\<lparr>hiderCloser := True\<rparr>), initialState)"
    by simp
  have k: "measuringKey sampleEnv railStores (railQuestion\<lparr>hiderCloser := True\<rparr>)
           = measuringKey sampleEnv railStores railQuestion"
    by (simp add: measuringKey_def)
  have b: "noBoundaryMeasuring (type (railQuestion\<lparr>hiderCloser := True\<rparr>))"
    "bbox_of (turf sampleEnv) (mapGeoJSON railStores) = Inr (2, -1, 4, 1)"
    "bufferCache initialState
       (measuringKey sampleEnv railStores (railQuestion\<lparr>hiderCloser := True\<rparr>)) = None"
    "bufferCache initialState = Map.empty"
    by (simp_all add: noBoundaryMeasuring_def q railStores_def sample_defs sampleBbox_def)
  have a: "adjustPerMeasuring sampleEnv railStores (railQuestion\<lparr>hiderCloser := True\<rparr>)
             (mapGeoJSON railStores) initialState
           = (Inr (mapGeoJSON railStores), ?s')"
    by (simp only: adjust_measuring_sentinel [OF b(1,2) c(3) disjI1 [OF b(3)]] k b(4))
  have h: "holedMask (utils sampleEnv) (mapGeoJSON railStores) = Inr ?f"
    "?f \<noteq> Null" "?f \<noteq> Undefined"
    "booleanPointInPolygon (turf sampleEnv) (point (longitude ?h) (latitude ?h)) ?f = Inr True"
    "booleanPointInPolygon (turf sampleEnv) (point 1 0) (mapGeoJSON railStores) = Inr False"
    by (simp_all add: railStores_def sample_defs samplePointInPolygon_def inRing_def point_def
          worldRing_def)
  have r1: "railMeasure sampleEnv railStores ?h railQuestion initialState
     = (Inr (railQuestion\<lparr>hiderCloser := ((1::real) < 3)\<rparr>), initialState)"
    and a1: "adjustPerMeasuring sampleEnv railStores
               (railQuestion\<lparr>hiderCloser := ((1::real) < 3)\<rparr>) (mapGeoJSON railStores)
               initialState
             = (Inr (mapGeoJSON railStores), ?s')"
    using r a by simp_all
  have "hiderifyMeasuring sampleEnv railStores railQuestion initialState
     = (Inr (railQuestion\<lparr>hiderCloser := (if True then \<not> (1::real) < 3 else (1::real) < 3)\<rparr>),
        ?s')"
    by (rule rail_measure_then_containment [OF c(1) q(3) c(2) r1 c(3) a1 h(1-4)])
  then have g: "hiderifyMeasuring sampleEnv railStores railQuestion initialState
     = (Inr (railQuestion\<lparr>hiderCloser := False\<rparr>), ?s')"
    by simp
  from d r h(5) g show ?thesis by blast
qed

end
